theory Spec2Isabelle
  imports Main "HOL-Library.Multiset" "HOL-Library.List_Lexorder" "HOL-Library.Char_ord"
begin

section \<open>NeutralPress Cloud: scheduling and delivery pipeline\<close>

text \<open>
  A shallow embedding of the TypeScript sources of the control plane. JavaScript numbers
  that hold integers are \<open>int\<close>; a number that may be \<open>undefined\<close> or \<open>NaN\<close> is
  \<open>int option\<close> with \<open>None\<close> for both. Instants are milliseconds since the epoch
  (what \<open>Date.getTime()\<close> returns); an ISO-8601 string produced by \<open>toISOString()\<close>
  is identified with the instant it denotes. Every clock read, random draw, network
  outcome and platform parser is an explicit input of the function that uses it.
\<close>

subsection \<open>utils.ts: parsePositiveInt\<close>

text \<open>
  Strings are lists of 8-bit characters, that is, strings whose code units are below
  \<open>0x100\<close>. Among these the white space that \<open>parseInt\<close> and \<open>trim\<close> skip is
  \<open>0x09\<close> to \<open>0x0D\<close>, the space \<open>0x20\<close> and the no-break space \<open>0xA0\<close>.
\<close>

definition isStrWhiteSpaceChar :: "char \<Rightarrow> bool" where
  "isStrWhiteSpaceChar c =
     (c \<in> set [CHR 0x09, CHR 0x0A, CHR 0x0B, CHR 0x0C, CHR 0x0D, CHR 0x20, CHR 0xA0])"

definition isDecimalDigit :: "char \<Rightarrow> bool" where
  "isDecimalDigit c = (CHR ''0'' \<le> c \<and> c \<le> CHR ''9'')"

definition digitValue :: "char \<Rightarrow> int" where
  "digitValue c = int (of_char c) - 48"

definition digitsValue :: "string \<Rightarrow> int" where
  "digitsValue ds = foldl (\<lambda>acc c. acc * 10 + digitValue c) 0 ds"

text \<open>
  The Number value of a natural number: the nearest double, a tie going to the even
  significand of 53 bits. From \<open>2^1024 - 2^970\<close> on the value is \<open>Infinity\<close>
  (\<open>None\<close>).
\<close>

fun bitLength :: "nat \<Rightarrow> nat" where
  "bitLength n = (if n = 0 then 0 else Suc (bitLength (n div 2)))"

declare bitLength.simps [simp del]

definition roundToDouble :: "nat \<Rightarrow> nat option" where
  "roundToDouble n =
     (if n < 2 ^ 53 then Some n
      else (let e = bitLength n - 53;
                q = n div 2 ^ e;
                r = n mod 2 ^ e;
                q' = (if 2 * r > 2 ^ e \<or> (2 * r = 2 ^ e \<and> odd q) then q + 1 else q);
                v = q' * 2 ^ e
            in if v < 2 ^ 1024 then Some v else None))"

text \<open>
  \<open>Number.parseInt(raw, 10)\<close>: leading white space is skipped, one optional sign is
  read, then the longest prefix of decimal digits. The result is the Number value of the
  integer they denote. \<open>None\<close> is a result that is not finite: \<open>NaN\<close> when there is no
  digit, or an infinity; \<open>parsePositiveInt\<close> only asks \<open>Number.isFinite\<close> of it.
\<close>

definition parseInt10 :: "string \<Rightarrow> int option" where
  "parseInt10 raw =
     (let s = dropWhile isStrWhiteSpaceChar raw;
          neg = (s \<noteq> [] \<and> hd s = CHR ''-'');
          body = (if s \<noteq> [] \<and> (hd s = CHR ''-'' \<or> hd s = CHR ''+'') then tl s else s);
          ds = takeWhile isDecimalDigit body
      in if ds = [] then None
         else (case roundToDouble (nat (digitsValue ds)) of
                 None \<Rightarrow> None
               | Some v \<Rightarrow> Some (if neg then - int v else int v)))"

text \<open>
  \<open>parsePositiveInt(raw, fallback)\<close>: \<open>!raw\<close> holds for \<open>undefined\<close> (\<open>None\<close>) and
  for the empty string.
\<close>

definition parsePositiveInt :: "string option \<Rightarrow> int \<Rightarrow> int" where
  "parsePositiveInt raw fallback =
     (case raw of
        None \<Rightarrow> fallback
      | Some s \<Rightarrow>
          if s = [] then fallback
          else (case parseInt10 s of
                  None \<Rightarrow> fallback
                | Some v \<Rightarrow> if v > 0 then v else fallback))"

subsection \<open>db-delivery.ts: the per-minute dispatch quota\<close>

datatype DispatchSource = Scheduled | Retry

text \<open>A row of \<open>dispatch_minute_load\<close>; the table is keyed by \<open>minute_start\<close>.\<close>

record minute_load =
  scheduled_count :: int
  retry_count :: int
  total_count :: int
  created_at :: int
  updated_at :: int

type_synonym load_table = "int \<rightharpoonup> minute_load"

text \<open>What \<open>reserveDispatchSlot\<close> returns when it is not \<open>null\<close>.\<close>

record reserved_slot =
  minuteStart :: int
  offsetMinutes :: int
  totalCount :: int
  scheduledCount :: int
  retryCount :: int

definition floorToMinute :: "int \<Rightarrow> int" where
  "floorToMinute t = t - t mod 60000"

text \<open>
  \<open>normalizePreferredDate\<close>: an invalid date (\<open>None\<close>) is replaced by the current
  time \<open>nowDate\<close>.
\<close>

definition normalizePreferredDate :: "int option \<Rightarrow> int \<Rightarrow> int" where
  "normalizePreferredDate preferredAt nowDate =
     (case preferredAt of None \<Rightarrow> floorToMinute nowDate | Some d \<Rightarrow> floorToMinute d)"

text \<open>
  The SQL statement of the loop body:
  \<open>INSERT ... VALUES (m, sInc, rInc, 1, now, now) ON CONFLICT(minute_start) DO UPDATE
  SET ... WHERE dispatch_minute_load.total_count < max RETURNING ...\<close>.
  It yields the new table and the returned row, if any.
\<close>

definition upsert_minute ::
  "load_table \<Rightarrow> int \<Rightarrow> int \<Rightarrow> int \<Rightarrow> int \<Rightarrow> int \<Rightarrow> load_table \<times> minute_load option" where
  "upsert_minute tbl m sInc rInc now maxPerMinute =
     (case tbl m of
        None \<Rightarrow>
          (let row = \<lparr>scheduled_count = sInc, retry_count = rInc, total_count = 1,
                      created_at = now, updated_at = now\<rparr>
           in (tbl(m \<mapsto> row), Some row))
      | Some r \<Rightarrow>
          if total_count r < maxPerMinute then
            (let row = r\<lparr>scheduled_count := scheduled_count r + sInc,
                          retry_count := retry_count r + rInc,
                          total_count := total_count r + 1,
                          updated_at := now\<rparr>
             in (tbl(m \<mapsto> row), Some row))
          else (tbl, None))"

text \<open>
  The \<open>for\<close> loop of \<open>reserveDispatchSlot\<close>, from \<open>offset\<close> on. \<open>clock offset\<close> is
  what \<open>nowIso()\<close> returns in the iteration for \<open>offset\<close>.
\<close>

function reserve_loop ::
  "load_table \<Rightarrow> int \<Rightarrow> int \<Rightarrow> int \<Rightarrow> int \<Rightarrow> int \<Rightarrow> (int \<Rightarrow> int) \<Rightarrow> int
    \<Rightarrow> load_table \<times> reserved_slot option" where
  "reserve_loop tbl baseMinute sInc rInc maxPerMinute lookaheadMinutes clock offset =
     (if offset \<le> lookaheadMinutes then
        (let minuteStartV = baseMinute + offset * 60000 in
         case upsert_minute tbl minuteStartV sInc rInc (clock offset) maxPerMinute of
           (tbl', None) \<Rightarrow>
             reserve_loop tbl' baseMinute sInc rInc maxPerMinute lookaheadMinutes clock (offset + 1)
         | (tbl', Some row) \<Rightarrow>
             (tbl', Some \<lparr>minuteStart = minuteStartV, offsetMinutes = offset,
                          totalCount = total_count row,
                          scheduledCount = scheduled_count row,
                          retryCount = retry_count row\<rparr>))
      else (tbl, None))"
  by pat_completeness auto
termination
  by (relation "measure (\<lambda>(tbl, b, s, r, mx, la, clock, offset). nat (la + 1 - offset))") auto

declare reserve_loop.simps [simp del]

record reserve_input =
  preferredAt :: "int option"
  source :: DispatchSource
  lookaheadMinutes :: int
  nowDate :: int
  clock :: "int \<Rightarrow> int"

definition reserveDispatchSlot ::
  "load_table \<Rightarrow> int \<Rightarrow> reserve_input \<Rightarrow> load_table \<times> reserved_slot option" where
  "reserveDispatchSlot tbl maxPerMinute inp =
     (let baseMinute = normalizePreferredDate (preferredAt inp) (nowDate inp);
          scheduledInc = (if source inp = Scheduled then 1 else 0);
          retryInc = (if source inp = Retry then 1 else 0)
      in reserve_loop tbl baseMinute scheduledInc retryInc maxPerMinute
           (lookaheadMinutes inp) (clock inp) 0)"

text \<open>A sequence of reservations against one table, with one quota.\<close>

fun reserve_all :: "int \<Rightarrow> load_table \<Rightarrow> reserve_input list \<Rightarrow> load_table" where
  "reserve_all maxPerMinute tbl [] = tbl"
| "reserve_all maxPerMinute tbl (c # cs) =
     reserve_all maxPerMinute (fst (reserveDispatchSlot tbl maxPerMinute c)) cs"

text \<open>The capacity condition of the upsert on one minute.\<close>

definition has_capacity :: "load_table \<Rightarrow> int \<Rightarrow> int \<Rightarrow> bool" where
  "has_capacity tbl maxPerMinute m =
     (case tbl m of None \<Rightarrow> True | Some r \<Rightarrow> total_count r < maxPerMinute)"

text \<open>The two conditions the schema's \<open>CHECK\<close> and the quota put on every row.\<close>

definition load_inv :: "int \<Rightarrow> load_table \<Rightarrow> bool" where
  "load_inv maxPerMinute tbl =
     (\<forall>m r. tbl m = Some r \<longrightarrow>
        total_count r = scheduled_count r + retry_count r \<and> total_count r \<le> maxPerMinute)"

text \<open>The local \<open>baseMinute\<close> of \<open>reserveDispatchSlot\<close>.\<close>

definition baseMinute :: "reserve_input \<Rightarrow> int" where
  "baseMinute inp = normalizePreferredDate (preferredAt inp) (nowDate inp)"

text \<open>The table holds one row, for \<open>base\<close>, with \<open>c\<close> reservations (none when \<open>c = 0\<close>).\<close>

definition holds_only :: "load_table \<Rightarrow> int \<Rightarrow> int \<Rightarrow> bool" where
  "holds_only tbl base c =
     ((\<forall>m. m \<noteq> base \<longrightarrow> tbl m = None) \<and>
      (if c = 0 then tbl base = None else (\<exists>r. tbl base = Some r \<and> total_count r = c)))"


subsection \<open>utils.ts: strings\<close>

text \<open>
  \<open>trim\<close> removes the white space of \<open>isStrWhiteSpaceChar\<close> at both ends.
  \<open>toLowerCase\<close> maps the letters \<open>A\<close> to \<open>Z\<close> and, above \<open>0x7F\<close>, the letters
  \<open>0xC0\<close> to \<open>0xDE\<close> other than the multiplication sign \<open>0xD7\<close>, each to the code unit
  \<open>0x20\<close> above it.
\<close>

definition trim :: "string \<Rightarrow> string" where
  "trim s = rev (dropWhile isStrWhiteSpaceChar (rev (dropWhile isStrWhiteSpaceChar s)))"

definition lowerChar :: "char \<Rightarrow> char" where
  "lowerChar c =
     (if (CHR ''A'' \<le> c \<and> c \<le> CHR ''Z'') \<or> (CHR 0xC0 \<le> c \<and> c \<le> CHR 0xDE \<and> c \<noteq> CHR 0xD7)
      then char_of (of_char c + (32::nat)) else c)"

definition toLowerCase :: "string \<Rightarrow> string" where
  "toLowerCase s = map lowerChar s"

definition startsWith :: "string \<Rightarrow> string \<Rightarrow> bool" where
  "startsWith s p = (take (length p) s = p)"

definition endsWith :: "string \<Rightarrow> string \<Rightarrow> bool" where
  "endsWith s p = (length p \<le> length s \<and> drop (length s - length p) s = p)"

text \<open>\<open>normalizeNullableString\<close>; \<open>None\<close> is a value that is not a string.\<close>

definition normalizeNullableString :: "string option \<Rightarrow> string option" where
  "normalizeNullableString v =
     (case v of
        None \<Rightarrow> None
      | Some s \<Rightarrow> (let trimmed = trim s in if length trimmed > 0 then Some trimmed else None))"

subsection \<open>JSON values\<close>

text \<open>
  A value as \<open>JSON.parse\<close> returns it. A number is kept as the text that
  \<open>JSON.stringify\<close> emits for it (\<open>''0''\<close> for zero, \<open>''1''\<close> for one), so no floating
  point arithmetic is needed. An object is the list of its own properties in the order
  in which JavaScript enumerates them.
\<close>

datatype json =
    JNull
  | JBool bool
  | JNum string
  | JStr string
  | JArr "json list"
  | JObj "(string \<times> json) list"

subsection \<open>The runtime and constants.ts\<close>

text \<open>What \<open>new URL(raw)\<close> exposes of a parsed URL.\<close>

record parsed_url =
  protocol :: string
  hostname :: string
  host :: string

text \<open>\<open>SignaturePayload\<close> of schemas.ts.\<close>

record SignaturePayload =
  alg :: string
  ts :: string
  nonce :: string
  sig :: string
  kid :: "string option"

text \<open>
  Functions of the JavaScript runtime and of libraries, and the constants of
  \<open>constants.ts\<close>, which the sources use but do not define. They are parameters of the
  model: \<open>parseURL\<close> is \<open>new URL\<close> (\<open>None\<close> when it throws), \<open>dateParse\<close> is
  \<open>Date.parse\<close> (\<open>None\<close> for \<open>NaN\<close>), \<open>toISOString\<close> is \<open>Date.toISOString\<close>,
  \<open>JSON_parse\<close> is \<open>JSON.parse\<close> (\<open>None\<close> when it throws), \<open>isUuid\<close> and \<open>isUrl\<close>
  are the validators behind \<open>z.string().uuid()\<close> and \<open>z.string().url()\<close>, and
  \<open>verifySigned method path payload signature publicKey\<close> is \<open>verifySignedPayload\<close>
  of security.ts, whose result is that of the Ed25519 verification of the Web Crypto API.
  \<open>d1Message\<close> is the \<open>message\<close> of the \<open>Error\<close> that a D1 statement throws.
\<close>

datatype d1_error = D1_TYPE_ERROR | UNIQUE_CONSTRAINT | FOREIGN_KEY_CONSTRAINT

record platform =
  parseURL :: "string \<Rightarrow> parsed_url option"
  dateParse :: "string \<Rightarrow> int option"
  toISOString :: "int \<Rightarrow> string"
  JSON_parse :: "string \<Rightarrow> json option"
  isUuid :: "string \<Rightarrow> bool"
  isUrl :: "string \<Rightarrow> bool"
  verifySigned :: "string \<Rightarrow> string \<Rightarrow> json \<Rightarrow> SignaturePayload \<Rightarrow> string \<Rightarrow> bool"
  d1Message :: "d1_error \<Rightarrow> string"
  SIGNATURE_WINDOW_MS :: int
  MAX_SLOT_LOOKAHEAD_MINUTES :: int
  DEFAULT_MAX_DISPATCH_PER_MINUTE :: int

subsection \<open>utils.ts: evaluateSiteUrl and computeNextRunAt\<close>

record site_url_eval =
  url :: "string option"
  pendingReason :: "string option"

definition evaluateSiteUrl :: "platform \<Rightarrow> string option \<Rightarrow> site_url_eval" where
  "evaluateSiteUrl P siteUrl =
     (case normalizeNullableString siteUrl of
        None \<Rightarrow> \<lparr>url = None, pendingReason = Some ''pending_url_missing''\<rparr>
      | Some raw \<Rightarrow>
          (case parseURL P raw of
             None \<Rightarrow> \<lparr>url = None, pendingReason = Some ''pending_url_invalid''\<rparr>
           | Some parsed \<Rightarrow>
               if protocol parsed \<noteq> ''http:'' \<and> protocol parsed \<noteq> ''https:'' then
                 \<lparr>url = None, pendingReason = Some ''pending_url_invalid_protocol''\<rparr>
               else
                 (let hostnameV = toLowerCase (hostname parsed) in
                  if hostnameV = ''example.com'' then
                    \<lparr>url = None, pendingReason = Some ''pending_url_default_example''\<rparr>
                  else if hostnameV = ''localhost'' \<or> hostnameV = ''127.0.0.1'' \<or>
                          hostnameV = ''::1'' \<or> endsWith hostnameV ''.localhost'' \<or>
                          endsWith hostnameV ''.local'' \<or> startsWith hostnameV ''127.'' then
                    \<lparr>url = None, pendingReason = Some ''pending_url_localhost''\<rparr>
                  else
                    \<lparr>url = Some (protocol parsed @ ''//'' @ host parsed),
                     pendingReason = None\<rparr>)))"

datatype InstanceStatus = Active | PendingUrl | Disabled

text \<open>
  \<open>input.pendingReason ? "pending_url" : "active"\<close> of \<open>upsertInstance\<close>: a string is
  truthy when it is not empty.
\<close>

definition statusOfPendingReason :: "string option \<Rightarrow> InstanceStatus" where
  "statusOfPendingReason pr =
     (case pr of None \<Rightarrow> Active | Some s \<Rightarrow> if s = [] then Active else PendingUrl)"

text \<open>
  \<open>computeNextRunAt\<close>: the candidate is the start of the UTC day of \<open>baseDate\<close> plus
  \<open>hour\<close> hours and \<open>minute\<close> minutes; it moves one day on when it is not after
  \<open>baseDate\<close>.
\<close>

definition computeNextRunAt :: "int \<Rightarrow> int \<Rightarrow> int" where
  "computeNextRunAt minuteOfDay baseDate =
     (let hour = minuteOfDay div 60;
          minute = minuteOfDay mod 60;
          candidate = (baseDate - baseDate mod 86400000) + hour * 3600000 + minute * 60000
      in if candidate \<le> baseDate then candidate + 86400000 else candidate)"

subsection \<open>The store\<close>

text \<open>
  Rows of the tables of \<open>schema/init.sql\<close>. A column that shares its name with a column
  of another table carries the table's prefix. A timestamp column holds an instant.
\<close>

record instance_row =
  instance_id :: string
  site_id :: string
  site_url :: "string option"
  status :: InstanceStatus
  pending_reason :: "string option"
  site_pub_key :: string
  site_key_alg :: string
  minute_of_day :: int
  next_run_at :: "int option"
  last_seen_at :: "int option"
  last_success_at :: "int option"
  app_version :: "string option"
  build_id :: "string option"
  commit_hash :: "string option"
  inst_created_at :: int
  inst_updated_at :: int

record build_event =
  be_instance_id :: string
  built_at :: int
  be_app_version :: "string option"
  be_build_id :: "string option"
  be_commit_hash :: "string option"
  idempotency_key :: string
  be_created_at :: int

datatype DeliveryStatus = Queued | Delivered | Failed | Dead

record delivery_row =
  dlv_instance_id :: string
  scheduled_for :: int
  enqueued_at :: int
  delivery_status :: DeliveryStatus
  attempt_count :: int
  response_status :: "int option"
  accepted :: "int option"
  dedup_hit :: "int option"
  last_error_code :: "string option"
  last_error_message :: "string option"
  completed_at :: "int option"
  dlv_created_at :: int
  dlv_updated_at :: int

record attempt_row =
  delivery_id :: string
  attempt_no :: int
  started_at :: int
  ended_at :: int
  http_status :: "int option"
  timeout :: int
  error_code :: "string option"
  error_message :: "string option"
  att_created_at :: int

text \<open>
  Of \<open>telemetry_samples\<close> only the key and the two flags are kept: no modelled operation
  reads the other columns.
\<close>

record telemetry_row =
  tel_delivery_id :: string
  tel_instance_id :: string
  tel_accepted :: int
  tel_dedup_hit :: int

record store =
  instances :: "instance_row list"
  build_events :: "build_event list"
  deliveries :: "string \<rightharpoonup> delivery_row"
  delivery_attempts :: "attempt_row list"
  dispatch_minute_load :: load_table
  telemetry_samples :: "telemetry_row list"

subsection \<open>db-instance.ts\<close>

definition getInstanceBySiteId :: "store \<Rightarrow> string \<Rightarrow> instance_row option" where
  "getInstanceBySiteId st siteIdV = find (\<lambda>r. site_id r = siteIdV) (instances st)"

definition getInstanceByInstanceId :: "store \<Rightarrow> string \<Rightarrow> instance_row option" where
  "getInstanceByInstanceId st instanceIdV = find (\<lambda>r. instance_id r = instanceIdV) (instances st)"

text \<open>\<open>randomMinuteOfDay\<close>, from the 16-bit value that \<open>crypto.getRandomValues\<close> drew.\<close>

definition randomMinuteOfDay :: "nat \<Rightarrow> int" where
  "randomMinuteOfDay random16 = int (random16 mod 1440)"

record upsert_input =
  up_existing :: "instance_row option"
  up_siteId :: string
  up_sitePubKey :: string
  up_siteKeyAlg :: string
  up_normalizedSiteUrl :: "string option"
  up_pendingReason :: "string option"
  up_appVersion :: "string option"
  up_buildId :: "string option"
  up_commitHash :: "string option"

record upsert_result =
  res_instanceId :: string
  res_minuteOfDay :: int
  res_status :: InstanceStatus
  res_nextRunAt :: "int option"

text \<open>
  What \<open>upsertInstance\<close> reads from outside: \<open>nowIso()\<close>, \<open>new Date()\<close>,
  \<open>generateInstanceId()\<close> and the random value of \<open>randomMinuteOfDay()\<close>.
\<close>

record upsert_io =
  io_now :: int
  io_newDate :: int
  io_generatedInstanceId :: string
  io_random16 :: nat

definition upsertInstance :: "store \<Rightarrow> upsert_input \<Rightarrow> upsert_io \<Rightarrow> store \<times> upsert_result" where
  "upsertInstance st inp io =
     (let now = io_now io;
          statusV = statusOfPendingReason (up_pendingReason inp)
      in case up_existing inp of
        None \<Rightarrow>
          (let instanceIdV = io_generatedInstanceId io;
               minuteOfDayV = randomMinuteOfDay (io_random16 io);
               nextRunAtV = (if statusV = Active
                             then Some (computeNextRunAt minuteOfDayV (io_newDate io)) else None);
               row = \<lparr>instance_id = instanceIdV, site_id = up_siteId inp,
                      site_url = up_normalizedSiteUrl inp, status = statusV,
                      pending_reason = up_pendingReason inp,
                      site_pub_key = up_sitePubKey inp, site_key_alg = up_siteKeyAlg inp,
                      minute_of_day = minuteOfDayV, next_run_at = nextRunAtV,
                      last_seen_at = Some now, last_success_at = None,
                      app_version = up_appVersion inp, build_id = up_buildId inp,
                      commit_hash = up_commitHash inp,
                      inst_created_at = now, inst_updated_at = now\<rparr>
           in (st\<lparr>instances := instances st @ [row]\<rparr>,
               \<lparr>res_instanceId = instanceIdV, res_minuteOfDay = minuteOfDayV,
                res_status = statusV, res_nextRunAt = nextRunAtV\<rparr>))
      | Some existing \<Rightarrow>
          (let instanceIdV = instance_id existing;
               minuteOfDayV = minute_of_day existing;
               nextRunAtV = (if statusV = Active
                             then Some (computeNextRunAt minuteOfDayV (io_newDate io)) else None);
               upd = (\<lambda>r. if site_id r = up_siteId inp then
                        r\<lparr>site_url := up_normalizedSiteUrl inp, status := statusV,
                          pending_reason := up_pendingReason inp,
                          site_pub_key := site_pub_key existing,
                          site_key_alg := up_siteKeyAlg inp,
                          minute_of_day := minuteOfDayV, next_run_at := nextRunAtV,
                          last_seen_at := Some now,
                          app_version := up_appVersion inp, build_id := up_buildId inp,
                          commit_hash := up_commitHash inp, inst_updated_at := now\<rparr>
                      else r)
           in (st\<lparr>instances := map upd (instances st)\<rparr>,
               \<lparr>res_instanceId = instanceIdV, res_minuteOfDay = minuteOfDayV,
                res_status = statusV, res_nextRunAt = nextRunAtV\<rparr>)))"

text \<open>\<open>insertBuildEvent\<close>: \<open>INSERT OR IGNORE\<close> on the unique \<open>idempotency_key\<close>.\<close>

definition insertBuildEvent :: "store \<Rightarrow> build_event \<Rightarrow> store" where
  "insertBuildEvent st ev =
     (if \<exists>e \<in> set (build_events st). idempotency_key e = idempotency_key ev then st
      else st\<lparr>build_events := build_events st @ [ev]\<rparr>)"

subsection \<open>app.ts: POST /v1/instances/sync\<close>

text \<open>\<open>SyncRequestPayload\<close>: what \<open>syncRequestSchema\<close> yields for a body it accepts.\<close>

record SyncRequestPayload =
  sync_siteId :: string
  sitePubKey :: string
  siteKeyAlg :: string
  sync_siteUrl :: "string option"
  appVersion :: "string option"
  buildId :: "string option"
  commit :: "string option"
  builtAt :: "string option"
  idempotencyKey :: "string option"
  signature :: SignaturePayload

definition isFreshTimestamp :: "platform \<Rightarrow> string \<Rightarrow> int \<Rightarrow> int \<Rightarrow> bool" where
  "isFreshTimestamp P timestamp toleranceMs dateNow =
     (case dateParse P timestamp of
        None \<Rightarrow> False
      | Some time \<Rightarrow> \<bar>dateNow - time\<bar> \<le> toleranceMs)"

definition normalizeIsoOrFallback :: "platform \<Rightarrow> string option \<Rightarrow> int \<Rightarrow> int" where
  "normalizeIsoOrFallback P v fallback =
     (case normalizeNullableString v of
        None \<Rightarrow> fallback
      | Some normalized \<Rightarrow>
          (case dateParse P normalized of None \<Rightarrow> fallback | Some parsed \<Rightarrow> parsed))"

definition jsonOfStringOption :: "string option \<Rightarrow> json" where
  "jsonOfStringOption v = (case v of None \<Rightarrow> JNull | Some s \<Rightarrow> JStr s)"

text \<open>
  \<open>payloadToVerify\<close> of the handler. \<open>input.minuteOfDay\<close> is always \<open>undefined\<close>:
  \<open>syncRequestSchema\<close> has no such key and \<open>z.object\<close> drops the keys it does not
  declare.
\<close>

definition syncPayloadToVerify :: "SyncRequestPayload \<Rightarrow> json" where
  "syncPayloadToVerify inp =
     JObj [(''siteId'', JStr (sync_siteId inp)),
           (''sitePubKey'', JStr (sitePubKey inp)),
           (''siteKeyAlg'', JStr (siteKeyAlg inp)),
           (''siteUrl'', jsonOfStringOption (sync_siteUrl inp)),
           (''appVersion'', jsonOfStringOption (appVersion inp)),
           (''buildId'', jsonOfStringOption (buildId inp)),
           (''commit'', jsonOfStringOption (commit inp)),
           (''builtAt'', jsonOfStringOption (builtAt inp)),
           (''idempotencyKey'', jsonOfStringOption (idempotencyKey inp))]"

datatype sync_response =
    BAD_REQUEST
  | SIGNATURE_TIMESTAMP_EXPIRED
  | INVALID_SIGNATURE
  | Synced upsert_result "string option"

text \<open>
  What the handler reads from outside: \<open>Date.now()\<close> of the freshness check, the
  \<open>nowIso()\<close> that is the fallback of \<open>builtAt\<close>, the reads of \<open>upsertInstance\<close>, and
  the \<open>nowIso()\<close> of \<open>insertBuildEvent\<close>.
\<close>

record sync_io =
  sio_dateNow :: int
  sio_builtAtFallback :: int
  sio_upsert :: upsert_io
  sio_eventNow :: int

text \<open>
  The handler of \<open>POST /v1/instances/sync\<close>. The body is given as the result of
  \<open>syncRequestSchema.safeParse\<close> (\<open>None\<close> when it fails).
\<close>

definition syncHandler ::
  "platform \<Rightarrow> store \<Rightarrow> SyncRequestPayload option \<Rightarrow> sync_io \<Rightarrow> store \<times> sync_response" where
  "syncHandler P st parsed io =
     (case parsed of
        None \<Rightarrow> (st, BAD_REQUEST)
      | Some inp \<Rightarrow>
          if \<not> isFreshTimestamp P (ts (signature inp)) (SIGNATURE_WINDOW_MS P) (sio_dateNow io)
          then (st, SIGNATURE_TIMESTAMP_EXPIRED)
          else
            (let existing = getInstanceBySiteId st (sync_siteId inp);
                 verifyPublicKey = (case existing of Some e \<Rightarrow> site_pub_key e
                                    | None \<Rightarrow> sitePubKey inp);
                 verified = verifySigned P ''POST'' ''/v1/instances/sync''
                              (syncPayloadToVerify inp) (signature inp) verifyPublicKey
             in if \<not> verified then (st, INVALID_SIGNATURE)
                else
                  (let normalizedUrl = evaluateSiteUrl P (sync_siteUrl inp);
                       appVersionV = normalizeNullableString (appVersion inp);
                       buildIdV = normalizeNullableString (buildId inp);
                       commitHashV = normalizeNullableString (commit inp);
                       builtAtV = normalizeIsoOrFallback P (builtAt inp) (sio_builtAtFallback io);
                       (st1, upsertResult) =
                         upsertInstance st
                           \<lparr>up_existing = existing, up_siteId = sync_siteId inp,
                            up_sitePubKey = sitePubKey inp, up_siteKeyAlg = siteKeyAlg inp,
                            up_normalizedSiteUrl = url normalizedUrl,
                            up_pendingReason = pendingReason normalizedUrl,
                            up_appVersion = appVersionV, up_buildId = buildIdV,
                            up_commitHash = commitHashV\<rparr>
                           (sio_upsert io);
                       idempotencyKeyV =
                         (case normalizeNullableString (idempotencyKey inp) of
                            Some k \<Rightarrow> k
                          | None \<Rightarrow>
                              sync_siteId inp @ '':'' @
                              (case buildIdV of Some b \<Rightarrow> b | None \<Rightarrow> ''no-build-id'') @
                              '':'' @ toISOString P builtAtV);
                       st2 = insertBuildEvent st1
                               \<lparr>be_instance_id = res_instanceId upsertResult,
                                built_at = builtAtV, be_app_version = appVersionV,
                                be_build_id = buildIdV, be_commit_hash = commitHashV,
                                idempotency_key = idempotencyKeyV,
                                be_created_at = sio_eventNow io\<rparr>
                   in (st2, Synced upsertResult (pendingReason normalizedUrl)))))"

text \<open>A sequence of sync requests, each with its own readings of the outside.\<close>

fun syncAll :: "platform \<Rightarrow> store \<Rightarrow> (SyncRequestPayload option \<times> sync_io) list \<Rightarrow> store" where
  "syncAll P st [] = st"
| "syncAll P st ((parsed, io) # rest) = syncAll P (fst (syncHandler P st parsed io)) rest"


subsection \<open>utils.ts: small helpers of the delivery pipeline\<close>

definition toSqlBool :: "bool \<Rightarrow> int" where
  "toSqlBool v = (if v then 1 else 0)"

text \<open>\<open>truncate\<close> (the name clashes with a constant of every record): \<open>!value\<close> holds for \<open>null\<close>, \<open>undefined\<close> and the empty string.\<close>

definition truncateStr :: "string option \<Rightarrow> nat \<Rightarrow> string option" where
  "truncateStr v maxLength =
     (case v of
        None \<Rightarrow> None
      | Some s \<Rightarrow>
          if s = [] then None
          else if length s \<le> maxLength then Some s
          else Some (take (maxLength - 3) s @ ''...''))"

text \<open>
  \<open>errorToMessage\<close>: the caught value is given by its \<open>message\<close> when it is an
  \<open>Error\<close>, and is \<open>None\<close> otherwise.
\<close>

definition errorToMessage :: "string option \<Rightarrow> string \<Rightarrow> string" where
  "errorToMessage err fallback =
     (case err of
        None \<Rightarrow> fallback
      | Some m \<Rightarrow> if length (trim m) > 0 then m else fallback)"

text \<open>The decimal text of an integer, as a template literal renders it.\<close>

fun decimalNat :: "nat \<Rightarrow> string" where
  "decimalNat n =
     (if n < 10 then [char_of (48 + n)]
      else decimalNat (n div 10) @ [char_of (48 + n mod 10)])"

declare decimalNat.simps [simp del]

definition decimal :: "int \<Rightarrow> string" where
  "decimal i = (if i < 0 then CHR ''-'' # decimalNat (nat (- i)) else decimalNat (nat i))"

definition decimalOrUndefined :: "int option \<Rightarrow> string" where
  "decimalOrUndefined v = (case v of None \<Rightarrow> ''undefined'' | Some i \<Rightarrow> decimal i)"

subsection \<open>utils.ts and telemetry.ts: the lenient readers\<close>

definition safeJsonParse :: "platform \<Rightarrow> string \<Rightarrow> json" where
  "safeJsonParse P v = (case JSON_parse P v of None \<Rightarrow> JObj [] | Some j \<Rightarrow> j)"

text \<open>
  \<open>asRecord\<close>; the argument is \<open>None\<close> for \<open>undefined\<close>. A property read \<open>r.key\<close>
  on a record is \<open>map_of r key\<close>, and \<open>r?.key\<close> on a record that may be \<open>null\<close> is
  \<open>optProp\<close>.
\<close>

definition asRecord :: "json option \<Rightarrow> (string \<times> json) list option" where
  "asRecord v = (case v of Some (JObj kvs) \<Rightarrow> Some kvs | _ \<Rightarrow> None)"

definition optProp :: "(string \<times> json) list option \<Rightarrow> string \<Rightarrow> json option" where
  "optProp r key = (case r of None \<Rightarrow> None | Some kvs \<Rightarrow> map_of kvs key)"

definition readBoolean :: "json option \<Rightarrow> bool option" where
  "readBoolean v =
     (case v of
        Some (JBool b) \<Rightarrow> Some b
      | Some (JNum n) \<Rightarrow> if n = ''0'' then Some False else if n = ''1'' then Some True else None
      | Some (JStr s) \<Rightarrow>
          (let normalized = toLowerCase (trim s) in
           if normalized = ''true'' \<or> normalized = ''1'' then Some True
           else if normalized = ''false'' \<or> normalized = ''0'' then Some False
           else None)
      | _ \<Rightarrow> None)"

text \<open>
  Of \<open>ParsedTelemetry\<close> the two flags that the pipeline reads; the other fields only
  travel into \<open>telemetry_samples\<close>.
\<close>

record ParsedTelemetry =
  tAccepted :: bool
  tDedupHit :: bool

text \<open>The chain \<open>a ?? b ?? c ?? false\<close>.\<close>

fun firstBoolean :: "bool option list \<Rightarrow> bool" where
  "firstBoolean [] = False"
| "firstBoolean (None # vs) = firstBoolean vs"
| "firstBoolean (Some b # vs) = b"

definition parseTelemetry :: "json \<Rightarrow> ParsedTelemetry" where
  "parseTelemetry payload =
     (let root = asRecord (Some payload);
          dataV = (case asRecord (optProp root ''data'') of None \<Rightarrow> [] | Some d \<Rightarrow> d);
          protocolV = asRecord (map_of dataV ''protocolVerification'')
      in \<lparr>tAccepted =
            firstBoolean [readBoolean (optProp protocolV ''accepted''),
                          readBoolean (map_of dataV ''accepted''),
                          readBoolean (optProp root ''accepted'')],
          tDedupHit =
            firstBoolean [readBoolean (optProp protocolV ''dedupHit''),
                          readBoolean (map_of dataV ''dedupHit''),
                          readBoolean (optProp root ''dedupHit'')]\<rparr>)"

subsection \<open>db-delivery.ts: deliveries, attempts and telemetry\<close>

text \<open>
  A statement throws (\<open>Inl\<close> of the error) in the cases that the driver and
  \<open>schema/init.sql\<close> fix, and then leaves the store as it was: \<open>bind\<close> refuses a
  value that is \<open>undefined\<close>; an \<open>INSERT\<close> meets a row with its primary key; a
  foreign key names no row of the parent table (the schema turns foreign keys on). A
  column that is \<open>NOT NULL\<close> holds a value in every stored row: \<open>attempt_count\<close> and
  \<open>attempt_no\<close> are numbers. An \<open>UPDATE ... WHERE id = ?\<close> changes nothing when no
  row has the id. An outage of the database is not modelled. Each function takes as
  \<open>now\<close> what its own \<open>nowIso()\<close> returned.
\<close>

definition createDelivery ::
  "store \<Rightarrow> string \<Rightarrow> string \<Rightarrow> int \<Rightarrow> int \<Rightarrow> d1_error + store" where
  "createDelivery st deliveryIdV instanceIdV scheduledForV enqueuedAtV =
     (if deliveries st deliveryIdV \<noteq> None then Inl UNIQUE_CONSTRAINT
      else if getInstanceByInstanceId st instanceIdV = None then Inl FOREIGN_KEY_CONSTRAINT
      else
        Inr (st\<lparr>deliveries := (deliveries st)(deliveryIdV \<mapsto>
               \<lparr>dlv_instance_id = instanceIdV, scheduled_for = scheduledForV,
                enqueued_at = enqueuedAtV, delivery_status = Queued,
                attempt_count = 0, response_status = None, accepted = None,
                dedup_hit = None, last_error_code = None, last_error_message = None,
                completed_at = None, dlv_created_at = enqueuedAtV,
                dlv_updated_at = enqueuedAtV\<rparr>)\<rparr>))"

definition updateDelivery :: "store \<Rightarrow> string \<Rightarrow> (delivery_row \<Rightarrow> delivery_row) \<Rightarrow> store" where
  "updateDelivery st deliveryIdV f =
     (case deliveries st deliveryIdV of
        None \<Rightarrow> st
      | Some d \<Rightarrow> st\<lparr>deliveries := (deliveries st)(deliveryIdV \<mapsto> f d)\<rparr>)"

text \<open>\<open>attemptCount\<close> is \<open>None\<close> when the caller passes \<open>undefined\<close>.\<close>

definition markDeliveryDelivered ::
  "store \<Rightarrow> string \<Rightarrow> int option \<Rightarrow> int option \<Rightarrow> bool \<Rightarrow> bool \<Rightarrow> int \<Rightarrow> d1_error + store" where
  "markDeliveryDelivered st deliveryIdV attemptCountV responseStatusV acceptedV dedupHitV now =
     (case attemptCountV of
        None \<Rightarrow> Inl D1_TYPE_ERROR
      | Some n \<Rightarrow>
          Inr (updateDelivery st deliveryIdV
                 (\<lambda>d. d\<lparr>delivery_status := Delivered, attempt_count := n,
                         response_status := responseStatusV,
                         accepted := Some (toSqlBool acceptedV),
                         dedup_hit := Some (toSqlBool dedupHitV), completed_at := Some now,
                         dlv_updated_at := now\<rparr>)))"

definition markDeliveryFailed ::
  "store \<Rightarrow> string \<Rightarrow> int option \<Rightarrow> int option \<Rightarrow> bool \<Rightarrow> bool \<Rightarrow> string \<Rightarrow> string
     \<Rightarrow> int \<Rightarrow> d1_error + store" where
  "markDeliveryFailed st deliveryIdV attemptCountV responseStatusV acceptedV dedupHitV
       errorCodeV errorMessageV now =
     (case attemptCountV of
        None \<Rightarrow> Inl D1_TYPE_ERROR
      | Some n \<Rightarrow>
          Inr (updateDelivery st deliveryIdV
                 (\<lambda>d. d\<lparr>delivery_status := Failed, attempt_count := n,
                         response_status := responseStatusV,
                         accepted := Some (toSqlBool acceptedV),
                         dedup_hit := Some (toSqlBool dedupHitV),
                         last_error_code := Some errorCodeV,
                         last_error_message := truncateStr (Some errorMessageV) 500,
                         dlv_updated_at := now\<rparr>)))"

definition markDeliveryDead :: "store \<Rightarrow> string \<Rightarrow> string \<Rightarrow> string \<Rightarrow> int \<Rightarrow> store" where
  "markDeliveryDead st deliveryIdV errorCodeV errorMessageV now =
     updateDelivery st deliveryIdV
       (\<lambda>d. d\<lparr>delivery_status := Dead, last_error_code := Some errorCodeV,
               last_error_message := truncateStr (Some errorMessageV) 500,
               completed_at := Some now, dlv_updated_at := now\<rparr>)"

text \<open>
  \<open>insertDeliveryAttempt\<close>, with the properties of its input in the order of the
  \<open>bind\<close>: \<open>deliveryId\<close>, \<open>attemptNo\<close> (\<open>None\<close> when it is \<open>undefined\<close>),
  \<open>startedAt\<close>, \<open>endedAt\<close>, \<open>httpStatus\<close>, \<open>timeout\<close>, \<open>errorCode\<close>,
  \<open>errorMessage\<close>. \<open>delivery_id\<close> is a foreign key into \<open>deliveries\<close>.
\<close>

definition insertDeliveryAttempt ::
  "store \<Rightarrow> string \<Rightarrow> int option \<Rightarrow> int \<Rightarrow> int \<Rightarrow> int option \<Rightarrow> bool \<Rightarrow> string option
     \<Rightarrow> string option \<Rightarrow> int \<Rightarrow> d1_error + store" where
  "insertDeliveryAttempt st deliveryIdV attemptNoV startedAtV endedAtV httpStatusV timeoutV
       errorCodeV errorMessageV now =
     (case attemptNoV of
        None \<Rightarrow> Inl D1_TYPE_ERROR
      | Some n \<Rightarrow>
          if deliveries st deliveryIdV = None then Inl FOREIGN_KEY_CONSTRAINT
          else
            Inr (st\<lparr>delivery_attempts := delivery_attempts st @
                   [\<lparr>delivery_id = deliveryIdV, attempt_no = n, started_at = startedAtV,
                     ended_at = endedAtV, http_status = httpStatusV,
                     timeout = toSqlBool timeoutV, error_code = errorCodeV,
                     error_message = truncateStr errorMessageV 500,
                     att_created_at = now\<rparr>]\<rparr>))"

text \<open>
  \<open>insertTelemetrySample\<close>: \<open>INSERT OR IGNORE\<close> skips the row when the unique
  \<open>delivery_id\<close> is taken; \<open>instance_id\<close> is a foreign key into \<open>instances\<close>, which
  \<open>OR IGNORE\<close> does not cover.
\<close>

definition insertTelemetrySample ::
  "store \<Rightarrow> string \<Rightarrow> string \<Rightarrow> ParsedTelemetry \<Rightarrow> d1_error + store" where
  "insertTelemetrySample st instanceIdV deliveryIdV telemetry =
     (if \<exists>t \<in> set (telemetry_samples st). tel_delivery_id t = deliveryIdV then Inr st
      else if getInstanceByInstanceId st instanceIdV = None then Inl FOREIGN_KEY_CONSTRAINT
      else
        Inr (st\<lparr>telemetry_samples := telemetry_samples st @
               [\<lparr>tel_delivery_id = deliveryIdV, tel_instance_id = instanceIdV,
                 tel_accepted = toSqlBool (tAccepted telemetry),
                 tel_dedup_hit = toSqlBool (tDedupHit telemetry)\<rparr>]\<rparr>))"

subsection \<open>db-instance.ts: the updates of the pipeline\<close>

definition updateInstanceNextRun :: "store \<Rightarrow> string \<Rightarrow> int \<Rightarrow> int \<Rightarrow> store" where
  "updateInstanceNextRun st instanceIdV nextRunAtV now =
     st\<lparr>instances := map (\<lambda>r. if instance_id r = instanceIdV
                                then r\<lparr>next_run_at := Some nextRunAtV, inst_updated_at := now\<rparr>
                                else r) (instances st)\<rparr>"

definition updateInstanceLastSuccess :: "store \<Rightarrow> string \<Rightarrow> int \<Rightarrow> store" where
  "updateInstanceLastSuccess st instanceIdV now =
     st\<lparr>instances := map (\<lambda>r. if instance_id r = instanceIdV
                                then r\<lparr>last_success_at := Some now, inst_updated_at := now\<rparr>
                                else r) (instances st)\<rparr>"


subsection \<open>types.ts and schemas.ts: the dispatch message\<close>

text \<open>
  \<open>DispatchMessage\<close> of types.ts. \<open>dispatchAttempt\<close> is a number in the type; at run
  time the property can be absent (\<open>undefined\<close>) or \<open>NaN\<close>, both \<open>None\<close> here.
\<close>

record DispatchMessage =
  deliveryId :: string
  instanceId :: string
  siteId :: string
  siteUrl :: string
  scheduledFor :: string
  enqueuedAt :: string
  dispatchAttempt :: "int option"

datatype QueueResult = QSuccess | QRetry | QDrop

text \<open>\<open>z.string()\<close> on the property \<open>key\<close> of the body.\<close>

definition stringField :: "(string \<times> json) list \<Rightarrow> string \<Rightarrow> string option" where
  "stringField kvs key = (case map_of kvs key of Some (JStr s) \<Rightarrow> Some s | _ \<Rightarrow> None)"

text \<open>
  \<open>dispatchMessageSchema.safeParse(body)\<close>, \<open>None\<close> when \<open>success\<close> is false. The schema
  of schemas.ts declares six keys: \<open>deliveryId\<close> and \<open>instanceId\<close> (strings of at least
  one character), \<open>siteId\<close> (a UUID), \<open>siteUrl\<close> (a URL), \<open>scheduledFor\<close> and
  \<open>enqueuedAt\<close> (strings). A \<open>z.object\<close> drops every key it does not declare, so the
  parsed data has no \<open>dispatchAttempt\<close>, whatever the body holds.
\<close>

definition dispatchMessageSchema_safeParse :: "platform \<Rightarrow> json \<Rightarrow> DispatchMessage option" where
  "dispatchMessageSchema_safeParse P bodyV =
     (case bodyV of
        JObj kvs \<Rightarrow>
          (case (stringField kvs ''deliveryId'', stringField kvs ''instanceId'',
                 stringField kvs ''siteId'', stringField kvs ''siteUrl'',
                 stringField kvs ''scheduledFor'', stringField kvs ''enqueuedAt'') of
             (Some d, Some i, Some s, Some u, Some f, Some e) \<Rightarrow>
               if length d \<ge> 1 \<and> length i \<ge> 1 \<and> isUuid P s \<and> isUrl P u then
                 Some \<lparr>deliveryId = d, instanceId = i, siteId = s, siteUrl = u,
                       scheduledFor = f, enqueuedAt = e, dispatchAttempt = None\<rparr>
               else None
           | _ \<Rightarrow> None)
      | _ \<Rightarrow> None)"

subsection \<open>worker-handlers.ts: dispatchToInstance\<close>

text \<open>
  The settings of \<open>EnvBindings\<close> that the handlers read through \<open>parsePositiveInt\<close>.
\<close>

record EnvBindings =
  REQUEST_TIMEOUT_MS :: "string option"
  MAX_RETRY_ATTEMPTS :: "string option"
  MAX_DISPATCH_PER_MINUTE :: "string option"
  TELEMETRY_RAW_MAX_BYTES :: "string option"

text \<open>
  The outcomes of the two awaited calls of \<open>dispatchToInstance\<close> to the outside:
  \<open>signCloudTriggerToken\<close> and \<open>fetchWithTimeout\<close> followed by \<open>response.text()\<close>.
  A thrown value carries its \<open>message\<close> when it is an \<open>Error\<close>. \<open>Response\<close> is a
  response with its status and body text. The two errors carry the status when it had
  been read before the throw (\<open>response.text()\<close> threw), the value \<open>httpStatus\<close> then
  has in the \<open>catch\<close> block.
\<close>

datatype token_outcome = Token string | TokenError "string option"

datatype fetch_outcome =
    Response int string
  | AbortError "int option"
  | FetchError "int option" "string option"

text \<open>
  What one dispatch reads from outside. \<open>d_clock k\<close> is the value of the \<open>k\<close>-th place
  where \<open>nowIso()\<close> is read: 0 \<open>startedAt\<close>; 1 \<open>endedAt\<close> and 2 the \<open>created_at\<close>
  of an \<open>insertDeliveryAttempt\<close> outside the \<open>catch\<close> block; 3 inside
  \<open>markDelivery...\<close>; 4 inside \<open>updateInstanceLastSuccess\<close>; 5 \<open>endedAt\<close> and 6 the
  \<open>created_at\<close> of the \<open>insertDeliveryAttempt\<close> of the \<open>catch\<close> block.
\<close>

record dispatch_io =
  d_token :: token_outcome
  d_fetch :: fetch_outcome
  d_clock :: "nat \<Rightarrow> int"

text \<open>
  The fixed message texts of the handlers are Chinese in the source; the model keeps an
  ASCII rendering of each, which no property depends on.
\<close>

definition MSG_INSTANCE_NOT_ACTIVE :: string where
  "MSG_INSTANCE_NOT_ACTIVE = ''instance missing or not in a triggerable state''"

definition MSG_TOKEN_SIGN_FAILED :: string where
  "MSG_TOKEN_SIGN_FAILED = ''failed to sign the trigger token''"

definition MSG_REQUEST_FAILED :: string where
  "MSG_REQUEST_FAILED = ''request to the instance failed''"

definition MSG_UNKNOWN_ERROR :: string where
  "MSG_UNKNOWN_ERROR = ''unknown error''"

definition MSG_QUEUE_SEND_FAILED :: string where
  "MSG_QUEUE_SEND_FAILED = ''queue send failed''"

definition MSG_NOT_ENQUEUED_DEAD :: string where
  "MSG_NOT_ENQUEUED_DEAD = ''message could not be enqueued, marked dead''"

definition MSG_NO_RETRY_CAPACITY :: string where
  "MSG_NO_RETRY_CAPACITY = ''no minute quota left for the retry''"

definition MSG_RETRY_ENQUEUE_FAILED :: string where
  "MSG_RETRY_ENQUEUE_FAILED = ''retry message could not be enqueued: ''"

definition MSG_DLQ_REACHED :: string where
  "MSG_DLQ_REACHED = ''message reached the dead-letter queue''"

definition responseOk :: "int \<Rightarrow> bool" where
  "responseOk statusV = (200 \<le> statusV \<and> statusV \<le> 299)"

definition instanceTriggerable :: "instance_row option \<Rightarrow> bool" where
  "instanceTriggerable inst =
     (case inst of
        None \<Rightarrow> False
      | Some r \<Rightarrow> status r = Active \<and> site_url r \<noteq> None \<and> site_url r \<noteq> Some [])"

text \<open>
  \<open>dispatchToInstance(message, env, attemptNo)\<close>. The function is the same in both
  revisions of worker-handlers.ts under \<open>src/\<close>, up to logging. \<open>attemptNo\<close> is
  \<open>None\<close> when the caller passes \<open>undefined\<close>. The result is the store and what the
  function returned, \<open>None\<close> when an exception left it; the store is then the one the
  statements before the exception had written.

  The value that the \<open>catch\<close> clause receives: an \<open>AbortError\<close>, or another value with
  its \<open>message\<close> when it is an \<open>Error\<close>.
\<close>

datatype caught = CaughtAbort | CaughtError "string option"

text \<open>
  The tail of the function, after the \<open>try\<close> statement: \<open>markDeliveryFailed\<close>, then
  \<open>return "retry"\<close>.
\<close>

definition dispatchMarkFailed ::
  "store \<Rightarrow> DispatchMessage \<Rightarrow> int option \<Rightarrow> dispatch_io \<Rightarrow> int option \<Rightarrow> bool \<Rightarrow> bool
     \<Rightarrow> string option \<Rightarrow> string option \<Rightarrow> store \<times> QueueResult option" where
  "dispatchMarkFailed st message attemptNo io httpStatus acceptedV dedupHitV errorCodeV
       errorMessageV =
     (case markDeliveryFailed st (deliveryId message) attemptNo httpStatus acceptedV dedupHitV
             (case errorCodeV of Some c \<Rightarrow> c | None \<Rightarrow> ''UNKNOWN_ERROR'')
             (case errorMessageV of Some m \<Rightarrow> m | None \<Rightarrow> MSG_UNKNOWN_ERROR)
             (d_clock io 3) of
        Inl e \<Rightarrow> (st, None)
      | Inr st1 \<Rightarrow> (st1, Some QRetry))"

text \<open>
  The \<open>catch\<close> clause of the \<open>try\<close> statement around the request, entered with the
  values that \<open>httpStatus\<close>, \<open>accepted\<close> and \<open>dedupHit\<close> had when the exception was
  thrown, followed by the tail.
\<close>

definition dispatchCatch ::
  "store \<Rightarrow> DispatchMessage \<Rightarrow> int option \<Rightarrow> dispatch_io \<Rightarrow> int \<Rightarrow> int option \<Rightarrow> bool \<Rightarrow> bool
     \<Rightarrow> caught \<Rightarrow> store \<times> QueueResult option" where
  "dispatchCatch st message attemptNo io requestTimeoutMs httpStatus acceptedV dedupHitV err =
     (let timeoutV = (err = CaughtAbort);
          errorCodeV = (if err = CaughtAbort then ''REQUEST_TIMEOUT'' else ''REQUEST_FAILED'');
          errorMessageV =
            (case err of
               CaughtAbort \<Rightarrow> Some (''request timed out (>'' @ decimal requestTimeoutMs @ ''ms)'')
             | CaughtError msg \<Rightarrow> truncateStr (Some (errorToMessage msg MSG_REQUEST_FAILED)) 500)
      in case insertDeliveryAttempt st (deliveryId message) attemptNo (d_clock io 0)
                (d_clock io 5) httpStatus timeoutV (Some errorCodeV) errorMessageV
                (d_clock io 6) of
           Inl e \<Rightarrow> (st, None)
         | Inr st1 \<Rightarrow>
             dispatchMarkFailed st1 message attemptNo io httpStatus acceptedV dedupHitV
               (Some errorCodeV) errorMessageV)"

definition dispatchToInstance ::
  "platform \<Rightarrow> EnvBindings \<Rightarrow> store \<Rightarrow> DispatchMessage \<Rightarrow> int option \<Rightarrow> dispatch_io
     \<Rightarrow> store \<times> QueueResult option" where
  "dispatchToInstance P env st message attemptNo io =
     (let startedAt = d_clock io 0;
          requestTimeoutMs = parsePositiveInt (REQUEST_TIMEOUT_MS env) 15000;
          inst = getInstanceByInstanceId st (instanceId message)
      in
      if \<not> instanceTriggerable inst then
        (case insertDeliveryAttempt st (deliveryId message) attemptNo startedAt (d_clock io 1)
                None False (Some ''INSTANCE_NOT_ACTIVE'') (Some MSG_INSTANCE_NOT_ACTIVE)
                (d_clock io 2) of
           Inl e \<Rightarrow> (st, None)
         | Inr st1 \<Rightarrow>
             (markDeliveryDead st1 (deliveryId message) ''INSTANCE_NOT_ACTIVE''
                MSG_INSTANCE_NOT_ACTIVE (d_clock io 3),
              Some QDrop))
      else
        (case d_token io of
           TokenError err \<Rightarrow>
             (let errorMessageV =
                    (case truncateStr (Some (errorToMessage err MSG_TOKEN_SIGN_FAILED)) 500 of
                       Some m \<Rightarrow> m | None \<Rightarrow> MSG_TOKEN_SIGN_FAILED)
              in case insertDeliveryAttempt st (deliveryId message) attemptNo startedAt
                        (d_clock io 1) None False (Some ''TOKEN_SIGN_FAILED'')
                        (Some errorMessageV) (d_clock io 2) of
                   Inl e \<Rightarrow> (st, None)
                 | Inr st1 \<Rightarrow>
                     (case markDeliveryFailed st1 (deliveryId message) attemptNo None False False
                             ''TOKEN_SIGN_FAILED'' errorMessageV (d_clock io 3) of
                        Inl e \<Rightarrow> (st1, None)
                      | Inr st2 \<Rightarrow> (st2, Some QRetry)))
         | Token tok \<Rightarrow>
             (case d_fetch io of
                AbortError httpStatus \<Rightarrow>
                  dispatchCatch st message attemptNo io requestTimeoutMs httpStatus False False
                    CaughtAbort
              | FetchError httpStatus err \<Rightarrow>
                  dispatchCatch st message attemptNo io requestTimeoutMs httpStatus False False
                    (CaughtError err)
              | Response httpStatus rawText \<Rightarrow>
                  (let telemetry = parseTelemetry (safeJsonParse P rawText);
                       acceptedV = tAccepted telemetry;
                       dedupHitV = tDedupHit telemetry
                   in case insertDeliveryAttempt st (deliveryId message) attemptNo startedAt
                             (d_clock io 1) (Some httpStatus) False None None (d_clock io 2) of
                        Inl e \<Rightarrow>
                          dispatchCatch st message attemptNo io requestTimeoutMs
                            (Some httpStatus) acceptedV dedupHitV
                            (CaughtError (Some (d1Message P e)))
                      | Inr st1 \<Rightarrow>
                          if responseOk httpStatus \<and> acceptedV then
                            (case markDeliveryDelivered st1 (deliveryId message) attemptNo
                                    (Some httpStatus) acceptedV dedupHitV (d_clock io 3) of
                               Inl e \<Rightarrow>
                                 dispatchCatch st1 message attemptNo io requestTimeoutMs
                                   (Some httpStatus) acceptedV dedupHitV
                                   (CaughtError (Some (d1Message P e)))
                             | Inr st2 \<Rightarrow>
                                 (case insertTelemetrySample st2 (instanceId message)
                                         (deliveryId message) telemetry of
                                    Inl e \<Rightarrow>
                                      dispatchCatch st2 message attemptNo io requestTimeoutMs
                                        (Some httpStatus) acceptedV dedupHitV
                                        (CaughtError (Some (d1Message P e)))
                                  | Inr st3 \<Rightarrow>
                                      (updateInstanceLastSuccess st3 (instanceId message)
                                         (d_clock io 4),
                                       Some QSuccess)))
                          else
                            dispatchMarkFailed st1 message attemptNo io (Some httpStatus)
                              acceptedV dedupHitV (Some ''UNACCEPTED_RESPONSE'')
                              (truncateStr (Some (''HTTP '' @ decimal httpStatus @
                                 '', accepted='' @ (if acceptedV then ''true'' else ''false'')))
                                 500)))))"

subsection \<open>worker-handlers.ts: scheduling a retry\<close>

text \<open>
  \<open>computeDelaySeconds\<close>: \<open>Math.max(0, Math.ceil((targetMs - Date.now()) / 1000))\<close>.
  The argument is the instant of the reserved minute, which \<open>Date.parse\<close> always reads
  back from the ISO string.
\<close>

definition computeDelaySeconds :: "int \<Rightarrow> int \<Rightarrow> int" where
  "computeDelaySeconds targetMs dateNow = max 0 (- ((dateNow - targetMs) div 1000))"

text \<open>
  \<open>computeRetryBackoffMs\<close>: \<open>Math.max(1, undefined)\<close> is \<open>NaN\<close>, and \<open>NaN\<close>
  goes through the power, the minimum and the product.
\<close>

definition computeRetryBackoffMs :: "int option \<Rightarrow> int option" where
  "computeRetryBackoffMs currentAttemptNo =
     (case currentAttemptNo of
        None \<Rightarrow> None
      | Some n \<Rightarrow>
          (let cappedAttempt = max 1 n;
               backoffSeconds = min (30 * 2 ^ nat (cappedAttempt - 1)) (15 * 60)
           in Some (backoffSeconds * 1000)))"

text \<open>
  What \<open>scheduleRetryDispatch\<close> reads from outside: \<open>Date.now()\<close> for the preferred
  time, the readings of \<open>reserveDispatchSlot\<close>, \<open>nowIso()\<close> for \<open>enqueuedAt\<close>,
  \<open>Date.now()\<close> of \<open>computeDelaySeconds\<close>, and whether \<open>DISPATCH_QUEUE.send\<close> throws
  (\<open>Some\<close> of the thrown value, as in \<open>errorToMessage\<close>).
\<close>

record retry_io =
  r_dateNow :: int
  r_newDate :: int
  r_slotClock :: "int \<Rightarrow> int"
  r_enqueuedAt :: int
  r_sendDateNow :: int
  r_sendError :: "string option option"

text \<open>The result: the store, \<open>ok\<close> with the \<open>reason\<close> when it is false, and what was sent.\<close>

record retry_schedule =
  rs_store :: store
  rs_ok :: bool
  rs_reason :: "string option"
  rs_sent :: "(DispatchMessage \<times> int option) list"

text \<open>
  \<open>sendToDispatchQueue\<close> gives the queue the message, with \<open>delaySeconds\<close> when the
  delay is positive.
\<close>

definition sendToDispatchQueue :: "DispatchMessage \<Rightarrow> int \<Rightarrow> int \<Rightarrow> DispatchMessage \<times> int option" where
  "sendToDispatchQueue message minuteStartMs dateNow =
     (let delaySeconds = computeDelaySeconds minuteStartMs dateNow
      in if delaySeconds > 0 then (message, Some delaySeconds) else (message, None))"

definition scheduleRetryDispatch ::
  "platform \<Rightarrow> store \<Rightarrow> DispatchMessage \<Rightarrow> int option \<Rightarrow> int \<Rightarrow> retry_io \<Rightarrow> retry_schedule" where
  "scheduleRetryDispatch P st message currentAttemptNo maxDispatchPerMinute io =
     (let nextAttemptNo = map_option (\<lambda>n. n + 1) currentAttemptNo;
          preferredAtV = map_option (\<lambda>b. r_dateNow io + b) (computeRetryBackoffMs currentAttemptNo);
          (tbl, reservedSlot) =
            reserveDispatchSlot (dispatch_minute_load st) maxDispatchPerMinute
              \<lparr>preferredAt = preferredAtV, source = Retry,
               lookaheadMinutes = MAX_SLOT_LOOKAHEAD_MINUTES P,
               nowDate = r_newDate io, clock = r_slotClock io\<rparr>;
          st1 = st\<lparr>dispatch_minute_load := tbl\<rparr>
      in case reservedSlot of
           None \<Rightarrow>
             \<lparr>rs_store = st1, rs_ok = False, rs_reason = Some MSG_NO_RETRY_CAPACITY, rs_sent = []\<rparr>
         | Some slot \<Rightarrow>
             (let retryMessage = message\<lparr>dispatchAttempt := nextAttemptNo,
                                         enqueuedAt := toISOString P (r_enqueuedAt io)\<rparr>
              in case r_sendError io of
                   None \<Rightarrow>
                     \<lparr>rs_store = st1, rs_ok = True, rs_reason = None,
                      rs_sent = [sendToDispatchQueue retryMessage (minuteStart slot)
                                   (r_sendDateNow io)]\<rparr>
                 | Some err \<Rightarrow>
                     \<lparr>rs_store = st1, rs_ok = False,
                      rs_reason = Some (MSG_RETRY_ENQUEUE_FAILED @
                                        errorToMessage err ''queue send failed''),
                      rs_sent = []\<rparr>))"

subsection \<open>worker-handlers.ts: the queue consumer\<close>

text \<open>A message of the batch: its body, and the delivery count the queue keeps for it.\<close>

record queue_message =
  body :: json
  attempts :: int

text \<open>
  What the consumer did with one message: the store it left, whether it called
  \<open>message.ack()\<close> and \<open>message.retry()\<close>, what it sent to \<open>DISPATCH_QUEUE\<close>, and
  whether an exception left the handler while it worked on the message. \<open>handleQueue\<close>
  catches nothing, so the exception ends the batch; the queue then delivers again every
  message of the batch that was neither acknowledged nor retried.
\<close>

record consumed =
  c_store :: store
  c_acked :: bool
  c_retried :: bool
  c_sent :: "(DispatchMessage \<times> int option) list"
  c_threw :: bool

record consume_io =
  q_dispatch :: dispatch_io
  q_retry :: retry_io
  q_deadNow :: int

text \<open>\<open>attemptNo >= maxAttempts\<close>: false when \<open>attemptNo\<close> is \<open>undefined\<close>.\<close>

definition jsGreaterEq :: "int option \<Rightarrow> int \<Rightarrow> bool" where
  "jsGreaterEq a b = (case a of None \<Rightarrow> False | Some n \<Rightarrow> n \<ge> b)"

text \<open>
  The body of the \<open>for\<close> loop of \<open>handleQueue\<close> on the main queue, in the revision
  that re-enqueues (the file with \<open>scheduleRetryDispatch\<close>).
\<close>

definition handleQueue_message ::
  "platform \<Rightarrow> EnvBindings \<Rightarrow> store \<Rightarrow> queue_message \<Rightarrow> consume_io \<Rightarrow> consumed" where
  "handleQueue_message P env st message io =
     (let maxAttempts = parsePositiveInt (MAX_RETRY_ATTEMPTS env) 6;
          maxDispatchPerMinute = parsePositiveInt (MAX_DISPATCH_PER_MINUTE env)
                                   (DEFAULT_MAX_DISPATCH_PER_MINUTE P)
      in case dispatchMessageSchema_safeParse P (body message) of
           None \<Rightarrow>
             \<lparr>c_store = st, c_acked = True, c_retried = False, c_sent = [], c_threw = False\<rparr>
         | Some parsedData \<Rightarrow>
             (let attemptNo = dispatchAttempt parsedData
              in case dispatchToInstance P env st parsedData attemptNo (q_dispatch io) of
                   (st1, None) \<Rightarrow>
                     \<lparr>c_store = st1, c_acked = False, c_retried = False, c_sent = [],
                      c_threw = True\<rparr>
                 | (st1, Some result) \<Rightarrow>
                     if result = QSuccess \<or> result = QDrop then
                       \<lparr>c_store = st1, c_acked = True, c_retried = False, c_sent = [],
                        c_threw = False\<rparr>
                     else if jsGreaterEq attemptNo maxAttempts then
                       \<lparr>c_store = markDeliveryDead st1 (deliveryId parsedData)
                                    ''MAX_ATTEMPTS_EXCEEDED''
                                    (''delivery retries exceeded the limit: '' @
                                     decimalOrUndefined attemptNo) (q_deadNow io),
                        c_acked = True, c_retried = False, c_sent = [], c_threw = False\<rparr>
                     else
                       (let retrySchedule = scheduleRetryDispatch P st1 parsedData attemptNo
                                              maxDispatchPerMinute (q_retry io)
                        in if \<not> rs_ok retrySchedule then
                             \<lparr>c_store = markDeliveryDead (rs_store retrySchedule)
                                          (deliveryId parsedData) ''RETRY_SCHEDULE_FAILED''
                                          (case rs_reason retrySchedule of
                                             Some r \<Rightarrow> r | None \<Rightarrow> ''retry scheduling failed'')
                                          (q_deadNow io),
                              c_acked = True, c_retried = False, c_sent = [], c_threw = False\<rparr>
                           else
                             \<lparr>c_store = rs_store retrySchedule, c_acked = True,
                              c_retried = False, c_sent = rs_sent retrySchedule,
                              c_threw = False\<rparr>)))"

text \<open>
  The body of the \<open>for\<close> loop of \<open>handleQueue\<close> in the other revision of
  worker-handlers.ts under \<open>src/\<close> (the file that also holds db-instance.ts): the attempt
  number is \<open>message.attempts || 1\<close> and a retry is \<open>message.retry()\<close>.
\<close>

definition handleQueue_message_native ::
  "platform \<Rightarrow> EnvBindings \<Rightarrow> store \<Rightarrow> queue_message \<Rightarrow> consume_io \<Rightarrow> consumed" where
  "handleQueue_message_native P env st message io =
     (let maxAttempts = parsePositiveInt (MAX_RETRY_ATTEMPTS env) 6
      in case dispatchMessageSchema_safeParse P (body message) of
           None \<Rightarrow>
             \<lparr>c_store = st, c_acked = True, c_retried = False, c_sent = [], c_threw = False\<rparr>
         | Some parsedData \<Rightarrow>
             (let attemptNo = (if attempts message = 0 then 1 else attempts message)
              in case dispatchToInstance P env st parsedData (Some attemptNo) (q_dispatch io) of
                   (st1, None) \<Rightarrow>
                     \<lparr>c_store = st1, c_acked = False, c_retried = False, c_sent = [],
                      c_threw = True\<rparr>
                 | (st1, Some result) \<Rightarrow>
                     if result = QSuccess \<or> result = QDrop then
                       \<lparr>c_store = st1, c_acked = True, c_retried = False, c_sent = [],
                        c_threw = False\<rparr>
                     else if attemptNo \<ge> maxAttempts then
                       \<lparr>c_store = markDeliveryDead st1 (deliveryId parsedData)
                                    ''MAX_ATTEMPTS_EXCEEDED''
                                    (''delivery retries exceeded the limit: '' @
                                     decimal attemptNo) (q_deadNow io),
                        c_acked = True, c_retried = False, c_sent = [], c_threw = False\<rparr>
                     else
                       \<lparr>c_store = st1, c_acked = False, c_retried = True, c_sent = [],
                        c_threw = False\<rparr>))"

text \<open>The body of the \<open>for\<close> loop of \<open>handleDlq\<close> (the same in both revisions).\<close>

definition handleDlq_message ::
  "platform \<Rightarrow> store \<Rightarrow> queue_message \<Rightarrow> int \<Rightarrow> consumed" where
  "handleDlq_message P st message now =
     (case dispatchMessageSchema_safeParse P (body message) of
        None \<Rightarrow> \<lparr>c_store = st, c_acked = True, c_retried = False, c_sent = [], c_threw = False\<rparr>
      | Some parsedData \<Rightarrow>
          \<lparr>c_store = markDeliveryDead st (deliveryId parsedData) ''DLQ_REACHED''
                       MSG_DLQ_REACHED now,
           c_acked = True, c_retried = False, c_sent = [], c_threw = False\<rparr>)"

subsection \<open>worker-handlers.ts: the scheduler tick, one due instance\<close>

text \<open>\<open>DueInstanceRow\<close> of types.ts.\<close>

record DueInstanceRow =
  due_instance_id :: string
  due_site_id :: string
  due_site_url :: string
  due_minute_of_day :: int
  due_next_run_at :: int

text \<open>
  What the body of the loop over the due rows reads from outside: the readings of
  \<open>reserveDispatchSlot\<close>, \<open>generateDeliveryId()\<close>, \<open>nowIso()\<close> for \<open>enqueuedAt\<close>,
  \<open>Date.now()\<close> of \<open>computeDelaySeconds\<close>, whether \<open>DISPATCH_QUEUE.send\<close> throws, and
  the \<open>nowIso()\<close> of the three updates.
\<close>

record tick_io =
  t_newDate :: int
  t_slotClock :: "int \<Rightarrow> int"
  t_deliveryId :: string
  t_enqueuedAt :: int
  t_sendDateNow :: int
  t_sendError :: "string option option"
  t_clock :: "nat \<Rightarrow> int"

text \<open>
  The result: the store, what was sent, whether the row counts as enqueued, and whether
  an exception left the handler (a statement of the store threw).
\<close>

record ticked =
  k_store :: store
  k_sent :: "(DispatchMessage \<times> int option) list"
  k_enqueued :: bool
  k_threw :: bool

definition handleScheduled_row ::
  "platform \<Rightarrow> EnvBindings \<Rightarrow> store \<Rightarrow> int \<Rightarrow> DueInstanceRow \<Rightarrow> tick_io \<Rightarrow> ticked" where
  "handleScheduled_row P env st scheduledTime row io =
     (let maxDispatchPerMinute = parsePositiveInt (MAX_DISPATCH_PER_MINUTE env)
                                   (DEFAULT_MAX_DISPATCH_PER_MINUTE P);
          (tbl, reservedSlot) =
            reserveDispatchSlot (dispatch_minute_load st) maxDispatchPerMinute
              \<lparr>preferredAt = Some scheduledTime, source = Scheduled,
               lookaheadMinutes = MAX_SLOT_LOOKAHEAD_MINUTES P,
               nowDate = t_newDate io, clock = t_slotClock io\<rparr>;
          st1 = st\<lparr>dispatch_minute_load := tbl\<rparr>
      in case reservedSlot of
           None \<Rightarrow> \<lparr>k_store = st1, k_sent = [], k_enqueued = False, k_threw = False\<rparr>
         | Some slot \<Rightarrow>
             (let deliveryIdV = t_deliveryId io;
                  message = \<lparr>deliveryId = deliveryIdV, instanceId = due_instance_id row,
                             siteId = due_site_id row, siteUrl = due_site_url row,
                             scheduledFor = toISOString P (due_next_run_at row),
                             enqueuedAt = toISOString P (t_enqueuedAt io),
                             dispatchAttempt = Some 1\<rparr>
              in case createDelivery st1 deliveryIdV (due_instance_id row)
                        (due_next_run_at row) (t_enqueuedAt io) of
                   Inl e \<Rightarrow> \<lparr>k_store = st1, k_sent = [], k_enqueued = False, k_threw = True\<rparr>
                 | Inr st2 \<Rightarrow>
                     (case t_sendError io of
                        Some err \<Rightarrow>
                          (case markDeliveryFailed st2 deliveryIdV (Some 0) None False False
                                  ''QUEUE_SEND_FAILED''
                                  (case truncateStr (Some (errorToMessage err MSG_QUEUE_SEND_FAILED)) 500 of
                                     Some m \<Rightarrow> m | None \<Rightarrow> MSG_QUEUE_SEND_FAILED)
                                  (t_clock io 0) of
                             Inl e \<Rightarrow>
                               \<lparr>k_store = st2, k_sent = [], k_enqueued = False, k_threw = True\<rparr>
                           | Inr st3 \<Rightarrow>
                               \<lparr>k_store = markDeliveryDead st3 deliveryIdV ''QUEUE_SEND_FAILED''
                                            MSG_NOT_ENQUEUED_DEAD (t_clock io 1),
                                k_sent = [], k_enqueued = False, k_threw = False\<rparr>)
                      | None \<Rightarrow>
                          (let nextRunAtV = computeNextRunAt (due_minute_of_day row) scheduledTime;
                               st3 = updateInstanceNextRun st2 (due_instance_id row) nextRunAtV
                                       (t_clock io 2)
                           in \<lparr>k_store = st3,
                               k_sent = [sendToDispatchQueue message (minuteStart slot)
                                           (t_sendDateNow io)],
                               k_enqueued = True, k_threw = False\<rparr>))))"

text \<open>
  The same body in the other revision of worker-handlers.ts: no slot is reserved, the
  message has no \<open>dispatchAttempt\<close> and is sent without a delay.
\<close>

definition handleScheduled_row_native ::
  "platform \<Rightarrow> store \<Rightarrow> int \<Rightarrow> DueInstanceRow \<Rightarrow> tick_io \<Rightarrow> ticked" where
  "handleScheduled_row_native P st scheduledTime row io =
     (let deliveryIdV = t_deliveryId io;
          message = \<lparr>deliveryId = deliveryIdV, instanceId = due_instance_id row,
                     siteId = due_site_id row, siteUrl = due_site_url row,
                     scheduledFor = toISOString P (due_next_run_at row),
                     enqueuedAt = toISOString P (t_enqueuedAt io),
                     dispatchAttempt = None\<rparr>
      in case createDelivery st deliveryIdV (due_instance_id row)
                (due_next_run_at row) (t_enqueuedAt io) of
           Inl e \<Rightarrow> \<lparr>k_store = st, k_sent = [], k_enqueued = False, k_threw = True\<rparr>
         | Inr st2 \<Rightarrow>
             (case t_sendError io of
                Some err \<Rightarrow>
                  (case markDeliveryFailed st2 deliveryIdV (Some 0) None False False
                          ''QUEUE_SEND_FAILED''
                          (case truncateStr (Some (errorToMessage err MSG_QUEUE_SEND_FAILED)) 500 of
                             Some m \<Rightarrow> m | None \<Rightarrow> MSG_QUEUE_SEND_FAILED)
                          (t_clock io 0) of
                     Inl e \<Rightarrow> \<lparr>k_store = st2, k_sent = [], k_enqueued = False, k_threw = True\<rparr>
                   | Inr st3 \<Rightarrow>
                       \<lparr>k_store = markDeliveryDead st3 deliveryIdV ''QUEUE_SEND_FAILED''
                                    MSG_NOT_ENQUEUED_DEAD (t_clock io 1),
                        k_sent = [], k_enqueued = False, k_threw = False\<rparr>)
              | None \<Rightarrow>
                  (let st3 = updateInstanceNextRun st2 (due_instance_id row)
                               (computeNextRunAt (due_minute_of_day row) scheduledTime)
                               (t_clock io 2)
                   in \<lparr>k_store = st3, k_sent = [(message, None)],
                       k_enqueued = True, k_threw = False\<rparr>)))"

subsection \<open>Runs of the pipeline\<close>

text \<open>
  One step of the delivery pipeline: the scheduler handles a due row, or a consumer
  handles a message of the main queue or of the dead-letter queue; scheduler and main
  consumer in either revision. A step that ends with an exception leaves the store that
  its statements had written until then.
\<close>

datatype pipeline_event =
    Tick EnvBindings int DueInstanceRow tick_io
  | TickNative int DueInstanceRow tick_io
  | Consume EnvBindings queue_message consume_io
  | ConsumeNative EnvBindings queue_message consume_io
  | ConsumeDlq queue_message int

fun pipeline_step :: "platform \<Rightarrow> store \<Rightarrow> pipeline_event \<Rightarrow> store" where
  "pipeline_step P st (Tick env scheduledTime row io) =
     k_store (handleScheduled_row P env st scheduledTime row io)"
| "pipeline_step P st (TickNative scheduledTime row io) =
     k_store (handleScheduled_row_native P st scheduledTime row io)"
| "pipeline_step P st (Consume env message io) = c_store (handleQueue_message P env st message io)"
| "pipeline_step P st (ConsumeNative env message io) =
     c_store (handleQueue_message_native P env st message io)"
| "pipeline_step P st (ConsumeDlq message now) = c_store (handleDlq_message P st message now)"

definition pipeline_run :: "platform \<Rightarrow> store \<Rightarrow> pipeline_event list \<Rightarrow> store" where
  "pipeline_run P st events = foldl (pipeline_step P) st events"

text \<open>The invariant of the deliveries table.\<close>

definition delivery_row_ok :: "delivery_row \<Rightarrow> bool" where
  "delivery_row_ok d =
     ((delivery_status d = Delivered \<longrightarrow> completed_at d \<noteq> None \<and> accepted d = Some 1) \<and>
      (delivery_status d = Dead \<longrightarrow> completed_at d \<noteq> None))"

definition delivery_inv :: "store \<Rightarrow> bool" where
  "delivery_inv st = (\<forall>i d. deliveries st i = Some d \<longrightarrow> delivery_row_ok d)"


subsection \<open>utils.ts: canonicalStringify\<close>

text \<open>
  A JavaScript object enumerates its own string keys in this order: first the keys that
  are array indices (the canonical decimal text of an integer from 0 to \<open>2^32 - 2\<close>), by
  ascending value, then the other keys in the order of their creation. \<open>Object.keys\<close>
  and \<open>JSON.stringify\<close> follow it. \<open>ownPropertyOrder\<close> turns the list of the
  properties in order of creation into the list in order of enumeration.
\<close>

definition isArrayIndex :: "string \<Rightarrow> bool" where
  "isArrayIndex k =
     (k \<noteq> [] \<and> list_all isDecimalDigit k \<and> (hd k \<noteq> CHR ''0'' \<or> k = ''0'') \<and>
      digitsValue k \<le> 4294967294)"

definition ownPropertyOrder :: "(string \<times> json) list \<Rightarrow> (string \<times> json) list" where
  "ownPropertyOrder props =
     sort_key (\<lambda>(k, v). digitsValue k) (filter (\<lambda>(k, v). isArrayIndex k) props) @
     filter (\<lambda>(k, v). \<not> isArrayIndex k) props"

text \<open>
  \<open>result[key] = v\<close> on an object that began as \<open>{}\<close>, on the list of its properties
  in order of creation: an existing property keeps its place and takes the value, a new
  one is created last. The key \<open>__proto__\<close> creates no property: the assignment runs the
  setter that \<open>Object.prototype\<close> has for it.
\<close>

definition assignProperty :: "(string \<times> json) list \<Rightarrow> string \<Rightarrow> json \<Rightarrow> (string \<times> json) list" where
  "assignProperty props key v =
     (if key = ''__proto__'' then props
      else if key \<in> set (map fst props) then
        map (\<lambda>(k, old). if k = key then (k, v) else (k, old)) props
      else props @ [(key, v)])"

text \<open>
  \<open>sortValue\<close>. \<open>Object.keys(record).sort((a, b) => a.localeCompare(b))\<close> is the list
  of the keys in ascending order; \<open>localeCompare\<close> is modelled as the lexicographic
  order of the code units, and the stable sort of the entries by their key stands
  for sorting the keys and reading \<open>record[key]\<close> (an object has no key twice). The
  loop then assigns the sorted values to \<open>result\<close> in that order. The collation of the
  runtime agrees with the order of the code units on keys made of digits and on keys
  made of lower-case letters; it differs on others, where it puts a lower-case letter
  before the upper-case letters that follow it in the alphabet. What is proved below of
  \<open>sortValue\<close> for every value uses only that the keys are sorted by a linear order.
\<close>

primrec sortValue :: "json \<Rightarrow> json" where
  "sortValue JNull = JNull"
| "sortValue (JBool b) = JBool b"
| "sortValue (JNum n) = JNum n"
| "sortValue (JStr s) = JStr s"
| "sortValue (JArr items) = JArr (map sortValue items)"
| "sortValue (JObj record) =
     JObj (ownPropertyOrder
             (foldl (\<lambda>result (key, v). assignProperty result key v) []
                (sort_key fst (map (map_prod id sortValue) record))))"

text \<open>
  \<open>JSON.stringify\<close> without indentation: a string is quoted, with the quote, the
  backslash and the control characters escaped.
\<close>

definition hexDigit :: "nat \<Rightarrow> char" where
  "hexDigit n = (if n < 10 then char_of (48 + n) else char_of (87 + n))"

definition escapeChar :: "char \<Rightarrow> string" where
  "escapeChar c =
     (if c = CHR 0x22 then [CHR 0x5C, CHR 0x22]
      else if c = CHR 0x5C then [CHR 0x5C, CHR 0x5C]
      else if c = CHR 0x08 then [CHR 0x5C, CHR ''b'']
      else if c = CHR 0x0C then [CHR 0x5C, CHR ''f'']
      else if c = CHR 0x0A then [CHR 0x5C, CHR ''n'']
      else if c = CHR 0x0D then [CHR 0x5C, CHR ''r'']
      else if c = CHR 0x09 then [CHR 0x5C, CHR ''t'']
      else if (of_char c :: nat) < 32 then
        [CHR 0x5C, CHR ''u'', CHR ''0'', CHR ''0'',
         hexDigit (of_char c div 16), hexDigit (of_char c mod 16)]
      else [c])"

definition quoteJson :: "string \<Rightarrow> string" where
  "quoteJson s = CHR 0x22 # concat (map escapeChar s) @ [CHR 0x22]"

fun joinComma :: "string list \<Rightarrow> string" where
  "joinComma [] = []"
| "joinComma [x] = x"
| "joinComma (x # y # rest) = x @ '','' @ joinComma (y # rest)"

primrec stringify :: "json \<Rightarrow> string" where
  "stringify JNull = ''null''"
| "stringify (JBool b) = (if b then ''true'' else ''false'')"
| "stringify (JNum n) = n"
| "stringify (JStr s) = quoteJson s"
| "stringify (JArr items) = ''['' @ joinComma (map stringify items) @ '']''"
| "stringify (JObj props) =
     ''{'' @ joinComma (map (\<lambda>(k, text). quoteJson k @ '':'' @ text)
                          (map (map_prod id stringify) props)) @ ''}''"

definition canonicalStringify :: "json \<Rightarrow> string" where
  "canonicalStringify v = stringify (sortValue v)"

text \<open>A value that JavaScript can hold: no object has a key twice.\<close>

primrec distinctKeys :: "json \<Rightarrow> bool" where
  "distinctKeys JNull = True"
| "distinctKeys (JBool b) = True"
| "distinctKeys (JNum n) = True"
| "distinctKeys (JStr s) = True"
| "distinctKeys (JArr items) = list_all distinctKeys items"
| "distinctKeys (JObj props) =
     (distinct (map fst props) \<and> list_all (\<lambda>(k, ok). ok) (map (map_prod id distinctKeys) props))"

text \<open>
  What \<open>sortValue\<close> makes of the entries of an object without a repeated key, in
  closed form: sorted by key, without \<open>__proto__\<close>, in the order of enumeration.
\<close>

definition canonEntries :: "(string \<times> json) list \<Rightarrow> (string \<times> json) list" where
  "canonEntries es =
     ownPropertyOrder (filter (\<lambda>(k, v). k \<noteq> ''__proto__'') (sort_key fst es))"

text \<open>
  \<open>keyPermuted x y\<close>: \<open>y\<close> is \<open>x\<close> with the properties of some of its objects, at any
  depth, listed in another order.
\<close>

inductive keyPermuted :: "json \<Rightarrow> json \<Rightarrow> bool" where
  kp_refl: "keyPermuted x x"
| kp_arr: "list_all2 keyPermuted items items' \<Longrightarrow> keyPermuted (JArr items) (JArr items')"
| kp_obj: "list_all2 (\<lambda>a b. fst a = fst b \<and> keyPermuted (snd a) (snd b)) rcd rcd' \<Longrightarrow>
           mset rcd' = mset rcd'' \<Longrightarrow> keyPermuted (JObj rcd) (JObj rcd'')"


subsection \<open>A platform for the worked examples\<close>

text \<open>
  One concrete choice of the runtime's functions, on the few inputs the examples use.
  \<open>example_parseURL\<close> gives, for each of these inputs, the \<open>protocol\<close>, \<open>hostname\<close>
  and \<open>host\<close> of \<open>new URL\<close>: the host of a URL is serialised in lower case, and an
  IPv6 address in square brackets. The stand-in for the signature check accepts \<open>sig\<close>
  exactly when it is the string \<open>signed-by:\<close> followed by the public key it is checked
  against.
\<close>

definition example_parseURL :: "string \<Rightarrow> parsed_url option" where
  "example_parseURL s =
     (if s = ''https://site.test:8443/blog'' then
        Some \<lparr>protocol = ''https:'', hostname = ''site.test'', host = ''site.test:8443''\<rparr>
      else if s = ''https://site.test'' then
        Some \<lparr>protocol = ''https:'', hostname = ''site.test'', host = ''site.test''\<rparr>
      else if s = ''https://example.com'' then
        Some \<lparr>protocol = ''https:'', hostname = ''example.com'', host = ''example.com''\<rparr>
      else if s = ''http://app.localhost:3000'' then
        Some \<lparr>protocol = ''http:'', hostname = ''app.localhost'', host = ''app.localhost:3000''\<rparr>
      else if s = ''ftp://files.test'' then
        Some \<lparr>protocol = ''ftp:'', hostname = ''files.test'', host = ''files.test''\<rparr>
      else if s = ''http://localhost:3000'' then
        Some \<lparr>protocol = ''http:'', hostname = ''localhost'', host = ''localhost:3000''\<rparr>
      else if s = ''http://127.0.0.1:8080'' then
        Some \<lparr>protocol = ''http:'', hostname = ''127.0.0.1'', host = ''127.0.0.1:8080''\<rparr>
      else if s = ''http://127.8.9.10'' then
        Some \<lparr>protocol = ''http:'', hostname = ''127.8.9.10'', host = ''127.8.9.10''\<rparr>
      else if s = ''https://printer.local'' then
        Some \<lparr>protocol = ''https:'', hostname = ''printer.local'', host = ''printer.local''\<rparr>
      else if s = ''https://SITE.test'' then
        Some \<lparr>protocol = ''https:'', hostname = ''site.test'', host = ''site.test''\<rparr>
      else if s = ''http://[::1]:3000'' then
        Some \<lparr>protocol = ''http:'', hostname = ''[::1]'', host = ''[::1]:3000''\<rparr>
      else None)"

definition example_platform :: platform where
  \<open>example_platform =
     \<lparr>parseURL = example_parseURL,
      dateParse = (\<lambda>s. if s = ''2026-01-01T00:00:00.000Z'' then Some 1767225600000 else None),
      toISOString = (\<lambda>t. if t = 1767225600000 then ''2026-01-01T00:00:00.000Z'' else ''other''),
      JSON_parse = (\<lambda>s. if s = ''{"accepted":true}'' then Some (JObj [(''accepted'', JBool True)])
                         else None),
      isUuid = (\<lambda>s. s = ''123e4567-e89b-12d3-a456-426614174000''),
      isUrl = (\<lambda>s. example_parseURL s \<noteq> None),
      verifySigned = (\<lambda>method path payload sg publicKey. sig sg = ''signed-by:'' @ publicKey),
      d1Message = (\<lambda>e. case e of
                         D1_TYPE_ERROR \<Rightarrow> ''D1_TYPE_ERROR: Type undefined not supported''
                       | UNIQUE_CONSTRAINT \<Rightarrow> ''D1_ERROR: UNIQUE constraint failed''
                       | FOREIGN_KEY_CONSTRAINT \<Rightarrow> ''D1_ERROR: FOREIGN KEY constraint failed''),
      SIGNATURE_WINDOW_MS = 300000,
      MAX_SLOT_LOOKAHEAD_MINUTES = 2,
      DEFAULT_MAX_DISPATCH_PER_MINUTE = 60\<rparr>\<close>

definition empty_store :: store where
  "empty_store =
     \<lparr>instances = [], build_events = [], deliveries = Map.empty, delivery_attempts = [],
      dispatch_minute_load = Map.empty, telemetry_samples = []\<rparr>"

text \<open>A sync request of the examples, with its public key and the key that signed it.\<close>

definition example_sync :: "string \<Rightarrow> string \<Rightarrow> SyncRequestPayload" where
  "example_sync pubKey signer =
     \<lparr>sync_siteId = ''123e4567-e89b-12d3-a456-426614174000'', sitePubKey = pubKey,
      siteKeyAlg = ''ed25519'', sync_siteUrl = Some ''https://site.test'',
      appVersion = None, buildId = None, commit = None, builtAt = None, idempotencyKey = None,
      signature = \<lparr>alg = ''EdDSA'', ts = ''2026-01-01T00:00:00.000Z'', nonce = ''nonce-0001'',
                    sig = ''signed-by:'' @ signer, kid = None\<rparr>\<rparr>"

definition example_sync_io :: "nat \<Rightarrow> sync_io" where
  "example_sync_io random16 =
     \<lparr>sio_dateNow = 1767225600500, sio_builtAtFallback = 1767225600500,
      sio_upsert = \<lparr>io_now = 1767225600500, io_newDate = 1767225600500,
                    io_generatedInstanceId = ''ins_1'', io_random16 = random16\<rparr>,
      sio_eventNow = 1767225600500\<rparr>"

text \<open>An active instance, a due row for it, and a store that holds the instance.\<close>

definition example_instance :: instance_row where
  "example_instance =
     \<lparr>instance_id = ''ins_1'', site_id = ''123e4567-e89b-12d3-a456-426614174000'',
      site_url = Some ''https://site.test'', status = Active, pending_reason = None,
      site_pub_key = ''KEY-A'', site_key_alg = ''ed25519'',
      minute_of_day = 560, next_run_at = Some 1767259200000,
      last_seen_at = Some 1767225600500, last_success_at = None,
      app_version = None, build_id = None, commit_hash = None,
      inst_created_at = 1767225600500, inst_updated_at = 1767225600500\<rparr>"

definition example_store :: store where
  "example_store = empty_store\<lparr>instances := [example_instance]\<rparr>"

definition example_due :: DueInstanceRow where
  "example_due =
     \<lparr>due_instance_id = ''ins_1'', due_site_id = ''123e4567-e89b-12d3-a456-426614174000'',
      due_site_url = ''https://site.test'', due_minute_of_day = 560,
      due_next_run_at = 1767259200000\<rparr>"

definition example_env :: EnvBindings where
  "example_env =
     \<lparr>REQUEST_TIMEOUT_MS = None, MAX_RETRY_ATTEMPTS = None, MAX_DISPATCH_PER_MINUTE = None,
      TELEMETRY_RAW_MAX_BYTES = None\<rparr>"

definition example_tick_io :: tick_io where
  "example_tick_io =
     \<lparr>t_newDate = 1767259200000, t_slotClock = (\<lambda>_. 1767259200000), t_deliveryId = ''dlv_1'',
      t_enqueuedAt = 1767259200000, t_sendDateNow = 1767259200000, t_sendError = None,
      t_clock = (\<lambda>_. 1767259200000)\<rparr>"

text \<open>A queue message for delivery \<open>dlv_1\<close> whose body carries \<open>dispatchAttempt\<close>.\<close>

definition example_message :: "string \<Rightarrow> queue_message" where
  "example_message attempt =
     \<lparr>body = JObj [(''deliveryId'', JStr ''dlv_1''), (''instanceId'', JStr ''ins_1''),
                   (''siteId'', JStr ''123e4567-e89b-12d3-a456-426614174000''),
                   (''siteUrl'', JStr ''https://site.test''),
                   (''scheduledFor'', JStr ''2026-01-01T00:00:00.000Z''),
                   (''enqueuedAt'', JStr ''2026-01-01T00:00:00.000Z''),
                   (''dispatchAttempt'', JNum attempt)],
      attempts = 1\<rparr>"

definition example_consume_io :: "fetch_outcome \<Rightarrow> consume_io" where
  "example_consume_io outcome =
     \<lparr>q_dispatch = \<lparr>d_token = Token ''jwt'', d_fetch = outcome,
                     d_clock = (\<lambda>_. 1767259260000)\<rparr>,
      q_retry = \<lparr>r_dateNow = 1767259260000, r_newDate = 1767259260000,
                  r_slotClock = (\<lambda>_. 1767259260000), r_enqueuedAt = 1767259260000,
                  r_sendDateNow = 1767259260000, r_sendError = None\<rparr>,
      q_deadNow = 1767259260000\<rparr>"

text \<open>What the schema yields for the body of \<open>example_message\<close>.\<close>

definition example_dispatch_message :: DispatchMessage where
  "example_dispatch_message =
     \<lparr>deliveryId = ''dlv_1'', instanceId = ''ins_1'',
      siteId = ''123e4567-e89b-12d3-a456-426614174000'', siteUrl = ''https://site.test'',
      scheduledFor = ''2026-01-01T00:00:00.000Z'', enqueuedAt = ''2026-01-01T00:00:00.000Z'',
      dispatchAttempt = None\<rparr>"

text \<open>The store after the scheduler has created delivery \<open>dlv_1\<close> for the instance.\<close>

definition example_queued_store :: store where
  "example_queued_store =
     k_store (handleScheduled_row example_platform example_env example_store 1767259200000
                example_due example_tick_io)"


section \<open>Verification\<close>

lemmas ex_defs = example_platform_def example_parseURL_def example_sync_def example_sync_io_def
  empty_store_def

lemmas ex_pipeline_defs = example_instance_def example_store_def example_due_def example_env_def
  example_tick_io_def example_message_def example_consume_io_def

lemmas str_defs = normalizeNullableString_def trim_def isStrWhiteSpaceChar_def toLowerCase_def
  lowerChar_def startsWith_def endsWith_def

lemmas handler_defs = handleScheduled_row_def handleQueue_message_def handleQueue_message_native_def
  handleDlq_message_def dispatchToInstance_def dispatchCatch_def dispatchMarkFailed_def scheduleRetryDispatch_def sendToDispatchQueue_def
  computeDelaySeconds_def computeRetryBackoffMs_def jsGreaterEq_def instanceTriggerable_def
  getInstanceByInstanceId_def responseOk_def dispatchMessageSchema_safeParse_def stringField_def
  createDelivery_def updateDelivery_def markDeliveryDead_def markDeliveryFailed_def
  markDeliveryDelivered_def insertDeliveryAttempt_def insertTelemetrySample_def
  updateInstanceNextRun_def updateInstanceLastSuccess_def toSqlBool_def truncateStr_def
  errorToMessage_def parseTelemetry_def safeJsonParse_def asRecord_def optProp_def
  readBoolean_def parsePositiveInt_def reserveDispatchSlot_def
  reserve_loop.simps upsert_minute_def normalizePreferredDate_def floorToMinute_def
  computeNextRunAt_def Let_def

lemma parsePositiveInt_cases:
  "parsePositiveInt raw fb = fb \<or> 0 < parsePositiveInt raw fb"
  by (auto simp: parsePositiveInt_def split: option.splits)


text \<open>
  Claim C10. \<open>parsePositiveInt\<close> returns the fallback when the setting is undefined,
  when \<open>parseInt\<close> finds no number in it, and when the number is zero or negative;
  otherwise it returns the parsed number. Hence a setting read with a positive fallback is
  positive: \<open>MAX_RETRY_ATTEMPTS\<close> (fallback 6), \<open>REQUEST_TIMEOUT_MS\<close> (15000),
  \<open>TELEMETRY_RAW_MAX_BYTES\<close> (4096) and \<open>MAX_DISPATCH_PER_MINUTE\<close> (whose default
  \<open>fb\<close> is a constant of \<open>constants.ts\<close>). \<open>MAX_RETRY_ATTEMPTS = "0"\<close> yields 6.
\<close>

theorem parsePositiveInt_spec:
  "(raw = None \<longrightarrow> parsePositiveInt raw fb = fb) \<and>
   (\<forall>s. raw = Some s \<and> parseInt10 s = None \<longrightarrow> parsePositiveInt raw fb = fb) \<and>
   (\<forall>s v. raw = Some s \<and> parseInt10 s = Some v \<and> v \<le> 0 \<longrightarrow> parsePositiveInt raw fb = fb) \<and>
   (\<forall>s v. raw = Some s \<and> parseInt10 s = Some v \<and> 0 < v \<longrightarrow> parsePositiveInt raw fb = v) \<and>
   (0 < fb \<longrightarrow> 0 < parsePositiveInt raw fb) \<and>
   0 < parsePositiveInt raw 6 \<and> 0 < parsePositiveInt raw 15000 \<and>
   0 < parsePositiveInt raw 4096 \<and>
   parsePositiveInt (Some ''0'') 6 = 6"
proof -
  have pos: "\<And>d. 0 < d \<Longrightarrow> 0 < parsePositiveInt raw d"
    by (auto simp: parsePositiveInt_def split: option.splits)
  have zero: "parsePositiveInt (Some ''0'') 6 = 6"
    by (simp add: parsePositiveInt_def parseInt10_def roundToDouble_def isStrWhiteSpaceChar_def
        isDecimalDigit_def digitsValue_def digitValue_def)
  have rest: "(raw = None \<longrightarrow> parsePositiveInt raw fb = fb) \<and>
   (\<forall>s. raw = Some s \<and> parseInt10 s = None \<longrightarrow> parsePositiveInt raw fb = fb) \<and>
   (\<forall>s v. raw = Some s \<and> parseInt10 s = Some v \<and> v \<le> 0 \<longrightarrow> parsePositiveInt raw fb = fb) \<and>
   (\<forall>s v. raw = Some s \<and> parseInt10 s = Some v \<and> 0 < v \<longrightarrow> parsePositiveInt raw fb = v)"
    by (auto simp: parsePositiveInt_def parseInt10_def split: option.splits if_splits)
  show ?thesis using pos[of fb] pos[of 6] pos[of 15000] pos[of 4096] zero rest by simp
qed

theorem parsePositiveInt_spec_witness:
  "parsePositiveInt (Some ''0'') 6 = 6 \<and> parsePositiveInt (Some ''-5'') 15000 = 15000 \<and>
   parsePositiveInt (Some ''abc'') 4096 = 4096 \<and> parsePositiveInt None 6 = 6 \<and>
   parsePositiveInt (Some ''12'') 6 = 12 \<and> 0 < parsePositiveInt (Some ''0'') 6"
proof -
  have e: "parseInt10 ''0'' = Some 0" "parseInt10 ''-5'' = Some (-5)" "parseInt10 ''abc'' = None"
    "parseInt10 ''12'' = Some 12"
    by (simp_all add: parseInt10_def roundToDouble_def isStrWhiteSpaceChar_def isDecimalDigit_def
        digitsValue_def digitValue_def)
  show ?thesis
    using parsePositiveInt_spec[of "Some ''0''" 6] parsePositiveInt_spec[of "Some ''-5''" 15000]
      parsePositiveInt_spec[of "Some ''abc''" 4096] parsePositiveInt_spec[of None 6]
      parsePositiveInt_spec[of "Some ''12''" 6] e
    by simp
qed

lemma upsert_minute_None: "upsert_minute tbl m s r now mx = (tbl', None) \<Longrightarrow> tbl' = tbl"
  by (auto simp: upsert_minute_def Let_def split: option.splits if_splits)

lemma upsert_minute_inv:
  "load_inv mx tbl \<Longrightarrow> 0 < mx \<Longrightarrow> s + r = 1 \<Longrightarrow> load_inv mx (fst (upsert_minute tbl m s r now mx))"
proof -
  assume inv: "load_inv mx tbl" and mx: "0 < mx" and sr: "s + r = 1"
  have old: "\<And>k x. tbl k = Some x \<Longrightarrow>
      total_count x = scheduled_count x + retry_count x \<and> total_count x \<le> mx
      \<and> scheduled_count x + retry_count x \<le> mx"
    using inv unfolding load_inv_def by fastforce
  show ?thesis
  proof (cases "tbl m")
    case None
    then show ?thesis
      using old mx sr unfolding load_inv_def upsert_minute_def Let_def
      by (auto split: if_splits)
  next
    case (Some x)
    then show ?thesis
      using old[OF Some] old mx sr unfolding load_inv_def upsert_minute_def Let_def
      by (auto split: if_splits)
  qed
qed

lemma reserve_loop_inv:
  "load_inv mx tbl \<Longrightarrow> 0 < mx \<Longrightarrow> s + r = 1 \<Longrightarrow>
   load_inv mx (fst (reserve_loop tbl b s r mx la clk off))"
proof (induction tbl b s r mx la clk off rule: reserve_loop.induct)
  case (1 tbl b s r mx la clk off)
  show ?case
  proof (cases "off \<le> la")
    case False
    then show ?thesis using 1(2) by (simp add: reserve_loop.simps[of tbl b s r mx la clk off])
  next
    case True
    obtain tbl' res where u: "upsert_minute tbl (b + off * 60000) s r (clk off) mx = (tbl', res)"
      by (cases "upsert_minute tbl (b + off * 60000) s r (clk off) mx")
    have inv': "load_inv mx tbl'"
      using upsert_minute_inv[OF 1(2) 1(3) 1(4), of "b + off * 60000" "clk off"] u by simp
    show ?thesis
    proof (cases res)
      case None
      have "load_inv mx (fst (reserve_loop tbl' b s r mx la clk (off + 1)))"
        using 1(1)[OF True refl _ _ inv' 1(3) 1(4)] u None by simp
      then show ?thesis
        using True u None by (simp add: Let_def reserve_loop.simps[of tbl b s r mx la clk off])
    next
      case (Some row)
      then show ?thesis using True u inv' by (simp add: Let_def reserve_loop.simps[of tbl b s r mx la clk off])
    qed
  qed
qed


lemma reserveDispatchSlot_inv:
  "load_inv mx tbl \<Longrightarrow> 0 < mx \<Longrightarrow> load_inv mx (fst (reserveDispatchSlot tbl mx inp))"
  unfolding reserveDispatchSlot_def Let_def
  by (rule reserve_loop_inv) (auto split: if_splits DispatchSource.splits, cases "source inp", auto)

lemma reserve_all_inv:
  "load_inv mx tbl \<Longrightarrow> 0 < mx \<Longrightarrow> load_inv mx (reserve_all mx tbl cs)"
  by (induction cs arbitrary: tbl) (auto intro: reserveDispatchSlot_inv)

lemma load_inv_empty: "load_inv mx Map.empty"
  by (simp add: load_inv_def)

text \<open>A call changes the table by at most one upsert that returned a row.\<close>

lemma reserve_loop_effect:
  "reserve_loop tbl b s r mx la clk off = (tbl', res) \<Longrightarrow>
   (res = None \<and> tbl' = tbl) \<or>
   (\<exists>slot row. res = Some slot \<and> off \<le> offsetMinutes slot \<and> offsetMinutes slot \<le> la \<and>
      minuteStart slot = b + offsetMinutes slot * 60000 \<and>
      upsert_minute tbl (minuteStart slot) s r (clk (offsetMinutes slot)) mx = (tbl', Some row) \<and>
      totalCount slot = total_count row \<and> scheduledCount slot = scheduled_count row \<and>
      retryCount slot = retry_count row)"
proof (induction tbl b s r mx la clk off rule: reserve_loop.induct)
  case (1 tbl b s r mx la clk off)
  show ?case
  proof (cases "off \<le> la")
    case False
    then show ?thesis using 1(2) by (simp add: reserve_loop.simps[of tbl b s r mx la clk off])
  next
    case True
    obtain t1 res1 where u: "upsert_minute tbl (b + off * 60000) s r (clk off) mx = (t1, res1)"
      by (cases "upsert_minute tbl (b + off * 60000) s r (clk off) mx")
    show ?thesis
    proof (cases res1)
      case None
      have t1: "t1 = tbl" using u None upsert_minute_None by blast
      have rec: "reserve_loop tbl b s r mx la clk (off + 1) = (tbl', res)"
        using 1(2) True u None t1 by (simp add: Let_def reserve_loop.simps[of tbl b s r mx la clk off])
      have "(res = None \<and> tbl' = tbl) \<or>
        (\<exists>slot row. res = Some slot \<and> off + 1 \<le> offsetMinutes slot \<and> offsetMinutes slot \<le> la \<and>
          minuteStart slot = b + offsetMinutes slot * 60000 \<and>
          upsert_minute tbl (minuteStart slot) s r (clk (offsetMinutes slot)) mx = (tbl', Some row) \<and>
          totalCount slot = total_count row \<and> scheduledCount slot = scheduled_count row \<and>
          retryCount slot = retry_count row)"
        using 1(1)[OF True refl _ _ ] u None t1 rec by simp
      then show ?thesis by force
    next
      case (Some row)
      then show ?thesis using 1(2) True u by (auto simp: Let_def reserve_loop.simps[of tbl b s r mx la clk off])
    qed
  qed
qed

lemma reserve_loop_full:
  "(\<forall>k. off \<le> k \<and> k \<le> la \<longrightarrow> \<not> has_capacity tbl mx (b + k * 60000)) \<Longrightarrow>
   reserve_loop tbl b s r mx la clk off = (tbl, None)"
proof (induction tbl b s r mx la clk off rule: reserve_loop.induct)
  case (1 tbl b s r mx la clk off)
  show ?case
  proof (cases "off \<le> la")
    case False
    then show ?thesis by (simp add: reserve_loop.simps[of tbl b s r mx la clk off])
  next
    case True
    have nc: "\<not> has_capacity tbl mx (b + off * 60000)" using 1(2) True by simp
    have u: "upsert_minute tbl (b + off * 60000) s r (clk off) mx = (tbl, None)"
      using nc by (auto simp: has_capacity_def upsert_minute_def split: option.splits)
    have "reserve_loop tbl b s r mx la clk (off + 1) = (tbl, None)"
      using 1(1)[OF True refl _ _ ] u 1(2) by simp
    then show ?thesis using True u by (simp add: Let_def reserve_loop.simps[of tbl b s r mx la clk off])
  qed
qed

lemma reserve_loop_first:
  "off \<le> k \<Longrightarrow> k \<le> la \<Longrightarrow> has_capacity tbl mx (b + k * 60000) \<Longrightarrow>
   (\<forall>j. off \<le> j \<and> j < k \<longrightarrow> \<not> has_capacity tbl mx (b + j * 60000)) \<Longrightarrow>
   \<exists>row. upsert_minute tbl (b + k * 60000) s r (clk k) mx = (tbl(b + k * 60000 \<mapsto> row), Some row) \<and>
     reserve_loop tbl b s r mx la clk off =
       (tbl(b + k * 60000 \<mapsto> row),
        Some \<lparr>minuteStart = b + k * 60000, offsetMinutes = k, totalCount = total_count row,
              scheduledCount = scheduled_count row, retryCount = retry_count row\<rparr>)"
proof (induction tbl b s r mx la clk off rule: reserve_loop.induct)
  case (1 tbl b s r mx la clk off)
  have ola: "off \<le> la" using 1(2,3) by simp
  show ?case
  proof (cases "off = k")
    case True
    obtain row where u: "upsert_minute tbl (b + k * 60000) s r (clk k) mx = (tbl(b + k * 60000 \<mapsto> row), Some row)"
      using 1(4) by (auto simp: has_capacity_def upsert_minute_def Let_def split: option.splits)
    show ?thesis using u True ola by (auto simp: Let_def reserve_loop.simps[of tbl b s r mx la clk k])
  next
    case False
    then have lt: "off < k" using 1(2) by simp
    have nc: "\<not> has_capacity tbl mx (b + off * 60000)" using 1(5) lt by simp
    have u: "upsert_minute tbl (b + off * 60000) s r (clk off) mx = (tbl, None)"
      using nc by (auto simp: has_capacity_def upsert_minute_def split: option.splits)
    have step: "reserve_loop tbl b s r mx la clk off = reserve_loop tbl b s r mx la clk (off + 1)"
      using ola u by (simp add: Let_def reserve_loop.simps[of tbl b s r mx la clk off])
    have "\<exists>row. upsert_minute tbl (b + k * 60000) s r (clk k) mx = (tbl(b + k * 60000 \<mapsto> row), Some row) \<and>
     reserve_loop tbl b s r mx la clk (off + 1) =
       (tbl(b + k * 60000 \<mapsto> row),
        Some \<lparr>minuteStart = b + k * 60000, offsetMinutes = k, totalCount = total_count row,
              scheduledCount = scheduled_count row, retryCount = retry_count row\<rparr>)"
    proof -
      have k1: "off + 1 \<le> k" using lt by simp
      have all1: "\<forall>j. off + 1 \<le> j \<and> j < k \<longrightarrow> \<not> has_capacity tbl mx (b + j * 60000)"
        using 1(5) by simp
      show ?thesis by (rule 1(1)[OF ola refl u[symmetric] refl k1 1(3) 1(4) all1])
    qed
    then show ?thesis unfolding step .
  qed
qed


lemma upsert_minute_Some:
  "upsert_minute tbl m s r now mx = (t', Some row) \<Longrightarrow>
   t' = tbl(m \<mapsto> row) \<and>
   total_count row = (case tbl m of None \<Rightarrow> 1 | Some x \<Rightarrow> total_count x + 1) \<and>
   scheduled_count row = (case tbl m of None \<Rightarrow> s | Some x \<Rightarrow> scheduled_count x + s) \<and>
   retry_count row = (case tbl m of None \<Rightarrow> r | Some x \<Rightarrow> retry_count x + r)"
  by (auto simp: upsert_minute_def Let_def split: option.splits if_splits)

lemma reserveDispatchSlot_full:
  "(\<forall>k. 0 \<le> k \<and> k \<le> lookaheadMinutes inp \<longrightarrow>
       \<not> has_capacity tbl mx (baseMinute inp + k * 60000)) \<Longrightarrow>
   reserveDispatchSlot tbl mx inp = (tbl, None)"
  unfolding reserveDispatchSlot_def Let_def baseMinute_def
  by (rule reserve_loop_full)

lemma reserveDispatchSlot_first:
  assumes "0 \<le> k" "k \<le> lookaheadMinutes inp"
    and "has_capacity tbl mx (baseMinute inp + k * 60000)"
    and "\<forall>j. 0 \<le> j \<and> j < k \<longrightarrow> \<not> has_capacity tbl mx (baseMinute inp + j * 60000)"
  shows "\<exists>row. reserveDispatchSlot tbl mx inp =
       (tbl(baseMinute inp + k * 60000 \<mapsto> row),
        Some \<lparr>minuteStart = baseMinute inp + k * 60000, offsetMinutes = k,
              totalCount = total_count row, scheduledCount = scheduled_count row,
              retryCount = retry_count row\<rparr>) \<and>
     total_count row =
       (case tbl (baseMinute inp + k * 60000) of None \<Rightarrow> 1 | Some x \<Rightarrow> total_count x + 1) \<and>
     scheduled_count row =
       (case tbl (baseMinute inp + k * 60000) of
          None \<Rightarrow> (if source inp = Scheduled then 1 else 0)
        | Some x \<Rightarrow> scheduled_count x + (if source inp = Scheduled then 1 else 0)) \<and>
     retry_count row =
       (case tbl (baseMinute inp + k * 60000) of
          None \<Rightarrow> (if source inp = Retry then 1 else 0)
        | Some x \<Rightarrow> retry_count x + (if source inp = Retry then 1 else 0))"
proof -
  let ?s = "if source inp = Scheduled then 1 else (0::int)"
  let ?r = "if source inp = Retry then 1 else (0::int)"
  obtain row where
    u: "upsert_minute tbl (baseMinute inp + k * 60000) ?s ?r (clock inp k) mx =
          (tbl(baseMinute inp + k * 60000 \<mapsto> row), Some row)"
    and l: "reserve_loop tbl (baseMinute inp) ?s ?r mx (lookaheadMinutes inp) (clock inp) 0 =
       (tbl(baseMinute inp + k * 60000 \<mapsto> row),
        Some \<lparr>minuteStart = baseMinute inp + k * 60000, offsetMinutes = k,
              totalCount = total_count row, scheduledCount = scheduled_count row,
              retryCount = retry_count row\<rparr>)"
    using reserve_loop_first[OF assms(1) assms(2) assms(3) assms(4), of ?s ?r "clock inp"]
    by blast
  have r: "reserveDispatchSlot tbl mx inp =
       (tbl(baseMinute inp + k * 60000 \<mapsto> row),
        Some \<lparr>minuteStart = baseMinute inp + k * 60000, offsetMinutes = k,
              totalCount = total_count row, scheduledCount = scheduled_count row,
              retryCount = retry_count row\<rparr>)"
    using l unfolding reserveDispatchSlot_def Let_def baseMinute_def .
  show ?thesis
    using r upsert_minute_Some[OF u] by blast
qed

lemma reserveDispatchSlot_at:
  assumes "m = baseMinute inp + k * 60000" "0 \<le> k" "k \<le> lookaheadMinutes inp"
    and "has_capacity tbl mx m"
    and "\<forall>j. 0 \<le> j \<and> j < k \<longrightarrow> \<not> has_capacity tbl mx (baseMinute inp + j * 60000)"
  shows "\<exists>row. reserveDispatchSlot tbl mx inp =
       (tbl(m \<mapsto> row),
        Some \<lparr>minuteStart = m, offsetMinutes = k,
              totalCount = total_count row, scheduledCount = scheduled_count row,
              retryCount = retry_count row\<rparr>) \<and>
     total_count row = (case tbl m of None \<Rightarrow> 1 | Some x \<Rightarrow> total_count x + 1)"
  using reserveDispatchSlot_first[OF assms(2) assms(3) assms(4)[unfolded assms(1)] assms(5)]
  unfolding assms(1) by blast

lemma fill_step:
  assumes b: "baseMinute inp = base" and la: "0 \<le> lookaheadMinutes inp"
    and st: "holds_only tbl base c"
    and c: "c < mx" "0 \<le> c"
  shows "holds_only (fst (reserveDispatchSlot tbl mx inp)) base (c + 1)"
proof -
  have cap: "has_capacity tbl mx base"
    using st c unfolding holds_only_def has_capacity_def by (auto split: if_splits)
  have m: "base = baseMinute inp + 0 * 60000" using b by simp
  have nolower: "\<forall>j. 0 \<le> j \<and> j < 0 \<longrightarrow> \<not> has_capacity tbl mx (baseMinute inp + j * 60000)"
    by auto
  have "\<exists>row. reserveDispatchSlot tbl mx inp =
       (tbl(base \<mapsto> row),
        Some \<lparr>minuteStart = base, offsetMinutes = 0,
              totalCount = total_count row, scheduledCount = scheduled_count row,
              retryCount = retry_count row\<rparr>) \<and>
     total_count row = (case tbl base of None \<Rightarrow> 1 | Some x \<Rightarrow> total_count x + 1)"
    by (rule reserveDispatchSlot_at[OF m order_refl la cap nolower])
  then obtain row where
    r: "fst (reserveDispatchSlot tbl mx inp) = tbl(base \<mapsto> row)"
    and t: "total_count row = (case tbl base of None \<Rightarrow> 1 | Some x \<Rightarrow> total_count x + 1)"
    by force
  have "total_count row = c + 1"
    using t st unfolding holds_only_def by (auto split: if_splits)
  moreover have "c + 1 \<noteq> 0" using c by simp
  ultimately show ?thesis
    using st unfolding r holds_only_def by simp
qed

lemma fill_all:
  "(\<forall>inp \<in> set cs. baseMinute inp = base \<and> 0 \<le> lookaheadMinutes inp) \<Longrightarrow>
   holds_only tbl base c \<Longrightarrow> 0 \<le> c \<Longrightarrow> c + int (length cs) \<le> mx \<Longrightarrow>
   holds_only (reserve_all mx tbl cs) base (c + int (length cs))"
proof (induction cs arbitrary: tbl c)
  case Nil
  then show ?case by simp
next
  case (Cons inp cs)
  have b: "baseMinute inp = base" and la: "0 \<le> lookaheadMinutes inp"
    using Cons.prems(1) by auto
  have rest: "\<forall>inp \<in> set cs. baseMinute inp = base \<and> 0 \<le> lookaheadMinutes inp"
    using Cons.prems(1) by simp
  have c: "c < mx" using Cons.prems(4) by simp
  have st': "holds_only (fst (reserveDispatchSlot tbl mx inp)) base (c + 1)"
    by (rule fill_step[OF b la Cons.prems(2) c Cons.prems(3)])
  have c1: "0 \<le> c + 1" using Cons.prems(3) by simp
  have le: "c + 1 + int (length cs) \<le> mx" using Cons.prems(4) by simp
  have "holds_only (reserve_all mx (fst (reserveDispatchSlot tbl mx inp)) cs) base
          (c + 1 + int (length cs))"
    by (rule Cons.IH[OF rest st' c1 le])
  moreover have "c + 1 + int (length cs) = c + int (length (inp # cs))" by simp
  ultimately show ?case by (simp only: reserve_all.simps)
qed

lemma spill_after_full:
  assumes mx: "0 < mx"
    and cs: "\<forall>c \<in> set cs. baseMinute c = baseMinute inp \<and> 0 \<le> lookaheadMinutes c"
    and len: "int (length cs) = mx"
    and la: "1 \<le> lookaheadMinutes inp"
  shows "\<exists>slot. snd (reserveDispatchSlot (reserve_all mx Map.empty cs) mx inp) = Some slot \<and>
           offsetMinutes slot = 1 \<and> minuteStart slot = baseMinute inp + 60000 \<and>
           totalCount slot = 1"
proof -
  let ?t = "reserve_all mx Map.empty cs"
  let ?m = "baseMinute inp + 60000"
  have e: "holds_only Map.empty (baseMinute inp) 0" by (simp add: holds_only_def)
  have "holds_only ?t (baseMinute inp) (0 + int (length cs))"
    by (rule fill_all[OF cs e]) (use len in auto)
  then have h: "holds_only ?t (baseMinute inp) mx" using len by simp
  have tm: "?t ?m = None" using h unfolding holds_only_def by simp
  obtain r where tb: "?t (baseMinute inp) = Some r" "total_count r = mx"
    using h mx unfolding holds_only_def by (auto split: if_splits)
  have m: "?m = baseMinute inp + 1 * 60000" by simp
  have c1: "has_capacity ?t mx ?m"
    using tm by (simp add: has_capacity_def)
  have c0: "\<forall>j. 0 \<le> j \<and> j < 1 \<longrightarrow> \<not> has_capacity ?t mx (baseMinute inp + j * 60000)"
  proof (intro allI impI)
    fix j :: int assume "0 \<le> j \<and> j < 1"
    then have "j = 0" by simp
    then show "\<not> has_capacity ?t mx (baseMinute inp + j * 60000)"
      using tb by (simp add: has_capacity_def)
  qed
  have "\<exists>row. reserveDispatchSlot ?t mx inp =
       (?t(?m \<mapsto> row),
        Some \<lparr>minuteStart = ?m, offsetMinutes = 1,
              totalCount = total_count row, scheduledCount = scheduled_count row,
              retryCount = retry_count row\<rparr>) \<and>
     total_count row = (case ?t ?m of None \<Rightarrow> 1 | Some x \<Rightarrow> total_count x + 1)"
    by (rule reserveDispatchSlot_at[OF m _ la c1 c0]) simp
  then obtain row where
    full: "reserveDispatchSlot ?t mx inp =
       (?t(?m \<mapsto> row),
        Some \<lparr>minuteStart = ?m, offsetMinutes = 1,
              totalCount = total_count row, scheduledCount = scheduled_count row,
              retryCount = retry_count row\<rparr>)"
    and tr: "total_count row = (case ?t ?m of None \<Rightarrow> 1 | Some x \<Rightarrow> total_count x + 1)"
    by blast
  have r: "snd (reserveDispatchSlot ?t mx inp) =
        Some \<lparr>minuteStart = ?m, offsetMinutes = 1,
              totalCount = total_count row, scheduledCount = scheduled_count row,
              retryCount = retry_count row\<rparr>"
    unfolding full by simp
  have "total_count row = 1" using tr tm by simp
  then show ?thesis using r by simp
qed


lemma reserveDispatchSlot_effect:
  assumes "reserveDispatchSlot tbl mx inp = (tbl', res)"
  shows "(res = None \<and> tbl' = tbl) \<or>
     (\<exists>slot row. res = Some slot \<and>
        upsert_minute tbl (minuteStart slot) (if source inp = Scheduled then 1 else 0)
          (if source inp = Retry then 1 else 0) (clock inp (offsetMinutes slot)) mx
          = (tbl', Some row))"
  using reserve_loop_effect[OF assms[unfolded reserveDispatchSlot_def Let_def]] by blast

text \<open>
  Claim C1. Start from an empty \<open>dispatch_minute_load\<close> and run any sequence of
  \<open>reserveDispatchSlot\<close> calls with one positive quota \<open>maxPerMinute\<close>: every row of
  the table then has \<open>total_count = scheduled_count + retry_count\<close> and
  \<open>total_count \<le> maxPerMinute\<close>. A call leaves the table as it was (and returns
  nothing), or changes it by exactly one upsert that returned a row; the upsert inserts
  \<open>(scheduledInc, retryInc, 1)\<close> when the minute has no row, increments the row when
  its \<open>total_count\<close> is below the quota, and otherwise changes nothing.
\<close>

theorem dispatch_minute_load_invariant:
  assumes "0 < maxPerMinute"
  shows
    "(\<forall>m r. reserve_all maxPerMinute Map.empty cs m = Some r \<longrightarrow>
        total_count r = scheduled_count r + retry_count r \<and> total_count r \<le> maxPerMinute) \<and>
     (\<forall>tbl inp tbl' res. reserveDispatchSlot tbl maxPerMinute inp = (tbl', res) \<longrightarrow>
        (res = None \<and> tbl' = tbl) \<or>
        (\<exists>slot row. res = Some slot \<and>
           upsert_minute tbl (minuteStart slot) (if source inp = Scheduled then 1 else 0)
             (if source inp = Retry then 1 else 0) (clock inp (offsetMinutes slot)) maxPerMinute
             = (tbl', Some row))) \<and>
     (\<forall>tbl m sInc rInc now. tbl m = None \<longrightarrow>
        upsert_minute tbl m sInc rInc now maxPerMinute =
          (tbl(m \<mapsto> \<lparr>scheduled_count = sInc, retry_count = rInc, total_count = 1,
                       created_at = now, updated_at = now\<rparr>),
           Some \<lparr>scheduled_count = sInc, retry_count = rInc, total_count = 1,
                 created_at = now, updated_at = now\<rparr>)) \<and>
     (\<forall>tbl m sInc rInc now x. tbl m = Some x \<and> total_count x < maxPerMinute \<longrightarrow>
        upsert_minute tbl m sInc rInc now maxPerMinute =
          (tbl(m \<mapsto> x\<lparr>scheduled_count := scheduled_count x + sInc,
                        retry_count := retry_count x + rInc,
                        total_count := total_count x + 1, updated_at := now\<rparr>),
           Some (x\<lparr>scheduled_count := scheduled_count x + sInc,
                    retry_count := retry_count x + rInc,
                    total_count := total_count x + 1, updated_at := now\<rparr>))) \<and>
     (\<forall>tbl m sInc rInc now x. tbl m = Some x \<and> \<not> total_count x < maxPerMinute \<longrightarrow>
        upsert_minute tbl m sInc rInc now maxPerMinute = (tbl, None))"
proof -
  have "load_inv maxPerMinute (reserve_all maxPerMinute Map.empty cs)"
    by (rule reserve_all_inv[OF load_inv_empty assms])
  then have a: "\<forall>m r. reserve_all maxPerMinute Map.empty cs m = Some r \<longrightarrow>
        total_count r = scheduled_count r + retry_count r \<and> total_count r \<le> maxPerMinute"
    unfolding load_inv_def .
  have b: "\<forall>tbl inp tbl' res. reserveDispatchSlot tbl maxPerMinute inp = (tbl', res) \<longrightarrow>
        (res = None \<and> tbl' = tbl) \<or>
        (\<exists>slot row. res = Some slot \<and>
           upsert_minute tbl (minuteStart slot) (if source inp = Scheduled then 1 else 0)
             (if source inp = Retry then 1 else 0) (clock inp (offsetMinutes slot)) maxPerMinute
             = (tbl', Some row))"
    using reserveDispatchSlot_effect by blast
  show ?thesis
    apply (intro conjI)
    apply (rule a)
    apply (rule b)
    apply (simp_all add: upsert_minute_def Let_def)
    done
qed

theorem dispatch_minute_load_invariant_witness:
  "(0::int) < 1 \<and>
   (\<exists>r. reserve_all 1 Map.empty
      [\<lparr>preferredAt = Some 90000, source = Scheduled, lookaheadMinutes = 2, nowDate = 0,
         clock = (\<lambda>_. 7)\<rparr>,
       \<lparr>preferredAt = Some 90000, source = Retry, lookaheadMinutes = 2, nowDate = 0,
         clock = (\<lambda>_. 7)\<rparr>] 120000 = Some r \<and>
      retry_count r = 1 \<and>
      total_count r = scheduled_count r + retry_count r \<and> total_count r \<le> 1)"
proof -
  let ?cs = "[\<lparr>preferredAt = Some 90000, source = Scheduled, lookaheadMinutes = 2, nowDate = 0,
         clock = (\<lambda>_. 7)\<rparr>,
       \<lparr>preferredAt = Some 90000, source = Retry, lookaheadMinutes = 2, nowDate = 0,
         clock = (\<lambda>_. 7)\<rparr>]"
  have ev: "reserve_all 1 Map.empty ?cs 120000 =
      Some \<lparr>scheduled_count = 0, retry_count = 1, total_count = 1, created_at = 7, updated_at = 7\<rparr>"
    by (simp add: reserveDispatchSlot_def reserve_loop.simps upsert_minute_def
        normalizePreferredDate_def floorToMinute_def Let_def)
  have pos: "(0::int) < 1" by simp
  show ?thesis
    using dispatch_minute_load_invariant[OF pos, of ?cs] ev by simp
qed

text \<open>
  Claim C4. \<open>reserveDispatchSlot\<close> returns the first minute of the window
  \<open>baseMinute, ..., baseMinute + lookaheadMinutes\<close> whose capacity condition holds,
  with the offset walked and the counters of the row after the increment; when no minute
  of the window has capacity it returns nothing and leaves the table unchanged. With quota
  \<open>N > 0\<close>, after \<open>N\<close> reservations for one preferred minute on an empty table, the
  next reservation for that minute (with a window of at least one more minute) returns
  \<open>offsetMinutes = 1\<close>.
\<close>

theorem reserveDispatchSlot_first_free:
  "((\<forall>k. 0 \<le> k \<and> k \<le> lookaheadMinutes inp \<longrightarrow>
        \<not> has_capacity tbl maxPerMinute (baseMinute inp + k * 60000)) \<longrightarrow>
      reserveDispatchSlot tbl maxPerMinute inp = (tbl, None)) \<and>
   (\<forall>k. 0 \<le> k \<and> k \<le> lookaheadMinutes inp \<and>
        has_capacity tbl maxPerMinute (baseMinute inp + k * 60000) \<and>
        (\<forall>j. 0 \<le> j \<and> j < k \<longrightarrow> \<not> has_capacity tbl maxPerMinute (baseMinute inp + j * 60000)) \<longrightarrow>
      (\<exists>row. reserveDispatchSlot tbl maxPerMinute inp =
         (tbl(baseMinute inp + k * 60000 \<mapsto> row),
          Some \<lparr>minuteStart = baseMinute inp + k * 60000, offsetMinutes = k,
                totalCount = total_count row, scheduledCount = scheduled_count row,
                retryCount = retry_count row\<rparr>) \<and>
       total_count row =
         (case tbl (baseMinute inp + k * 60000) of None \<Rightarrow> 1 | Some x \<Rightarrow> total_count x + 1) \<and>
       scheduled_count row =
         (case tbl (baseMinute inp + k * 60000) of
            None \<Rightarrow> (if source inp = Scheduled then 1 else 0)
          | Some x \<Rightarrow> scheduled_count x + (if source inp = Scheduled then 1 else 0)) \<and>
       retry_count row =
         (case tbl (baseMinute inp + k * 60000) of
            None \<Rightarrow> (if source inp = Retry then 1 else 0)
          | Some x \<Rightarrow> retry_count x + (if source inp = Retry then 1 else 0)))) \<and>
   (0 < maxPerMinute \<and> int (length cs) = maxPerMinute \<and>
    (\<forall>c \<in> set cs. baseMinute c = baseMinute inp \<and> 0 \<le> lookaheadMinutes c) \<and>
    1 \<le> lookaheadMinutes inp \<longrightarrow>
      (\<exists>slot. snd (reserveDispatchSlot (reserve_all maxPerMinute Map.empty cs) maxPerMinute inp)
                = Some slot \<and>
         offsetMinutes slot = 1 \<and> minuteStart slot = baseMinute inp + 60000 \<and>
         totalCount slot = 1))"
proof (intro conjI)
  show "(\<forall>k. 0 \<le> k \<and> k \<le> lookaheadMinutes inp \<longrightarrow>
        \<not> has_capacity tbl maxPerMinute (baseMinute inp + k * 60000)) \<longrightarrow>
      reserveDispatchSlot tbl maxPerMinute inp = (tbl, None)"
    using reserveDispatchSlot_full by blast
next
  show "\<forall>k. 0 \<le> k \<and> k \<le> lookaheadMinutes inp \<and>
        has_capacity tbl maxPerMinute (baseMinute inp + k * 60000) \<and>
        (\<forall>j. 0 \<le> j \<and> j < k \<longrightarrow> \<not> has_capacity tbl maxPerMinute (baseMinute inp + j * 60000)) \<longrightarrow>
      (\<exists>row. reserveDispatchSlot tbl maxPerMinute inp =
         (tbl(baseMinute inp + k * 60000 \<mapsto> row),
          Some \<lparr>minuteStart = baseMinute inp + k * 60000, offsetMinutes = k,
                totalCount = total_count row, scheduledCount = scheduled_count row,
                retryCount = retry_count row\<rparr>) \<and>
       total_count row =
         (case tbl (baseMinute inp + k * 60000) of None \<Rightarrow> 1 | Some x \<Rightarrow> total_count x + 1) \<and>
       scheduled_count row =
         (case tbl (baseMinute inp + k * 60000) of
            None \<Rightarrow> (if source inp = Scheduled then 1 else 0)
          | Some x \<Rightarrow> scheduled_count x + (if source inp = Scheduled then 1 else 0)) \<and>
       retry_count row =
         (case tbl (baseMinute inp + k * 60000) of
            None \<Rightarrow> (if source inp = Retry then 1 else 0)
          | Some x \<Rightarrow> retry_count x + (if source inp = Retry then 1 else 0)))"
    using reserveDispatchSlot_first by blast
next
  show "0 < maxPerMinute \<and> int (length cs) = maxPerMinute \<and>
    (\<forall>c \<in> set cs. baseMinute c = baseMinute inp \<and> 0 \<le> lookaheadMinutes c) \<and>
    1 \<le> lookaheadMinutes inp \<longrightarrow>
      (\<exists>slot. snd (reserveDispatchSlot (reserve_all maxPerMinute Map.empty cs) maxPerMinute inp)
                = Some slot \<and>
         offsetMinutes slot = 1 \<and> minuteStart slot = baseMinute inp + 60000 \<and>
         totalCount slot = 1)"
    using spill_after_full by blast
qed


theorem reserveDispatchSlot_first_free_witness:
  "reserveDispatchSlot
     [60000 \<mapsto> \<lparr>scheduled_count = 1, retry_count = 0, total_count = 1, created_at = 5, updated_at = 5\<rparr>]
     1 \<lparr>preferredAt = Some 90000, source = Retry, lookaheadMinutes = 0, nowDate = 0, clock = (\<lambda>_. 7)\<rparr>
   = ([60000 \<mapsto> \<lparr>scheduled_count = 1, retry_count = 0, total_count = 1, created_at = 5, updated_at = 5\<rparr>],
      None) \<and>
   snd (reserveDispatchSlot
     [60000 \<mapsto> \<lparr>scheduled_count = 1, retry_count = 0, total_count = 1, created_at = 5, updated_at = 5\<rparr>]
     1 \<lparr>preferredAt = Some 90000, source = Retry, lookaheadMinutes = 3, nowDate = 0, clock = (\<lambda>_. 7)\<rparr>)
     = Some \<lparr>minuteStart = 120000, offsetMinutes = 1, totalCount = 1,
             scheduledCount = 0, retryCount = 1\<rparr> \<and>
   (\<exists>slot. snd (reserveDispatchSlot
       (reserve_all 1 Map.empty
          [\<lparr>preferredAt = Some 90000, source = Scheduled, lookaheadMinutes = 3, nowDate = 0,
            clock = (\<lambda>_. 7)\<rparr>])
       1 \<lparr>preferredAt = Some 90000, source = Retry, lookaheadMinutes = 3, nowDate = 0, clock = (\<lambda>_. 7)\<rparr>)
      = Some slot \<and> offsetMinutes slot = 1 \<and> minuteStart slot = 120000 \<and> totalCount slot = 1)"
proof -
  let ?row = "\<lparr>scheduled_count = 1, retry_count = 0, total_count = 1, created_at = 5, updated_at = 5\<rparr>"
  let ?tbl = "[60000 \<mapsto> ?row]"
  let ?i0 = "\<lparr>preferredAt = Some 90000, source = Retry, lookaheadMinutes = 0, nowDate = 0, clock = (\<lambda>_. 7)\<rparr>"
  let ?i3 = "\<lparr>preferredAt = Some 90000, source = Retry, lookaheadMinutes = 3, nowDate = 0, clock = (\<lambda>_. 7)\<rparr>"
  let ?s3 = "\<lparr>preferredAt = Some 90000, source = Scheduled, lookaheadMinutes = 3, nowDate = 0, clock = (\<lambda>_. 7)\<rparr>"
  have b: "baseMinute ?i0 = 60000" "baseMinute ?i3 = 60000" "baseMinute ?s3 = 60000"
    by (simp_all add: baseMinute_def normalizePreferredDate_def floorToMinute_def)
  have full0: "\<forall>k. 0 \<le> k \<and> k \<le> lookaheadMinutes ?i0 \<longrightarrow>
        \<not> has_capacity ?tbl 1 (baseMinute ?i0 + k * 60000)"
    unfolding b by (auto simp: has_capacity_def)
  have A: "reserveDispatchSlot ?tbl 1 ?i0 = (?tbl, None)"
    using reserveDispatchSlot_first_free[of ?i0 ?tbl 1 "[]"] full0 by blast
  have pre1: "0 \<le> (1::int) \<and> 1 \<le> lookaheadMinutes ?i3 \<and>
        has_capacity ?tbl 1 (baseMinute ?i3 + 1 * 60000) \<and>
        (\<forall>j. 0 \<le> j \<and> j < 1 \<longrightarrow> \<not> has_capacity ?tbl 1 (baseMinute ?i3 + j * 60000))"
    unfolding b by (auto simp: has_capacity_def)
  have B: "snd (reserveDispatchSlot ?tbl 1 ?i3)
     = Some \<lparr>minuteStart = 120000, offsetMinutes = 1, totalCount = 1,
             scheduledCount = 0, retryCount = 1\<rparr>"
  proof -
    from reserveDispatchSlot_first_free[of ?i3 ?tbl 1 "[]"] pre1
    obtain row where
      "reserveDispatchSlot ?tbl 1 ?i3 =
         (?tbl(baseMinute ?i3 + 1 * 60000 \<mapsto> row),
          Some \<lparr>minuteStart = baseMinute ?i3 + 1 * 60000, offsetMinutes = 1,
                totalCount = total_count row, scheduledCount = scheduled_count row,
                retryCount = retry_count row\<rparr>)"
      "total_count row =
         (case ?tbl (baseMinute ?i3 + 1 * 60000) of None \<Rightarrow> 1 | Some x \<Rightarrow> total_count x + 1)"
      "scheduled_count row =
         (case ?tbl (baseMinute ?i3 + 1 * 60000) of
            None \<Rightarrow> (if source ?i3 = Scheduled then 1 else 0)
          | Some x \<Rightarrow> scheduled_count x + (if source ?i3 = Scheduled then 1 else 0))"
      "retry_count row =
         (case ?tbl (baseMinute ?i3 + 1 * 60000) of
            None \<Rightarrow> (if source ?i3 = Retry then 1 else 0)
          | Some x \<Rightarrow> retry_count x + (if source ?i3 = Retry then 1 else 0))"
      by blast
    then show ?thesis unfolding b by simp
  qed
  have pre2: "(0::int) < 1 \<and> int (length [?s3]) = 1 \<and>
    (\<forall>c \<in> set [?s3]. baseMinute c = baseMinute ?i3 \<and> 0 \<le> lookaheadMinutes c) \<and>
    1 \<le> lookaheadMinutes ?i3"
    using b by simp
  have C: "\<exists>slot. snd (reserveDispatchSlot (reserve_all 1 Map.empty [?s3]) 1 ?i3) = Some slot \<and>
         offsetMinutes slot = 1 \<and> minuteStart slot = 120000 \<and> totalCount slot = 1"
    using reserveDispatchSlot_first_free[of ?i3 ?tbl 1 "[?s3]"] pre2 b by simp
  show ?thesis using A B C by blast
qed


text \<open>
  \<open>evaluateSiteUrl\<close> on what the URL parser reports, read from the top: a missing,
  empty or blank \<open>rawSiteUrl\<close> gives \<open>pending_url_missing\<close>; one that \<open>new URL\<close>
  rejects gives \<open>pending_url_invalid\<close>; a protocol other than \<open>http:\<close> and \<open>https:\<close>
  gives \<open>pending_url_invalid_protocol\<close>; the hostname \<open>example.com\<close> gives
  \<open>pending_url_default_example\<close>; a hostname that is \<open>localhost\<close>, \<open>127.0.0.1\<close> or
  \<open>::1\<close>, that ends with \<open>.localhost\<close> or \<open>.local\<close>, or that starts with \<open>127.\<close>
  gives \<open>pending_url_localhost\<close>; every other URL gives \<open>scheme://host\<close> and no
  pending reason. The status derived from the result is \<open>pending_url\<close> exactly when the
  pending reason is not null. The hostname is the one that \<open>new URL\<close> reports, in lower
  case.
\<close>

lemma evaluateSiteUrl_table:
  "(normalizeNullableString rawSiteUrl = None \<longrightarrow>
      evaluateSiteUrl P rawSiteUrl = \<lparr>url = None, pendingReason = Some ''pending_url_missing''\<rparr>) \<and>
   normalizeNullableString None = None \<and> normalizeNullableString (Some '''') = None \<and>
   (\<forall>raw. normalizeNullableString rawSiteUrl = Some raw \<and> parseURL P raw = None \<longrightarrow>
      evaluateSiteUrl P rawSiteUrl = \<lparr>url = None, pendingReason = Some ''pending_url_invalid''\<rparr>) \<and>
   (\<forall>raw u. normalizeNullableString rawSiteUrl = Some raw \<and> parseURL P raw = Some u \<and>
        protocol u \<noteq> ''http:'' \<and> protocol u \<noteq> ''https:'' \<longrightarrow>
      evaluateSiteUrl P rawSiteUrl =
        \<lparr>url = None, pendingReason = Some ''pending_url_invalid_protocol''\<rparr>) \<and>
   (\<forall>raw u. normalizeNullableString rawSiteUrl = Some raw \<and> parseURL P raw = Some u \<and>
        (protocol u = ''http:'' \<or> protocol u = ''https:'') \<and>
        toLowerCase (hostname u) = ''example.com'' \<longrightarrow>
      evaluateSiteUrl P rawSiteUrl =
        \<lparr>url = None, pendingReason = Some ''pending_url_default_example''\<rparr>) \<and>
   (\<forall>raw u h. normalizeNullableString rawSiteUrl = Some raw \<and> parseURL P raw = Some u \<and>
        (protocol u = ''http:'' \<or> protocol u = ''https:'') \<and>
        h = toLowerCase (hostname u) \<and>
        (h = ''localhost'' \<or> h = ''127.0.0.1'' \<or> h = ''::1'' \<or> endsWith h ''.localhost'' \<or>
         endsWith h ''.local'' \<or> startsWith h ''127.'') \<longrightarrow>
      evaluateSiteUrl P rawSiteUrl = \<lparr>url = None, pendingReason = Some ''pending_url_localhost''\<rparr>) \<and>
   (\<forall>raw u h scheme. normalizeNullableString rawSiteUrl = Some raw \<and> parseURL P raw = Some u \<and>
        (scheme = ''http'' \<or> scheme = ''https'') \<and> protocol u = scheme @ '':'' \<and>
        h = toLowerCase (hostname u) \<and> h \<noteq> ''example.com'' \<and>
        \<not> (h = ''localhost'' \<or> h = ''127.0.0.1'' \<or> h = ''::1'' \<or> endsWith h ''.localhost'' \<or>
           endsWith h ''.local'' \<or> startsWith h ''127.'') \<longrightarrow>
      evaluateSiteUrl P rawSiteUrl =
        \<lparr>url = Some (scheme @ ''://'' @ host u), pendingReason = None\<rparr>) \<and>
   (statusOfPendingReason (pendingReason (evaluateSiteUrl P rawSiteUrl)) = PendingUrl
      \<longleftrightarrow> pendingReason (evaluateSiteUrl P rawSiteUrl) \<noteq> None) \<and>
   (statusOfPendingReason (pendingReason (evaluateSiteUrl P rawSiteUrl)) = Active
      \<longleftrightarrow> pendingReason (evaluateSiteUrl P rawSiteUrl) = None)"
proof -
  have missing: "normalizeNullableString rawSiteUrl = None \<longrightarrow>
      evaluateSiteUrl P rawSiteUrl = \<lparr>url = None, pendingReason = Some ''pending_url_missing''\<rparr>"
    by (simp add: evaluateSiteUrl_def)
  have n0: "normalizeNullableString None = None" "normalizeNullableString (Some '''') = None"
    by (simp_all add: normalizeNullableString_def trim_def)
  have invalid: "\<forall>raw. normalizeNullableString rawSiteUrl = Some raw \<and> parseURL P raw = None \<longrightarrow>
      evaluateSiteUrl P rawSiteUrl = \<lparr>url = None, pendingReason = Some ''pending_url_invalid''\<rparr>"
    by (simp add: evaluateSiteUrl_def)
  have proto: "\<forall>raw u. normalizeNullableString rawSiteUrl = Some raw \<and> parseURL P raw = Some u \<and>
        protocol u \<noteq> ''http:'' \<and> protocol u \<noteq> ''https:'' \<longrightarrow>
      evaluateSiteUrl P rawSiteUrl =
        \<lparr>url = None, pendingReason = Some ''pending_url_invalid_protocol''\<rparr>"
    by (simp add: evaluateSiteUrl_def)
  have example: "\<forall>raw u. normalizeNullableString rawSiteUrl = Some raw \<and> parseURL P raw = Some u \<and>
        (protocol u = ''http:'' \<or> protocol u = ''https:'') \<and>
        toLowerCase (hostname u) = ''example.com'' \<longrightarrow>
      evaluateSiteUrl P rawSiteUrl =
        \<lparr>url = None, pendingReason = Some ''pending_url_default_example''\<rparr>"
    by (auto simp: evaluateSiteUrl_def Let_def)
  have ne: "\<not> endsWith ''example.com'' ''.localhost''" "\<not> endsWith ''example.com'' ''.local''"
    "\<not> startsWith ''example.com'' ''127.''"
    by (simp_all add: endsWith_def startsWith_def)
  have localh: "\<forall>raw u h. normalizeNullableString rawSiteUrl = Some raw \<and> parseURL P raw = Some u \<and>
        (protocol u = ''http:'' \<or> protocol u = ''https:'') \<and>
        h = toLowerCase (hostname u) \<and>
        (h = ''localhost'' \<or> h = ''127.0.0.1'' \<or> h = ''::1'' \<or> endsWith h ''.localhost'' \<or>
         endsWith h ''.local'' \<or> startsWith h ''127.'') \<longrightarrow>
      evaluateSiteUrl P rawSiteUrl = \<lparr>url = None, pendingReason = Some ''pending_url_localhost''\<rparr>"
    using ne by (auto simp: evaluateSiteUrl_def Let_def)
  have other: "\<forall>raw u h scheme. normalizeNullableString rawSiteUrl = Some raw \<and> parseURL P raw = Some u \<and>
        (scheme = ''http'' \<or> scheme = ''https'') \<and> protocol u = scheme @ '':'' \<and>
        h = toLowerCase (hostname u) \<and> h \<noteq> ''example.com'' \<and>
        \<not> (h = ''localhost'' \<or> h = ''127.0.0.1'' \<or> h = ''::1'' \<or> endsWith h ''.localhost'' \<or>
           endsWith h ''.local'' \<or> startsWith h ''127.'') \<longrightarrow>
      evaluateSiteUrl P rawSiteUrl =
        \<lparr>url = Some (scheme @ ''://'' @ host u), pendingReason = None\<rparr>"
    by (auto simp: evaluateSiteUrl_def Let_def)
  have st: "(statusOfPendingReason (pendingReason (evaluateSiteUrl P rawSiteUrl)) = PendingUrl
      \<longleftrightarrow> pendingReason (evaluateSiteUrl P rawSiteUrl) \<noteq> None) \<and>
   (statusOfPendingReason (pendingReason (evaluateSiteUrl P rawSiteUrl)) = Active
      \<longleftrightarrow> pendingReason (evaluateSiteUrl P rawSiteUrl) = None)"
    by (auto simp: evaluateSiteUrl_def statusOfPendingReason_def Let_def
        split: option.splits if_splits)
  show ?thesis
    using missing n0 invalid proto example localh other st by blast
qed

lemma evaluateSiteUrl_table_examples:
  "evaluateSiteUrl example_platform None = \<lparr>url = None, pendingReason = Some ''pending_url_missing''\<rparr> \<and>
   evaluateSiteUrl example_platform (Some ''not a url'') =
     \<lparr>url = None, pendingReason = Some ''pending_url_invalid''\<rparr> \<and>
   evaluateSiteUrl example_platform (Some ''ftp://files.test'') =
     \<lparr>url = None, pendingReason = Some ''pending_url_invalid_protocol''\<rparr> \<and>
   evaluateSiteUrl example_platform (Some ''https://example.com'') =
     \<lparr>url = None, pendingReason = Some ''pending_url_default_example''\<rparr> \<and>
   evaluateSiteUrl example_platform (Some ''http://app.localhost:3000'') =
     \<lparr>url = None, pendingReason = Some ''pending_url_localhost''\<rparr> \<and>
   evaluateSiteUrl example_platform (Some ''http://localhost:3000'') =
     \<lparr>url = None, pendingReason = Some ''pending_url_localhost''\<rparr> \<and>
   evaluateSiteUrl example_platform (Some ''http://127.0.0.1:8080'') =
     \<lparr>url = None, pendingReason = Some ''pending_url_localhost''\<rparr> \<and>
   evaluateSiteUrl example_platform (Some ''http://127.8.9.10'') =
     \<lparr>url = None, pendingReason = Some ''pending_url_localhost''\<rparr> \<and>
   evaluateSiteUrl example_platform (Some ''https://printer.local'') =
     \<lparr>url = None, pendingReason = Some ''pending_url_localhost''\<rparr> \<and>
   evaluateSiteUrl example_platform (Some ''https://SITE.test'') =
     \<lparr>url = Some ''https://site.test'', pendingReason = None\<rparr> \<and>
   evaluateSiteUrl example_platform (Some '' https://site.test:8443/blog '') =
     \<lparr>url = Some ''https://site.test:8443'', pendingReason = None\<rparr> \<and>
   statusOfPendingReason
     (pendingReason (evaluateSiteUrl example_platform (Some ''https://example.com''))) = PendingUrl"
  by (simp add: evaluateSiteUrl_def statusOfPendingReason_def ex_defs str_defs)

text \<open>
  The row for \<open>::1\<close> is about the \<open>hostname\<close> that the URL parser reports. \<open>new URL\<close>
  reports the host of an IPv6 literal with its square brackets, so the hostname of a
  loopback URL is \<open>[::1]\<close> and never \<open>::1\<close>. A hostname in brackets matches none of the
  comparisons, and the URL falls to the last row.
\<close>

lemma endsWith_last:
  "endsWith (a @ [c]) (p @ [e]) \<Longrightarrow> c = e"
  by (auto simp: endsWith_def)

lemma evaluateSiteUrl_bracketed_host:
  assumes "normalizeNullableString rawSiteUrl = Some raw"
    and "parseURL P raw = Some u"
    and "protocol u = ''http:'' \<or> protocol u = ''https:''"
    and "hostname u = CHR ''['' # address @ '']''"
  shows "evaluateSiteUrl P rawSiteUrl =
           \<lparr>url = Some (protocol u @ ''//'' @ host u), pendingReason = None\<rparr>"
proof -
  let ?h = "toLowerCase (hostname u)"
  have h: "?h = CHR ''['' # (map lowerChar address @ '']'')"
    using assms(4) by (simp add: toLowerCase_def lowerChar_def)
  have e1: "\<not> endsWith ?h ''.localhost''"
    using endsWith_last[of "CHR ''['' # map lowerChar address" "CHR '']''" "''.localhos''" "CHR ''t''"]
    unfolding h by auto
  have e2: "\<not> endsWith ?h ''.local''"
    using endsWith_last[of "CHR ''['' # map lowerChar address" "CHR '']''" "''.loca''" "CHR ''l''"]
    unfolding h by auto
  have e3: "\<not> startsWith ?h ''127.''"
    unfolding h by (simp add: startsWith_def)
  have e4: "?h \<noteq> ''example.com''" "?h \<noteq> ''localhost''" "?h \<noteq> ''127.0.0.1''" "?h \<noteq> ''::1''"
    unfolding h by simp_all
  show ?thesis
    using assms(1,2,3) e1 e2 e3 e4 by (auto simp: evaluateSiteUrl_def Let_def)
qed

text \<open>
  Claim C6, at the site URL \<open>http://[::1]:3000\<close>, whose host is the IPv6 loopback
  address \<open>::1\<close>. \<open>new URL\<close> gives it the protocol \<open>http:\<close>, the hostname \<open>[::1]\<close>
  and the host \<open>[::1]:3000\<close>. \<open>evaluateSiteUrl\<close> returns the origin
  \<open>http://[::1]:3000\<close> with no pending reason, and the status derived from it is
  \<open>active\<close>, where the table has \<open>null\<close>, \<open>pending_url_localhost\<close> and
  \<open>pending_url\<close>.
\<close>

theorem evaluateSiteUrl_ipv6_loopback_example:
  "parseURL example_platform ''http://[::1]:3000'' =
     Some \<lparr>protocol = ''http:'', hostname = ''[::1]'', host = ''[::1]:3000''\<rparr> \<and>
   evaluateSiteUrl example_platform (Some ''http://[::1]:3000'') =
     \<lparr>url = Some ''http://[::1]:3000'', pendingReason = None\<rparr> \<and>
   statusOfPendingReason
     (pendingReason (evaluateSiteUrl example_platform (Some ''http://[::1]:3000''))) = Active"
  by (simp add: evaluateSiteUrl_def statusOfPendingReason_def ex_defs str_defs)

lemma find_map_site_id:
  "(\<And>r. site_id (f r) = site_id r) \<Longrightarrow>
   find (\<lambda>r. site_id r = sid) (map f xs) = map_option f (find (\<lambda>r. site_id r = sid) xs)"
  by (induction xs) auto

lemma find_append_Some:
  "find p xs = Some x \<Longrightarrow> find p (xs @ ys) = Some x"
  by (induction xs) (auto split: if_splits)

lemma find_append_None:
  "find p xs = None \<Longrightarrow> find p (xs @ ys) = find p ys"
  by (induction xs) (auto split: if_splits)

lemma getInstance_insertBuildEvent [simp]:
  "getInstanceBySiteId (insertBuildEvent st ev) sid = getInstanceBySiteId st sid"
  by (simp add: getInstanceBySiteId_def insertBuildEvent_def)

lemma upsertInstance_consistent_keeps:
  assumes ex: "up_existing inp = getInstanceBySiteId st (up_siteId inp)"
    and e: "getInstanceBySiteId st sid = Some e"
  shows "\<exists>e'. getInstanceBySiteId (fst (upsertInstance st inp io)) sid = Some e' \<and>
           site_pub_key e' = site_pub_key e \<and> minute_of_day e' = minute_of_day e"
proof (cases "up_existing inp")
  case None
  then show ?thesis
    using e by (simp add: upsertInstance_def Let_def getInstanceBySiteId_def find_append_Some)
next
  case (Some x)
  let ?upd = "\<lambda>r. if site_id r = up_siteId inp then
                        r\<lparr>site_url := up_normalizedSiteUrl inp,
                          status := statusOfPendingReason (up_pendingReason inp),
                          pending_reason := up_pendingReason inp,
                          site_pub_key := site_pub_key x,
                          site_key_alg := up_siteKeyAlg inp,
                          minute_of_day := minute_of_day x,
                          next_run_at := (if statusOfPendingReason (up_pendingReason inp) = Active
                             then Some (computeNextRunAt (minute_of_day x) (io_newDate io)) else None),
                          last_seen_at := Some (io_now io),
                          app_version := up_appVersion inp, build_id := up_buildId inp,
                          commit_hash := up_commitHash inp, inst_updated_at := io_now io\<rparr>
                      else r"
  have sid: "\<And>r. site_id (?upd r) = site_id r" by simp
  have inst: "instances (fst (upsertInstance st inp io)) = map ?upd (instances st)"
    using Some by (simp add: upsertInstance_def Let_def)
  have f: "getInstanceBySiteId (fst (upsertInstance st inp io)) sid = Some (?upd e)"
    unfolding getInstanceBySiteId_def inst
    using find_map_site_id[of ?upd sid "instances st", OF sid] e
    by (simp add: getInstanceBySiteId_def)
  have se: "site_id e = sid"
    using e unfolding getInstanceBySiteId_def by (auto dest: find_Some_iff[THEN iffD1])
  show ?thesis
  proof (cases "sid = up_siteId inp")
    case True
    then have "x = e" using ex Some e by simp
    then show ?thesis using f se True by simp
  next
    case False
    then show ?thesis using f se by simp
  qed
qed

lemma syncHandler_keeps:
  assumes e: "getInstanceBySiteId st sid = Some e"
  shows "\<exists>e'. getInstanceBySiteId (fst (syncHandler P st parsed io)) sid = Some e' \<and>
           site_pub_key e' = site_pub_key e \<and> minute_of_day e' = minute_of_day e"
proof (cases parsed)
  case None
  then show ?thesis using e by (simp add: syncHandler_def)
next
  case (Some inp)
  let ?ui = "\<lparr>up_existing = getInstanceBySiteId st (sync_siteId inp), up_siteId = sync_siteId inp,
               up_sitePubKey = sitePubKey inp, up_siteKeyAlg = siteKeyAlg inp,
               up_normalizedSiteUrl = url (evaluateSiteUrl P (sync_siteUrl inp)),
               up_pendingReason = pendingReason (evaluateSiteUrl P (sync_siteUrl inp)),
               up_appVersion = normalizeNullableString (appVersion inp),
               up_buildId = normalizeNullableString (buildId inp),
               up_commitHash = normalizeNullableString (commit inp)\<rparr>"
  have k: "\<exists>e'. getInstanceBySiteId (fst (upsertInstance st ?ui (sio_upsert io))) sid = Some e' \<and>
           site_pub_key e' = site_pub_key e \<and> minute_of_day e' = minute_of_day e"
    by (rule upsertInstance_consistent_keeps[OF _ e]) simp
  show ?thesis
    using Some e k
    by (auto simp: syncHandler_def Let_def split: prod.splits)
qed

lemma syncAll_keeps:
  "getInstanceBySiteId st sid = Some e \<Longrightarrow>
   \<exists>e'. getInstanceBySiteId (syncAll P st reqs) sid = Some e' \<and>
        site_pub_key e' = site_pub_key e \<and> minute_of_day e' = minute_of_day e"
proof (induction reqs arbitrary: st e)
  case Nil
  then show ?case by simp
next
  case (Cons a reqs)
  obtain parsed io where a: "a = (parsed, io)" by (cases a)
  obtain e1 where e1: "getInstanceBySiteId (fst (syncHandler P st parsed io)) sid = Some e1"
    "site_pub_key e1 = site_pub_key e" "minute_of_day e1 = minute_of_day e"
    using syncHandler_keeps[OF Cons.prems] by blast
  show ?case using Cons.IH[OF e1(1)] e1 a by simp
qed

lemma upsertInstance_insert:
  assumes "up_existing inp = None" "getInstanceBySiteId st (up_siteId inp) = None"
  shows "\<exists>e. getInstanceBySiteId (fst (upsertInstance st inp io)) (up_siteId inp) = Some e \<and>
           site_pub_key e = up_sitePubKey inp \<and>
           minute_of_day e = randomMinuteOfDay (io_random16 io)"
  using assms
  by (simp add: upsertInstance_def Let_def getInstanceBySiteId_def find_append_None)

lemma randomMinuteOfDay_range: "0 \<le> randomMinuteOfDay n \<and> randomMinuteOfDay n \<le> 1439"
proof -
  have "n mod 1440 < 1440" by simp
  then show ?thesis unfolding randomMinuteOfDay_def by linarith
qed

lemma syncHandler_first:
  assumes none: "getInstanceBySiteId st (sync_siteId inp) = None"
    and run: "syncHandler P st (Some inp) io = (st', Synced r pr)"
  shows "\<exists>e. getInstanceBySiteId st' (sync_siteId inp) = Some e \<and>
           site_pub_key e = sitePubKey inp \<and>
           minute_of_day e = randomMinuteOfDay (io_random16 (sio_upsert io)) \<and>
           0 \<le> minute_of_day e \<and> minute_of_day e \<le> 1439 \<and>
           verifySigned P ''POST'' ''/v1/instances/sync'' (syncPayloadToVerify inp)
             (signature inp) (sitePubKey inp)"
proof -
  let ?ui = "\<lparr>up_existing = getInstanceBySiteId st (sync_siteId inp), up_siteId = sync_siteId inp,
               up_sitePubKey = sitePubKey inp, up_siteKeyAlg = siteKeyAlg inp,
               up_normalizedSiteUrl = url (evaluateSiteUrl P (sync_siteUrl inp)),
               up_pendingReason = pendingReason (evaluateSiteUrl P (sync_siteUrl inp)),
               up_appVersion = normalizeNullableString (appVersion inp),
               up_buildId = normalizeNullableString (buildId inp),
               up_commitHash = normalizeNullableString (commit inp)\<rparr>"
  have v: "verifySigned P ''POST'' ''/v1/instances/sync'' (syncPayloadToVerify inp)
             (signature inp) (sitePubKey inp)"
    using run none by (auto simp: syncHandler_def Let_def split: if_splits prod.splits)
  have "\<exists>e. getInstanceBySiteId (fst (upsertInstance st ?ui (sio_upsert io))) (up_siteId ?ui) = Some e \<and>
           site_pub_key e = up_sitePubKey ?ui \<and>
           minute_of_day e = randomMinuteOfDay (io_random16 (sio_upsert io))"
    by (rule upsertInstance_insert) (use none in simp_all)
  then obtain e where
    e: "getInstanceBySiteId (fst (upsertInstance st ?ui (sio_upsert io))) (sync_siteId inp) = Some e"
      "site_pub_key e = sitePubKey inp"
      "minute_of_day e = randomMinuteOfDay (io_random16 (sio_upsert io))"
    by auto
  have "getInstanceBySiteId st' (sync_siteId inp) = Some e"
    using run e(1) by (auto simp: syncHandler_def Let_def split: if_splits prod.splits)
  then show ?thesis using e v randomMinuteOfDay_range by auto
qed

lemma syncHandler_verifies_stored:
  assumes "getInstanceBySiteId st (sync_siteId inp) = Some e"
  shows "(\<forall>st' r pr. syncHandler P st (Some inp) io = (st', Synced r pr) \<longrightarrow>
            verifySigned P ''POST'' ''/v1/instances/sync'' (syncPayloadToVerify inp)
              (signature inp) (site_pub_key e)) \<and>
         (isFreshTimestamp P (ts (signature inp)) (SIGNATURE_WINDOW_MS P) (sio_dateNow io) \<and>
          \<not> verifySigned P ''POST'' ''/v1/instances/sync'' (syncPayloadToVerify inp)
              (signature inp) (site_pub_key e) \<longrightarrow>
            syncHandler P st (Some inp) io = (st, INVALID_SIGNATURE))"
  using assms
  by (auto simp: syncHandler_def Let_def split: if_splits prod.splits)

text \<open>
  Claim C5. When a sync creates the instance of a \<open>siteId\<close>, then after any further
  sequence of sync requests the stored \<open>site_pub_key\<close> is the key that first sync
  submitted and the stored \<open>minute_of_day\<close> is the minute drawn then. A sync for a
  \<open>siteId\<close> that has an instance succeeds only if the signature verifies against the
  stored key, and is refused with \<open>INVALID_SIGNATURE\<close> when it does not, whatever key the
  request submits.
\<close>

theorem sync_pins_key_and_minute:
  "(\<forall>st' r pr. getInstanceBySiteId st (sync_siteId inp) = None \<and>
       syncHandler P st (Some inp) io = (st', Synced r pr) \<longrightarrow>
       (\<exists>e. getInstanceBySiteId (syncAll P st' later) (sync_siteId inp) = Some e \<and>
            site_pub_key e = sitePubKey inp \<and>
            minute_of_day e = randomMinuteOfDay (io_random16 (sio_upsert io)) \<and>
            0 \<le> minute_of_day e \<and> minute_of_day e \<le> 1439)) \<and>
   (\<forall>e. getInstanceBySiteId st sid = Some e \<longrightarrow>
       (\<exists>e'. getInstanceBySiteId (syncAll P st later) sid = Some e' \<and>
             site_pub_key e' = site_pub_key e \<and> minute_of_day e' = minute_of_day e)) \<and>
   (\<forall>e. getInstanceBySiteId st (sync_siteId inp) = Some e \<longrightarrow>
       (\<forall>st' r pr. syncHandler P st (Some inp) io = (st', Synced r pr) \<longrightarrow>
            verifySigned P ''POST'' ''/v1/instances/sync'' (syncPayloadToVerify inp)
              (signature inp) (site_pub_key e)) \<and>
       (isFreshTimestamp P (ts (signature inp)) (SIGNATURE_WINDOW_MS P) (sio_dateNow io) \<and>
        \<not> verifySigned P ''POST'' ''/v1/instances/sync'' (syncPayloadToVerify inp)
              (signature inp) (site_pub_key e) \<longrightarrow>
            syncHandler P st (Some inp) io = (st, INVALID_SIGNATURE)))"
proof (intro conjI allI impI)
  fix st' r pr
  assume a: "getInstanceBySiteId st (sync_siteId inp) = None \<and>
       syncHandler P st (Some inp) io = (st', Synced r pr)"
  obtain e where e: "getInstanceBySiteId st' (sync_siteId inp) = Some e"
    "site_pub_key e = sitePubKey inp"
    "minute_of_day e = randomMinuteOfDay (io_random16 (sio_upsert io))"
    "0 \<le> minute_of_day e" "minute_of_day e \<le> 1439"
    using syncHandler_first[OF conjunct1[OF a] conjunct2[OF a]] by auto
  obtain e' where "getInstanceBySiteId (syncAll P st' later) (sync_siteId inp) = Some e'"
    "site_pub_key e' = site_pub_key e" "minute_of_day e' = minute_of_day e"
    using syncAll_keeps[OF e(1)] by blast
  then show "\<exists>e. getInstanceBySiteId (syncAll P st' later) (sync_siteId inp) = Some e \<and>
            site_pub_key e = sitePubKey inp \<and>
            minute_of_day e = randomMinuteOfDay (io_random16 (sio_upsert io)) \<and>
            0 \<le> minute_of_day e \<and> minute_of_day e \<le> 1439"
    using e by auto
next
  fix e assume "getInstanceBySiteId st sid = Some e"
  then show "\<exists>e'. getInstanceBySiteId (syncAll P st later) sid = Some e' \<and>
             site_pub_key e' = site_pub_key e \<and> minute_of_day e' = minute_of_day e"
    by (rule syncAll_keeps)
next
  fix e st' r pr
  assume "getInstanceBySiteId st (sync_siteId inp) = Some e"
    and "syncHandler P st (Some inp) io = (st', Synced r pr)"
  then show "verifySigned P ''POST'' ''/v1/instances/sync'' (syncPayloadToVerify inp)
              (signature inp) (site_pub_key e)"
    using syncHandler_verifies_stored by blast
next
  fix e
  assume "getInstanceBySiteId st (sync_siteId inp) = Some e"
    and "isFreshTimestamp P (ts (signature inp)) (SIGNATURE_WINDOW_MS P) (sio_dateNow io) \<and>
        \<not> verifySigned P ''POST'' ''/v1/instances/sync'' (syncPayloadToVerify inp)
              (signature inp) (site_pub_key e)"
  then show "syncHandler P st (Some inp) io = (st, INVALID_SIGNATURE)"
    using syncHandler_verifies_stored by blast
qed

lemmas sync_eval_defs = syncHandler_def isFreshTimestamp_def getInstanceBySiteId_def
  evaluateSiteUrl_def upsertInstance_def statusOfPendingReason_def randomMinuteOfDay_def
  computeNextRunAt_def normalizeIsoOrFallback_def insertBuildEvent_def Let_def

theorem sync_pins_key_and_minute_witness:
  "(\<exists>e. getInstanceBySiteId
          (syncAll example_platform
             (fst (syncHandler example_platform empty_store
                     (Some (example_sync ''KEY-A'' ''KEY-A'')) (example_sync_io 2000)))
             [(Some (example_sync ''KEY-B'' ''KEY-A''), example_sync_io 7)])
          ''123e4567-e89b-12d3-a456-426614174000'' = Some e \<and>
        site_pub_key e = ''KEY-A'' \<and> minute_of_day e = 560) \<and>
   snd (syncHandler example_platform
          (fst (syncHandler example_platform empty_store
                  (Some (example_sync ''KEY-A'' ''KEY-A'')) (example_sync_io 2000)))
          (Some (example_sync ''KEY-B'' ''KEY-B'')) (example_sync_io 7)) = INVALID_SIGNATURE"
proof -
  let ?P = example_platform
  let ?sid = "''123e4567-e89b-12d3-a456-426614174000''"
  let ?first = "syncHandler ?P empty_store (Some (example_sync ''KEY-A'' ''KEY-A'')) (example_sync_io 2000)"
  let ?st1 = "fst ?first"
  have sidA: "sync_siteId (example_sync ''KEY-A'' ''KEY-A'') = ?sid"
    and sidB: "sync_siteId (example_sync ''KEY-B'' ''KEY-B'') = ?sid"
    and keyA: "sitePubKey (example_sync ''KEY-A'' ''KEY-A'') = ''KEY-A''"
    by (simp_all add: example_sync_def)
  have none: "getInstanceBySiteId empty_store (sync_siteId (example_sync ''KEY-A'' ''KEY-A'')) = None"
    by (simp add: getInstanceBySiteId_def empty_store_def)
  have snd1: "snd ?first =
      Synced \<lparr>res_instanceId = ''ins_1'', res_minuteOfDay = 560, res_status = Active,
               res_nextRunAt = Some 1767259200000\<rparr> None"
    by (simp add: sync_eval_defs ex_defs str_defs)
  have run1: "?first =
      (?st1, Synced \<lparr>res_instanceId = ''ins_1'', res_minuteOfDay = 560, res_status = Active,
               res_nextRunAt = Some 1767259200000\<rparr> None)"
    using snd1 by (metis prod.collapse)
  have rnd: "randomMinuteOfDay (io_random16 (sio_upsert (example_sync_io 2000))) = 560"
    by (simp add: randomMinuteOfDay_def example_sync_io_def)
  have A: "\<exists>e. getInstanceBySiteId
          (syncAll ?P ?st1 [(Some (example_sync ''KEY-B'' ''KEY-A''), example_sync_io 7)]) ?sid = Some e \<and>
        site_pub_key e = ''KEY-A'' \<and> minute_of_day e = 560"
    using sync_pins_key_and_minute[of empty_store "example_sync ''KEY-A'' ''KEY-A''" ?P
        "example_sync_io 2000" "[(Some (example_sync ''KEY-B'' ''KEY-A''), example_sync_io 7)]"]
      none run1 unfolding sidA keyA rnd by blast
  have inst1: "instances ?st1 =
      [\<lparr>instance_id = ''ins_1'', site_id = ?sid,
         site_url = Some ''https://site.test'', status = Active, pending_reason = None,
         site_pub_key = ''KEY-A'', site_key_alg = ''ed25519'',
         minute_of_day = 560, next_run_at = Some 1767259200000,
         last_seen_at = Some 1767225600500, last_success_at = None,
         app_version = None, build_id = None, commit_hash = None,
         inst_created_at = 1767225600500, inst_updated_at = 1767225600500\<rparr>]"
    by (simp add: sync_eval_defs ex_defs str_defs)
  have ex: "getInstanceBySiteId ?st1 (sync_siteId (example_sync ''KEY-B'' ''KEY-B'')) =
      Some \<lparr>instance_id = ''ins_1'', site_id = ?sid,
         site_url = Some ''https://site.test'', status = Active, pending_reason = None,
         site_pub_key = ''KEY-A'', site_key_alg = ''ed25519'',
         minute_of_day = 560, next_run_at = Some 1767259200000,
         last_seen_at = Some 1767225600500, last_success_at = None,
         app_version = None, build_id = None, commit_hash = None,
         inst_created_at = 1767225600500, inst_updated_at = 1767225600500\<rparr>"
    unfolding getInstanceBySiteId_def inst1 sidB by simp
  have pre: "isFreshTimestamp ?P (ts (signature (example_sync ''KEY-B'' ''KEY-B'')))
         (SIGNATURE_WINDOW_MS ?P) (sio_dateNow (example_sync_io 7)) \<and>
        \<not> verifySigned ?P ''POST'' ''/v1/instances/sync''
            (syncPayloadToVerify (example_sync ''KEY-B'' ''KEY-B''))
            (signature (example_sync ''KEY-B'' ''KEY-B'')) ''KEY-A''"
    by (simp add: isFreshTimestamp_def ex_defs)
  have B: "syncHandler ?P ?st1 (Some (example_sync ''KEY-B'' ''KEY-B'')) (example_sync_io 7)
            = (?st1, INVALID_SIGNATURE)"
    using sync_pins_key_and_minute[of ?st1 "example_sync ''KEY-B'' ''KEY-B''" ?P
        "example_sync_io 7" "[]" ?sid] ex pre by simp
  show ?thesis using A B by simp
qed

lemma delivery_inv_same:
  "deliveries st' = deliveries st \<Longrightarrow> delivery_inv st' = delivery_inv st"
  by (simp add: delivery_inv_def)

lemma delivery_inv_update:
  assumes "delivery_inv st" and "\<And>d. delivery_row_ok (f d)"
  shows "delivery_inv (updateDelivery st i f)"
  using assms unfolding delivery_inv_def updateDelivery_def
  by (auto split: option.splits)

lemma markDeliveryDead_inv:
  "delivery_inv st \<Longrightarrow> delivery_inv (markDeliveryDead st i c m now)"
  unfolding markDeliveryDead_def
  by (rule delivery_inv_update) (simp_all add: delivery_row_ok_def)

lemma markDeliveryFailed_inv:
  assumes "delivery_inv st" and "markDeliveryFailed st i n r a dh c m now = Inr st'"
  shows "delivery_inv st'"
proof (cases n)
  case None
  then show ?thesis using assms(2) by (simp add: markDeliveryFailed_def)
next
  case (Some k)
  have "delivery_inv (updateDelivery st i
          (\<lambda>d. d\<lparr>delivery_status := Failed, attempt_count := k, response_status := r,
                  accepted := Some (toSqlBool a), dedup_hit := Some (toSqlBool dh),
                  last_error_code := Some c, last_error_message := truncateStr (Some m) 500,
                  dlv_updated_at := now\<rparr>))"
    by (rule delivery_inv_update[OF assms(1)]) (simp add: delivery_row_ok_def)
  then show ?thesis using assms(2) Some by (simp add: markDeliveryFailed_def)
qed

lemma markDeliveryDelivered_inv:
  assumes "delivery_inv st" and "markDeliveryDelivered st i n r True dh now = Inr st'"
  shows "delivery_inv st'"
proof (cases n)
  case None
  then show ?thesis using assms(2) by (simp add: markDeliveryDelivered_def)
next
  case (Some k)
  have "delivery_inv (updateDelivery st i
          (\<lambda>d. d\<lparr>delivery_status := Delivered, attempt_count := k, response_status := r,
                  accepted := Some (toSqlBool True), dedup_hit := Some (toSqlBool dh),
                  completed_at := Some now, dlv_updated_at := now\<rparr>))"
    by (rule delivery_inv_update[OF assms(1)]) (simp add: delivery_row_ok_def toSqlBool_def)
  then show ?thesis using assms(2) Some by (simp add: markDeliveryDelivered_def)
qed

lemma createDelivery_inv:
  "delivery_inv st \<Longrightarrow> createDelivery st i inst sf ea = Inr st' \<Longrightarrow> delivery_inv st'"
  unfolding createDelivery_def delivery_inv_def
  by (auto simp: delivery_row_ok_def split: if_splits)

lemma deliveries_insertDeliveryAttempt:
  "insertDeliveryAttempt st i n sa ea hs t c m now = Inr st' \<Longrightarrow> deliveries st' = deliveries st"
  by (auto simp: insertDeliveryAttempt_def split: option.splits if_splits)

lemma deliveries_insertTelemetrySample:
  "insertTelemetrySample st i d t = Inr st' \<Longrightarrow> deliveries st' = deliveries st"
  by (auto simp: insertTelemetrySample_def split: if_splits)

lemma deliveries_updateInstanceLastSuccess [simp]:
  "deliveries (updateInstanceLastSuccess st i now) = deliveries st"
  by (simp add: updateInstanceLastSuccess_def)

lemma deliveries_updateInstanceNextRun [simp]:
  "deliveries (updateInstanceNextRun st i n now) = deliveries st"
  by (simp add: updateInstanceNextRun_def)

lemma insertDeliveryAttempt_inv:
  "delivery_inv st \<Longrightarrow> insertDeliveryAttempt st i n sa ea hs t c m now = Inr st' \<Longrightarrow>
   delivery_inv st'"
  using delivery_inv_same[OF deliveries_insertDeliveryAttempt] by blast

lemma insertTelemetrySample_inv:
  "delivery_inv st \<Longrightarrow> insertTelemetrySample st i d t = Inr st' \<Longrightarrow> delivery_inv st'"
  using delivery_inv_same[OF deliveries_insertTelemetrySample] by blast

lemma delivery_inv_updateInstanceLastSuccess [simp]:
  "delivery_inv (updateInstanceLastSuccess st i now) = delivery_inv st"
  by (rule delivery_inv_same) simp

lemma delivery_inv_updateInstanceNextRun [simp]:
  "delivery_inv (updateInstanceNextRun st i n now) = delivery_inv st"
  by (rule delivery_inv_same) simp

lemma delivery_inv_load [simp]:
  "delivery_inv (st\<lparr>dispatch_minute_load := t\<rparr>) = delivery_inv st"
  by (rule delivery_inv_same) simp

lemma dispatchMarkFailed_inv:
  "delivery_inv st \<Longrightarrow> delivery_inv (fst (dispatchMarkFailed st m n io hs a dh c e))"
  unfolding dispatchMarkFailed_def
  by (auto split: sum.splits intro: markDeliveryFailed_inv)

lemma dispatchCatch_inv:
  "delivery_inv st \<Longrightarrow> delivery_inv (fst (dispatchCatch st m n io ms hs a dh err))"
  unfolding dispatchCatch_def Let_def
  by (auto split: sum.splits intro: insertDeliveryAttempt_inv dispatchMarkFailed_inv)

lemma dispatchToInstance_inv:
  assumes inv: "delivery_inv st"
  shows "delivery_inv (fst (dispatchToInstance P env st m n io))"
proof (cases "instanceTriggerable (getInstanceByInstanceId st (instanceId m))")
  case False
  then show ?thesis
    using inv unfolding dispatchToInstance_def Let_def
    by (auto split: sum.splits intro: insertDeliveryAttempt_inv markDeliveryDead_inv)
next
  case True
  show ?thesis
  proof (cases "d_token io")
    case (TokenError err)
    then show ?thesis
      using inv True unfolding dispatchToInstance_def Let_def
      by (auto split: sum.splits intro: insertDeliveryAttempt_inv markDeliveryFailed_inv)
  next
    case (Token tok)
    show ?thesis
    proof (cases "d_fetch io")
      case (AbortError hs)
      then show ?thesis
        using inv True Token unfolding dispatchToInstance_def Let_def
        by (simp add: dispatchCatch_inv)
    next
      case (FetchError hs err)
      then show ?thesis
        using inv True Token unfolding dispatchToInstance_def Let_def
        by (simp add: dispatchCatch_inv)
    next
      case (Response hs raw)
      let ?tel = "parseTelemetry (safeJsonParse P raw)"
      show ?thesis
      proof (cases "insertDeliveryAttempt st (deliveryId m) n (d_clock io 0) (d_clock io 1)
                      (Some hs) False None None (d_clock io 2)")
        case (Inl e)
        then show ?thesis
          using inv True Token Response unfolding dispatchToInstance_def Let_def
          by (simp add: dispatchCatch_inv)
      next
        case (Inr st1)
        have inv1: "delivery_inv st1" by (rule insertDeliveryAttempt_inv[OF inv Inr])
        show ?thesis
        proof (cases "responseOk hs \<and> tAccepted ?tel")
          case False
          then show ?thesis
            using inv1 True Token Response Inr unfolding dispatchToInstance_def Let_def
            by (auto simp: dispatchMarkFailed_inv)
        next
          case ok: True
          show ?thesis
          proof (cases "markDeliveryDelivered st1 (deliveryId m) n (Some hs) True
                          (tDedupHit ?tel) (d_clock io 3)")
            case (Inl e)
            then show ?thesis
              using inv1 True Token Response Inr ok unfolding dispatchToInstance_def Let_def
              by (simp add: dispatchCatch_inv)
          next
            case st2: (Inr st2)
            have inv2: "delivery_inv st2" by (rule markDeliveryDelivered_inv[OF inv1 st2])
            show ?thesis
            proof (cases "insertTelemetrySample st2 (instanceId m) (deliveryId m) ?tel")
              case (Inl e)
              then show ?thesis
                using inv2 True Token Response Inr ok st2 unfolding dispatchToInstance_def Let_def
                by (simp add: dispatchCatch_inv)
            next
              case st3: (Inr st3)
              have inv3: "delivery_inv st3" by (rule insertTelemetrySample_inv[OF inv2 st3])
              show ?thesis
                using inv3 True Token Response Inr ok st2 st3
                unfolding dispatchToInstance_def Let_def
                by simp
            qed
          qed
        qed
      qed
    qed
  qed
qed

lemma scheduleRetryDispatch_inv:
  "delivery_inv st \<Longrightarrow> delivery_inv (rs_store (scheduleRetryDispatch P st m n mx io))"
  unfolding scheduleRetryDispatch_def Let_def
  by (auto split: prod.splits option.splits)

lemma handleQueue_message_inv:
  assumes inv: "delivery_inv st"
  shows "delivery_inv (c_store (handleQueue_message P env st m io))"
proof (cases "dispatchMessageSchema_safeParse P (body m)")
  case None
  then show ?thesis using inv by (simp add: handleQueue_message_def)
next
  case (Some x)
  obtain st1 res where d: "dispatchToInstance P env st x (dispatchAttempt x) (q_dispatch io) = (st1, res)"
    by (cases "dispatchToInstance P env st x (dispatchAttempt x) (q_dispatch io)")
  have inv1: "delivery_inv st1"
    using dispatchToInstance_inv[OF inv, of P env x "dispatchAttempt x" "q_dispatch io"] d by simp
  show ?thesis
    using Some d inv1
    by (cases res)
       (simp_all add: handleQueue_message_def Let_def markDeliveryDead_inv scheduleRetryDispatch_inv)
qed

lemma handleQueue_message_native_inv:
  assumes inv: "delivery_inv st"
  shows "delivery_inv (c_store (handleQueue_message_native P env st m io))"
proof (cases "dispatchMessageSchema_safeParse P (body m)")
  case None
  then show ?thesis using inv by (simp add: handleQueue_message_native_def)
next
  case (Some x)
  let ?n = "Some (if attempts m = 0 then 1 else attempts m)"
  obtain st1 res where d: "dispatchToInstance P env st x ?n (q_dispatch io) = (st1, res)"
    by (cases "dispatchToInstance P env st x ?n (q_dispatch io)")
  have inv1: "delivery_inv st1"
    using dispatchToInstance_inv[OF inv, of P env x ?n "q_dispatch io"] d by simp
  show ?thesis
    using Some d inv1
    by (cases res) (simp_all add: handleQueue_message_native_def Let_def markDeliveryDead_inv)
qed

lemma handleDlq_message_inv:
  "delivery_inv st \<Longrightarrow> delivery_inv (c_store (handleDlq_message P st m now))"
  by (simp add: handleDlq_message_def markDeliveryDead_inv split: option.splits)

lemma scheduled_send_failed_inv:
  assumes "delivery_inv st2"
  shows "delivery_inv (k_store
           (case markDeliveryFailed st2 i (Some 0) None False False c msg now of
              Inl e \<Rightarrow> \<lparr>k_store = st2, k_sent = [], k_enqueued = False, k_threw = True\<rparr>
            | Inr st3 \<Rightarrow>
                \<lparr>k_store = markDeliveryDead st3 i c2 msg2 now2,
                 k_sent = [], k_enqueued = False, k_threw = False\<rparr>))"
  using assms
  by (auto split: sum.splits intro: markDeliveryDead_inv markDeliveryFailed_inv)

lemma handleScheduled_row_inv:
  assumes inv: "delivery_inv st"
  shows "delivery_inv (k_store (handleScheduled_row P env st t row io))"
proof -
  let ?mx = "parsePositiveInt (MAX_DISPATCH_PER_MINUTE env) (DEFAULT_MAX_DISPATCH_PER_MINUTE P)"
  let ?inp = "\<lparr>preferredAt = Some t, source = Scheduled,
               lookaheadMinutes = MAX_SLOT_LOOKAHEAD_MINUTES P,
               nowDate = t_newDate io, clock = t_slotClock io\<rparr>"
  obtain tbl slot where r: "reserveDispatchSlot (dispatch_minute_load st) ?mx ?inp = (tbl, slot)"
    by (cases "reserveDispatchSlot (dispatch_minute_load st) ?mx ?inp")
  let ?st1 = "st\<lparr>dispatch_minute_load := tbl\<rparr>"
  have inv1: "delivery_inv ?st1" using inv by simp
  show ?thesis
  proof (cases slot)
    case None
    then show ?thesis using r inv1 by (simp add: handleScheduled_row_def Let_def)
  next
    case (Some s)
    show ?thesis
    proof (cases "createDelivery ?st1 (t_deliveryId io) (due_instance_id row)
                        (due_next_run_at row) (t_enqueuedAt io)")
      case (Inl e)
      then show ?thesis using r Some inv1 by (simp add: handleScheduled_row_def Let_def)
    next
      case (Inr st2)
      have inv2: "delivery_inv st2" by (rule createDelivery_inv[OF inv1 Inr])
      show ?thesis
      proof (cases "t_sendError io")
        case None
        then show ?thesis
          using r \<open>slot = Some s\<close> Inr inv2 by (simp add: handleScheduled_row_def Let_def)
      next
        case (Some err)
        then show ?thesis
          using r \<open>slot = Some s\<close> Inr scheduled_send_failed_inv[OF inv2]
          by (simp add: handleScheduled_row_def Let_def)
      qed
    qed
  qed
qed

lemma handleScheduled_row_native_inv:
  assumes inv: "delivery_inv st"
  shows "delivery_inv (k_store (handleScheduled_row_native P st t row io))"
proof (cases "createDelivery st (t_deliveryId io) (due_instance_id row)
                        (due_next_run_at row) (t_enqueuedAt io)")
  case (Inl e)
  then show ?thesis using inv by (simp add: handleScheduled_row_native_def Let_def)
next
  case (Inr st2)
  have inv2: "delivery_inv st2" by (rule createDelivery_inv[OF inv Inr])
  show ?thesis
  proof (cases "t_sendError io")
    case None
    then show ?thesis using Inr inv2 by (simp add: handleScheduled_row_native_def Let_def)
  next
    case (Some err)
    then show ?thesis
      using Inr scheduled_send_failed_inv[OF inv2]
      by (simp add: handleScheduled_row_native_def Let_def)
  qed
qed

lemma pipeline_step_inv:
  "delivery_inv st \<Longrightarrow> delivery_inv (pipeline_step P st ev)"
  by (cases ev)
    (simp_all add: handleScheduled_row_inv handleScheduled_row_native_inv handleQueue_message_inv
      handleQueue_message_native_inv handleDlq_message_inv)

lemma pipeline_run_inv:
  "delivery_inv st \<Longrightarrow> delivery_inv (pipeline_run P st events)"
  unfolding pipeline_run_def
  by (induction events arbitrary: st) (simp_all add: pipeline_step_inv)

lemma markDeliveryFailed_completed_at:
  "deliveries st i = Some d \<Longrightarrow> markDeliveryFailed st j n r a dh c m now = Inr st' \<Longrightarrow>
   \<exists>d'. deliveries st' i = Some d' \<and> completed_at d' = completed_at d"
  by (auto simp: markDeliveryFailed_def updateDelivery_def split: option.splits)

lemma markDeliveryFailed_number:
  "\<exists>st'. markDeliveryFailed st j (Some k) r a dh c m now = Inr st'"
  by (simp add: markDeliveryFailed_def)

lemma delivery_inv_no_rows: "deliveries st = Map.empty \<Longrightarrow> delivery_inv st"
  by (simp add: delivery_inv_def)



lemma queued_load:
  "dispatch_minute_load example_queued_store =
     [1767259200000 \<mapsto> \<lparr>scheduled_count = 1, retry_count = 0, total_count = 1,
        created_at = 1767259200000, updated_at = 1767259200000\<rparr>]"
  by (simp add: example_queued_store_def handler_defs ex_defs ex_pipeline_defs)

lemma queued_attempts: "delivery_attempts example_queued_store = []"
  by (simp add: example_queued_store_def handler_defs ex_defs ex_pipeline_defs)

lemma example_tick:
  "pipeline_step example_platform example_store
     (Tick example_env 1767259200000 example_due example_tick_io) = example_queued_store"
  by (simp add: example_queued_store_def)

lemma example_parse:
  "dispatchMessageSchema_safeParse example_platform (body (example_message a)) =
     Some example_dispatch_message"
  by (simp add: dispatchMessageSchema_safeParse_def stringField_def example_message_def
      example_platform_def example_parseURL_def example_dispatch_message_def)



text \<open>
  Claim C8. Every run of the pipeline (scheduler ticks, consumers of the main queue and
  of the dead-letter queue, in any order, with any outcomes of their calls, and also
  when a step ends with an exception) that starts in a store where the invariant holds,
  as it does when there is no delivery, ends in a store where every delivery row with
  status \<open>delivered\<close> has a \<open>completed_at\<close> and \<open>accepted = 1\<close>, and every row with
  status \<open>dead\<close> has a \<open>completed_at\<close>. \<open>markDeliveryFailed\<close> leaves
  \<open>completed_at\<close> of every row as it was, and it does not throw when the attempt count
  is a number.
\<close>

theorem delivery_invariant:
  "(delivery_inv st \<longrightarrow>
      (\<forall>i d. deliveries (pipeline_run P st events) i = Some d \<longrightarrow>
         (delivery_status d = Delivered \<longrightarrow> completed_at d \<noteq> None \<and> accepted d = Some 1) \<and>
         (delivery_status d = Dead \<longrightarrow> completed_at d \<noteq> None))) \<and>
   (deliveries st = Map.empty \<longrightarrow> delivery_inv st) \<and>
   (\<forall>i d j n r a dh c m now st'.
      deliveries st i = Some d \<and> markDeliveryFailed st j n r a dh c m now = Inr st' \<longrightarrow>
      (\<exists>d'. deliveries st' i = Some d' \<and> completed_at d' = completed_at d)) \<and>
   (\<forall>j k r a dh c m now. \<exists>st'. markDeliveryFailed st j (Some k) r a dh c m now = Inr st')"
proof (intro conjI)
  show "delivery_inv st \<longrightarrow>
      (\<forall>i d. deliveries (pipeline_run P st events) i = Some d \<longrightarrow>
         (delivery_status d = Delivered \<longrightarrow> completed_at d \<noteq> None \<and> accepted d = Some 1) \<and>
         (delivery_status d = Dead \<longrightarrow> completed_at d \<noteq> None))"
  proof
    assume "delivery_inv st"
    then have "delivery_inv (pipeline_run P st events)" by (rule pipeline_run_inv)
    then show "\<forall>i d. deliveries (pipeline_run P st events) i = Some d \<longrightarrow>
         (delivery_status d = Delivered \<longrightarrow> completed_at d \<noteq> None \<and> accepted d = Some 1) \<and>
         (delivery_status d = Dead \<longrightarrow> completed_at d \<noteq> None)"
      unfolding delivery_inv_def delivery_row_ok_def by blast
  qed
next
  show "deliveries st = Map.empty \<longrightarrow> delivery_inv st"
    using delivery_inv_no_rows by blast
next
  show "\<forall>i d j n r a dh c m now st'.
      deliveries st i = Some d \<and> markDeliveryFailed st j n r a dh c m now = Inr st' \<longrightarrow>
      (\<exists>d'. deliveries st' i = Some d' \<and> completed_at d' = completed_at d)"
    using markDeliveryFailed_completed_at by blast
next
  show "\<forall>j k r a dh c m now. \<exists>st'. markDeliveryFailed st j (Some k) r a dh c m now = Inr st'"
    using markDeliveryFailed_number by blast
qed

lemma example_run_delivered:
  "map_option delivery_status
     (deliveries (pipeline_run example_platform example_store
          [Tick example_env 1767259200000 example_due example_tick_io,
           ConsumeNative example_env (example_message ''1'')
             (example_consume_io (Response 200 ''{\"accepted\":true}''))]) ''dlv_1'')
   = Some Delivered"
  by (simp add: pipeline_run_def handler_defs ex_defs ex_pipeline_defs)

lemma example_run_dead:
  "map_option delivery_status
     (deliveries (pipeline_run example_platform example_store
          [Tick example_env 1767259200000 example_due example_tick_io,
           ConsumeNative example_env (example_message ''1'')
             (example_consume_io (FetchError None None)),
           ConsumeDlq (example_message ''1'') 1767259300000]) ''dlv_1'')
   = Some Dead"
  by (simp add: pipeline_run_def handler_defs ex_defs ex_pipeline_defs)

theorem delivery_invariant_witness:
  "(\<exists>d. deliveries (pipeline_run example_platform example_store
          [Tick example_env 1767259200000 example_due example_tick_io,
           ConsumeNative example_env (example_message ''1'')
             (example_consume_io (Response 200 ''{\"accepted\":true}''))]) ''dlv_1'' = Some d \<and>
        delivery_status d = Delivered \<and> completed_at d \<noteq> None \<and> accepted d = Some 1) \<and>
   (\<exists>d. deliveries (pipeline_run example_platform example_store
          [Tick example_env 1767259200000 example_due example_tick_io,
           ConsumeNative example_env (example_message ''1'')
             (example_consume_io (FetchError None None)),
           ConsumeDlq (example_message ''1'') 1767259300000]) ''dlv_1'' = Some d \<and>
        delivery_status d = Dead \<and> completed_at d \<noteq> None)"
proof -
  have e: "deliveries example_store = Map.empty"
    by (simp add: example_store_def empty_store_def)
  have inv: "delivery_inv example_store"
    using delivery_invariant[of example_store example_platform "[]", THEN conjunct2, THEN conjunct1] e
    by blast
  let ?run1 = "pipeline_run example_platform example_store
          [Tick example_env 1767259200000 example_due example_tick_io,
           ConsumeNative example_env (example_message ''1'')
             (example_consume_io (Response 200 ''{\"accepted\":true}''))]"
  let ?run2 = "pipeline_run example_platform example_store
          [Tick example_env 1767259200000 example_due example_tick_io,
           ConsumeNative example_env (example_message ''1'')
             (example_consume_io (FetchError None None)),
           ConsumeDlq (example_message ''1'') 1767259300000]"
  obtain d1 where d1: "deliveries ?run1 ''dlv_1'' = Some d1" "delivery_status d1 = Delivered"
    using example_run_delivered by auto
  obtain d2 where d2: "deliveries ?run2 ''dlv_1'' = Some d2" "delivery_status d2 = Dead"
    using example_run_dead by auto
  have a: "completed_at d1 \<noteq> None \<and> accepted d1 = Some 1"
    using delivery_invariant[of example_store example_platform
          "[Tick example_env 1767259200000 example_due example_tick_io,
           ConsumeNative example_env (example_message ''1'')
             (example_consume_io (Response 200 ''{\"accepted\":true}''))]", THEN conjunct1] inv d1
    by blast
  have b: "completed_at d2 \<noteq> None"
    using delivery_invariant[of example_store example_platform
          "[Tick example_env 1767259200000 example_due example_tick_io,
           ConsumeNative example_env (example_message ''1'')
             (example_consume_io (FetchError None None)),
           ConsumeDlq (example_message ''1'') 1767259300000]", THEN conjunct1] inv d2
    by blast
  show ?thesis using d1 d2 a b by blast
qed




text \<open>
  With an attempt number that is \<open>undefined\<close> every path of \<open>dispatchToInstance\<close>
  reaches an \<open>insertDeliveryAttempt\<close> whose \<open>bind\<close> throws before any statement has
  written: the exception leaves the function and the store is as it was.
\<close>

lemma insertDeliveryAttempt_undefined:
  "insertDeliveryAttempt st i None sa ea hs t c m now = Inl D1_TYPE_ERROR"
  by (simp add: insertDeliveryAttempt_def)

lemma dispatchCatch_undefined:
  "dispatchCatch st m None io ms hs a dh err = (st, None)"
  by (simp add: dispatchCatch_def insertDeliveryAttempt_undefined Let_def)

lemma dispatchToInstance_undefined:
  "dispatchToInstance P env st m None io = (st, None)"
  by (simp add: dispatchToInstance_def insertDeliveryAttempt_undefined dispatchCatch_undefined
      Let_def split: token_outcome.splits fetch_outcome.splits)

lemma safeParse_drops_dispatchAttempt:
  "dispatchMessageSchema_safeParse P b = Some x \<Longrightarrow> dispatchAttempt x = None"
  by (auto simp: dispatchMessageSchema_safeParse_def split: json.splits option.splits if_splits)

text \<open>
  Hence the consumer of the revision that re-enqueues acknowledges a message only when
  the schema rejects its body: for every body that the schema accepts, an exception
  leaves the handler before \<open>ack()\<close>, with no statement written and nothing sent. On
  no message does it write to the store or send a copy.
\<close>

lemma handleQueue_message_throws:
  assumes "dispatchMessageSchema_safeParse P (body m) = Some x"
  shows "handleQueue_message P env st m io =
           \<lparr>c_store = st, c_acked = False, c_retried = False, c_sent = [], c_threw = True\<rparr>"
  using assms safeParse_drops_dispatchAttempt[OF assms]
  by (simp add: handleQueue_message_def dispatchToInstance_undefined Let_def)

lemma handleQueue_message_invalid:
  assumes "dispatchMessageSchema_safeParse P (body m) = None"
  shows "handleQueue_message P env st m io =
           \<lparr>c_store = st, c_acked = True, c_retried = False, c_sent = [], c_threw = False\<rparr>"
  using assms by (simp add: handleQueue_message_def Let_def)

lemma handleQueue_message_never_sends:
  "c_sent (handleQueue_message P env st m io) = [] \<and>
   c_store (handleQueue_message P env st m io) = st \<and>
   \<not> c_retried (handleQueue_message P env st m io)"
proof (cases "dispatchMessageSchema_safeParse P (body m)")
  case None
  then show ?thesis by (simp add: handleQueue_message_invalid)
next
  case (Some x)
  then show ?thesis by (simp add: handleQueue_message_throws)
qed


text \<open>
  What the re-enqueueing revision would do with a numeric attempt number \<open>n \<ge> 1\<close>: the
  backoff is \<open>min(30 * 2^(n-1), 900)\<close> seconds, and the copy that is sent carries
  \<open>dispatchAttempt = n + 1\<close> and a new \<open>enqueuedAt\<close>.
\<close>

lemma computeRetryBackoffMs_formula:
  "1 \<le> n \<Longrightarrow> computeRetryBackoffMs (Some n) = Some (min (30 * 2 ^ nat (n - 1)) 900 * 1000)"
  by (simp add: computeRetryBackoffMs_def Let_def max_def)

lemma scheduleRetryDispatch_reenqueues:
  assumes "1 \<le> n"
    and "reserveDispatchSlot (dispatch_minute_load st) mx
           \<lparr>preferredAt = Some (r_dateNow io + min (30 * 2 ^ nat (n - 1)) 900 * 1000),
            source = Retry, lookaheadMinutes = MAX_SLOT_LOOKAHEAD_MINUTES P,
            nowDate = r_newDate io, clock = r_slotClock io\<rparr> = (tbl, Some slot)"
    and "r_sendError io = None"
  shows "scheduleRetryDispatch P st message (Some n) mx io =
         \<lparr>rs_store = st\<lparr>dispatch_minute_load := tbl\<rparr>, rs_ok = True, rs_reason = None,
          rs_sent = [(message\<lparr>dispatchAttempt := Some (n + 1),
                              enqueuedAt := toISOString P (r_enqueuedAt io)\<rparr>,
                      if computeDelaySeconds (minuteStart slot) (r_sendDateNow io) > 0
                      then Some (computeDelaySeconds (minuteStart slot) (r_sendDateNow io))
                      else None)]\<rparr>"
  using assms
  by (simp add: scheduleRetryDispatch_def computeRetryBackoffMs_formula sendToDispatchQueue_def Let_def)




text \<open>
  Claim C3, at a message whose body is well formed in its six other keys and holds
  \<open>dispatchAttempt = 0\<close>, for an instance that answers 200 and accepts. The schema
  accepts the body, and the parsed data has no \<open>dispatchAttempt\<close>. The consumer does not
  drop the message: it dispatches with an attempt number that is \<open>undefined\<close>, an
  exception leaves the handler, and the message is not acknowledged. A body that the
  schema rejects is acknowledged and dropped, and nothing is written.
\<close>

theorem dispatchAttempt_not_parsed_example:
  "dispatchMessageSchema_safeParse example_platform (body (example_message ''0'')) =
     Some \<lparr>deliveryId = ''dlv_1'', instanceId = ''ins_1'',
           siteId = ''123e4567-e89b-12d3-a456-426614174000'', siteUrl = ''https://site.test'',
           scheduledFor = ''2026-01-01T00:00:00.000Z'',
           enqueuedAt = ''2026-01-01T00:00:00.000Z'', dispatchAttempt = None\<rparr> \<and>
   handleQueue_message example_platform example_env example_queued_store
     (example_message ''0'') (example_consume_io (Response 200 ''{\"accepted\":true}'')) =
     \<lparr>c_store = example_queued_store, c_acked = False, c_retried = False, c_sent = [],
      c_threw = True\<rparr> \<and>
   handleQueue_message example_platform example_env example_queued_store
     \<lparr>body = JObj [(''deliveryId'', JStr ''dlv_1'')], attempts = 1\<rparr>
     (example_consume_io (Response 200 ''{\"accepted\":true}'')) =
     \<lparr>c_store = example_queued_store, c_acked = True, c_retried = False, c_sent = [],
      c_threw = False\<rparr>"
proof -
  let ?io = "example_consume_io (Response 200 ''{\"accepted\":true}'')"
  have p: "dispatchMessageSchema_safeParse example_platform (body (example_message ''0'')) =
     Some \<lparr>deliveryId = ''dlv_1'', instanceId = ''ins_1'',
           siteId = ''123e4567-e89b-12d3-a456-426614174000'', siteUrl = ''https://site.test'',
           scheduledFor = ''2026-01-01T00:00:00.000Z'',
           enqueuedAt = ''2026-01-01T00:00:00.000Z'', dispatchAttempt = None\<rparr>"
    using example_parse[of "''0''"] by (simp add: example_dispatch_message_def)
  have q: "dispatchMessageSchema_safeParse example_platform
             (body \<lparr>body = JObj [(''deliveryId'', JStr ''dlv_1'')], attempts = 1\<rparr>) = None"
    by (simp add: dispatchMessageSchema_safeParse_def stringField_def)
  show ?thesis
    using p handleQueue_message_throws[where env = example_env and st = example_queued_store and io = "?io",
        OF example_parse[of "''0''"]]
      handleQueue_message_invalid[where env = example_env and st = example_queued_store and io = "?io",
        OF q]
    by simp
qed

lemma foldl_assignProperty:
  "distinct (map fst (acc @ es)) \<Longrightarrow>
   foldl (\<lambda>result (key, v). assignProperty result key v) acc es =
     acc @ filter (\<lambda>(k, v). k \<noteq> ''__proto__'') es"
proof (induction es arbitrary: acc)
  case Nil
  then show ?case by simp
next
  case (Cons e es)
  obtain k v where e: "e = (k, v)" by (cases e)
  show ?case
  proof (cases "k = ''__proto__''")
    case True
    have d: "distinct (map fst (acc @ es))" using Cons.prems e by auto
    show ?thesis using Cons.IH[OF d] e True by (simp add: assignProperty_def)
  next
    case False
    have notin: "k \<notin> set (map fst acc)" using Cons.prems e by auto
    have d: "distinct (map fst ((acc @ [(k, v)]) @ es))" using Cons.prems e by auto
    have a: "assignProperty acc k v = acc @ [(k, v)]"
      using False notin by (simp add: assignProperty_def)
    show ?thesis using Cons.IH[OF d] e False a by simp
  qed
qed

lemma mset_ownPropertyOrder [simp]: "mset (ownPropertyOrder xs) = mset xs"
  by (simp add: ownPropertyOrder_def)

lemma set_ownPropertyOrder [simp]: "set (ownPropertyOrder xs) = set xs"
  by (metis mset_ownPropertyOrder set_mset_mset)

lemma distinct_keys_mset:
  "mset xs = mset ys \<Longrightarrow> distinct (map fst xs) \<Longrightarrow> distinct (map fst ys)"
  by (metis mset_map mset_eq_imp_distinct_iff)

lemma filter_same_key:
  "distinct (map fst xs) \<Longrightarrow> k \<in> set xs \<Longrightarrow> filter (\<lambda>x. fst k = fst x) xs = [k]"
proof (induction xs)
  case Nil
  then show ?case by simp
next
  case (Cons a xs)
  show ?case
  proof (cases "a = k")
    case True
    have "\<forall>x \<in> set xs. fst k \<noteq> fst x" using Cons.prems(1) True by (auto simp: image_iff)
    then have "filter (\<lambda>x. fst k = fst x) xs = []" by (simp add: filter_empty_conv)
    then show ?thesis using True by simp
  next
    case False
    then have kin: "k \<in> set xs" using Cons.prems(2) by simp
    have "fst k \<noteq> fst a" using Cons.prems(1) kin by (auto simp: image_iff)
    then show ?thesis using Cons.IH kin Cons.prems(1) by simp
  qed
qed

lemma sort_key_fst_perm:
  assumes m: "mset xs = mset ys" and d: "distinct (map fst xs)"
  shows "sort_key fst xs = sort_key fst ys"
proof (rule properties_for_sort_key)
  show "mset (sort_key fst ys) = mset xs" using m by simp
next
  fix k assume k: "k \<in> set (sort_key fst ys)"
  have dy: "distinct (map fst ys)" by (rule distinct_keys_mset[OF m d])
  have ds: "distinct (map fst (sort_key fst ys))"
    by (rule distinct_keys_mset[of ys]) (simp_all add: dy)
  have kx: "k \<in> set xs" using k m by (metis set_sort mset_eq_setD)
  show "filter (\<lambda>x. fst k = fst x) (sort_key fst ys) = filter (\<lambda>x. fst k = fst x) xs"
    using filter_same_key[OF ds k] filter_same_key[OF d kx] by simp
next
  show "sorted (map fst (sort_key fst ys))" by simp
qed

lemma sortValue_object:
  assumes "distinct (map fst record)"
  shows "sortValue (JObj record) = JObj (canonEntries (map (map_prod id sortValue) record))"
proof -
  let ?es = "map (map_prod id sortValue) record"
  have k: "map fst ?es = map fst record" by (simp add: comp_def)
  have d: "distinct (map fst ([] @ sort_key fst ?es))"
    using distinct_keys_mset[of ?es "sort_key fst ?es"] k assms by simp
  show ?thesis
    using foldl_assignProperty[OF d] by (simp add: canonEntries_def)
qed

lemma canonEntries_perm:
  "mset xs = mset ys \<Longrightarrow> distinct (map fst xs) \<Longrightarrow> canonEntries xs = canonEntries ys"
  by (simp add: canonEntries_def sort_key_fst_perm)

lemma canonEntries_idem:
  assumes d: "distinct (map fst es)"
  shows "canonEntries (canonEntries es) = canonEntries es"
proof -
  let ?F = "filter (\<lambda>(k, v). k \<noteq> ''__proto__'')"
  let ?S = "sort_key fst es"
  have dS: "distinct (map fst ?S)" using distinct_keys_mset[of es ?S] d by simp
  have dF: "distinct (map fst (?F ?S))" using dS by (simp add: distinct_map_filter)
  have m: "mset (canonEntries es) = mset (?F ?S)" by (simp add: canonEntries_def)
  have dC: "distinct (map fst (canonEntries es))"
    by (rule distinct_keys_mset[OF m[symmetric] dF])
  have sF: "sorted (map fst (?F ?S))"
    by (metis sorted_filter sorted_sort_key)
  have "sort_key fst (canonEntries es) = sort_key fst (?F ?S)"
    by (rule sort_key_fst_perm[OF m dC])
  also have "\<dots> = ?F ?S" using sF by (simp add: sort_key_id_if_sorted)
  finally have s: "sort_key fst (canonEntries es) = ?F ?S" .
  show ?thesis
    unfolding canonEntries_def[of "canonEntries es"] s by (simp add: canonEntries_def)
qed


lemma set_canonEntries: "set (canonEntries es) \<subseteq> set es"
  by (auto simp: canonEntries_def)

lemma distinct_canonEntries:
  assumes "distinct (map fst es)"
  shows "distinct (map fst (canonEntries es))"
proof -
  have dS: "distinct (map fst (sort_key fst es))"
    using distinct_keys_mset[of es "sort_key fst es"] assms by simp
  have dF: "distinct (map fst (filter (\<lambda>(k, v). k \<noteq> ''__proto__'') (sort_key fst es)))"
    using dS by (simp add: distinct_map_filter)
  show ?thesis
    by (rule distinct_keys_mset[OF _ dF]) (simp add: canonEntries_def)
qed

lemma distinctKeys_object:
  "distinctKeys (JObj record) \<longleftrightarrow>
     distinct (map fst record) \<and> (\<forall>(k, v) \<in> set record. distinctKeys v)"
  by (auto simp: list_all_iff)

lemma sortValue_idem: "distinctKeys x \<Longrightarrow> sortValue (sortValue x) = sortValue x"
proof (induction x)
  case (JArr items)
  then show ?case by (simp add: list_all_iff)
next
  case (JObj rcd)
  let ?es = "map (map_prod id sortValue) rcd"
  have dv: "distinct (map fst rcd) \<and> (\<forall>(k, v) \<in> set rcd. distinctKeys v)"
    by (rule distinctKeys_object[THEN iffD1, OF JObj.prems])
  have d: "distinct (map fst rcd)" and vs: "\<forall>(k, v) \<in> set rcd. distinctKeys v"
    using dv by blast+
  have des: "distinct (map fst ?es)" using d by (simp add: comp_def)
  have fixd: "\<forall>e \<in> set ?es. map_prod id sortValue e = e"
  proof
    fix e assume "e \<in> set ?es"
    then obtain k v where kv: "(k, v) \<in> set rcd" and e: "e = (k, sortValue v)"
      by auto
    have "distinctKeys v" using vs kv by auto
    then have "sortValue (sortValue v) = sortValue v"
      using JObj.IH[of "(k, v)" v] kv by simp
    then show "map_prod id sortValue e = e" using e by simp
  qed
  have fixC: "map (map_prod id sortValue) (canonEntries ?es) = canonEntries ?es"
  proof (rule map_idI)
    fix e assume "e \<in> set (canonEntries ?es)"
    then have "e \<in> set ?es" using set_canonEntries[of ?es] by blast
    then show "map_prod id sortValue e = e" using fixd by blast
  qed
  have "sortValue (sortValue (JObj rcd)) = sortValue (JObj (canonEntries ?es))"
    by (simp only: sortValue_object[OF d])
  also have "\<dots> = JObj (canonEntries (map (map_prod id sortValue) (canonEntries ?es)))"
    by (rule sortValue_object[OF distinct_canonEntries[OF des]])
  also have "\<dots> = JObj (canonEntries ?es)"
    by (simp only: fixC canonEntries_idem[OF des])
  also have "\<dots> = sortValue (JObj rcd)"
    by (simp only: sortValue_object[OF d])
  finally show ?case .
qed simp_all

lemma canonicalStringify_idem:
  "distinctKeys x \<Longrightarrow> canonicalStringify (sortValue x) = canonicalStringify x"
  by (simp add: canonicalStringify_def sortValue_idem)

lemma sortValue_key_order:
  assumes "mset rcd = mset rcd'" and "distinct (map fst rcd)"
  shows "sortValue (JObj rcd) = sortValue (JObj rcd')"
proof -
  have d': "distinct (map fst rcd')" by (rule distinct_keys_mset[OF assms])
  have m: "mset (map (map_prod id sortValue) rcd) = mset (map (map_prod id sortValue) rcd')"
    using assms(1) by simp
  have dm: "distinct (map fst (map (map_prod id sortValue) rcd))"
    using assms(2) by (simp add: comp_def)
  show ?thesis
    by (simp only: sortValue_object[OF assms(2)] sortValue_object[OF d']
        canonEntries_perm[OF m dm])
qed

lemma sortValue_keyPermuted:
  "keyPermuted x y \<Longrightarrow> distinctKeys x \<Longrightarrow> sortValue x = sortValue y"
proof (induction rule: keyPermuted.induct)
  case (kp_refl x)
  then show ?case by simp
next
  case (kp_arr items items')
  have "list_all2 (\<lambda>a b. sortValue a = sortValue b) items items'"
    using kp_arr.IH kp_arr.prems
    by (auto simp: list_all2_conv_all_nth list_all_length)
  then have "map sortValue items = map sortValue items'"
    by (induction rule: list_all2_induct) simp_all
  then show ?case by simp
next
  case (kp_obj rcd rcd' rcd'')
  have dv: "distinct (map fst rcd) \<and> (\<forall>(k, v) \<in> set rcd. distinctKeys v)"
    by (rule distinctKeys_object[THEN iffD1, OF kp_obj.prems])
  have d: "distinct (map fst rcd)" and vs: "\<forall>(k, v) \<in> set rcd. distinctKeys v"
    using dv by blast+
  have rel: "list_all2 (\<lambda>a b. fst a = fst b \<and> sortValue (snd a) = sortValue (snd b)) rcd rcd'"
    using kp_obj.IH vs
    by (auto simp: list_all2_conv_all_nth split_beta)
  then have eq: "map (map_prod id sortValue) rcd = map (map_prod id sortValue) rcd'"
    by (induction rule: list_all2_induct) (auto simp: map_prod_def split_beta)
  have keys: "map fst rcd = map fst rcd'"
    using rel by (induction rule: list_all2_induct) simp_all
  have d': "distinct (map fst rcd')" using d keys by simp
  have "sortValue (JObj rcd) = sortValue (JObj rcd')"
    by (simp only: sortValue_object[OF d] sortValue_object[OF d'] eq)
  also have "\<dots> = sortValue (JObj rcd'')"
    by (rule sortValue_key_order[OF kp_obj.hyps(1) d'])
  finally show ?case .
qed

text \<open>
  Claim C7, at the object with the keys \<open>2\<close> and \<open>10\<close>. \<open>sortValue\<close> sorts the keys
  to \<open>10, 2\<close> (the lexicographic order) and assigns them in that order, but the object
  it returns enumerates \<open>2\<close> before \<open>10\<close>, and so does the canonical text: the keys
  of the output are not in lexicographic order. (The other parts of the claim hold for
  every value: \<open>sortValue_idem\<close>, \<open>canonicalStringify_idem\<close>,
  \<open>sortValue_keyPermuted\<close>, and arrays keep their order by the equation of
  \<open>sortValue\<close> for arrays.)
\<close>

theorem canonicalStringify_index_keys_example:
  \<open>sort_key fst [(''2'', JNum ''2''), (''10'', JNum ''1'')] =
     [(''10'', JNum ''1''), (''2'', JNum ''2'')] \<and>
   sortValue (JObj [(''2'', JNum ''2''), (''10'', JNum ''1'')]) =
     JObj [(''2'', JNum ''2''), (''10'', JNum ''1'')] \<and>
   canonicalStringify (JObj [(''2'', JNum ''2''), (''10'', JNum ''1'')]) = ''{"2":2,"10":1}'' \<and>
   canonicalStringify (JObj [(''10'', JNum ''1''), (''2'', JNum ''2'')]) = ''{"2":2,"10":1}'' \<and>
   \<not> sorted (map fst [(''2'', JNum ''2''), (''10'', JNum ''1'')])\<close>
  by (simp add: canonicalStringify_def ownPropertyOrder_def assignProperty_def isArrayIndex_def
      isDecimalDigit_def digitsValue_def digitValue_def quoteJson_def escapeChar_def)

end
